theory Spec2Isabelle
  imports Complex_Main
begin

section \<open>The Trainer of lib/train.py\<close>

text \<open>
  A shallow embedding of the class \<open>Trainer\<close> of \<open>lib/train.py\<close>: its loss functions, its
  configuration and checkpoint persistence, the training step, the sample callback and the
  epoch loop. Every method is a HOL function of the same name, taking the object as its
  first argument where it reads it, and the whole program state where it changes it.
\<close>

subsection \<open>Python values and errors\<close>

text \<open>
  The attributes that \<open>load_config\<close> assigns come out of \<open>json.load\<close> unchecked, so they can
  hold any value JSON can express. \<open>pyval\<close> is the type of those values; \<open>PDict\<close> lists the
  items of a dict, looked up by key.
\<close>

datatype pyval =
    PNone
  | PBool bool
  | PInt int
  | PFloat real
  | PStr string
  | PList "pyval list"
  | PDict "(string \<times> pyval) list"

text \<open>The exceptions the modelled code can raise; \<open>Exception\<close> carries its message.\<close>

datatype error =
    Exception string
  | TypeError
  | KeyError
  | ZeroDivisionError
  | JSONDecodeError
  | IsADirectoryError
  | OSError
  | InvalidArgumentError

text \<open>Sequencing of computations that may raise: the first error ends the computation.\<close>

definition bind_err :: "error + 'a \<Rightarrow> ('a \<Rightarrow> error + 'b) \<Rightarrow> error + 'b" where
  "bind_err m f = (case m of Inl e \<Rightarrow> Inl e | Inr v \<Rightarrow> f v)"

subsection \<open>Floating-point values and tensors\<close>

text \<open>
  A floating-point value is a real number, an infinity or \<open>NaN\<close>. The arithmetic on them
  follows IEEE 754 in everything but rounding and overflow, which are not modelled: a
  finite result is the exact one, the two zeros are one, and an operation is \<open>NaN\<close> where
  IEEE makes it so (\<open>inf - inf\<close>, \<open>0 * inf\<close>, \<open>0 / 0\<close>, any \<open>NaN\<close> operand).
\<close>

datatype scalar = Num real | PosInf | NegInf | NaN


fun sneg :: "scalar \<Rightarrow> scalar" where
  "sneg (Num a) = Num (- a)"
| "sneg PosInf = NegInf"
| "sneg NegInf = PosInf"
| "sneg NaN = NaN"

fun sadd :: "scalar \<Rightarrow> scalar \<Rightarrow> scalar" where
  "sadd NaN b = NaN"
| "sadd a NaN = NaN"
| "sadd (Num a) (Num b) = Num (a + b)"
| "sadd PosInf NegInf = NaN"
| "sadd NegInf PosInf = NaN"
| "sadd PosInf b = PosInf"
| "sadd a PosInf = PosInf"
| "sadd NegInf b = NegInf"
| "sadd a NegInf = NegInf"

definition ssub :: "scalar \<Rightarrow> scalar \<Rightarrow> scalar" where
  "ssub a b = sadd a (sneg b)"

text \<open>The product of an infinity and a finite value, by the sign of the finite value.\<close>

definition scaled_infinity :: "real \<Rightarrow> scalar \<Rightarrow> scalar" where
  "scaled_infinity a infinity = (if a = 0 then NaN else if 0 < a then infinity else sneg infinity)"

fun smul :: "scalar \<Rightarrow> scalar \<Rightarrow> scalar" where
  "smul NaN b = NaN"
| "smul a NaN = NaN"
| "smul (Num a) (Num b) = Num (a * b)"
| "smul (Num a) b = scaled_infinity a b"
| "smul a (Num b) = scaled_infinity b a"
| "smul PosInf b = b"
| "smul NegInf b = sneg b"

fun sabs :: "scalar \<Rightarrow> scalar" where
  "sabs (Num a) = Num \<bar>a\<bar>"
| "sabs NaN = NaN"
| "sabs _ = PosInf"

text \<open>\<open>a <= b\<close>: false when an operand is \<open>NaN\<close>.\<close>

fun sle :: "scalar \<Rightarrow> scalar \<Rightarrow> bool" where
  "sle NaN b = False"
| "sle a NaN = False"
| "sle NegInf b = True"
| "sle a PosInf = True"
| "sle (Num a) (Num b) = (a \<le> b)"
| "sle a b = False"

text \<open>\<open>tf.maximum\<close> and \<open>tf.minimum\<close>, which pass a \<open>NaN\<close> on.\<close>

definition smax :: "scalar \<Rightarrow> scalar \<Rightarrow> scalar" where
  "smax a b = (if a = NaN \<or> b = NaN then NaN else if sle a b then b else a)"

definition smin :: "scalar \<Rightarrow> scalar \<Rightarrow> scalar" where
  "smin a b = (if a = NaN \<or> b = NaN then NaN else if sle a b then a else b)"

fun sexp :: "scalar \<Rightarrow> scalar" where
  "sexp (Num a) = Num (exp a)"
| "sexp PosInf = PosInf"
| "sexp NegInf = Num 0"
| "sexp NaN = NaN"

fun slog :: "scalar \<Rightarrow> scalar" where
  "slog (Num a) = (if 0 < a then Num (ln a) else if a = 0 then NegInf else NaN)"
| "slog PosInf = PosInf"
| "slog _ = NaN"

definition slog1p :: "scalar \<Rightarrow> scalar" where
  "slog1p a = slog (sadd (Num 1) a)"

text \<open>A sum divided by a count: \<open>0 / 0\<close> is \<open>NaN\<close>.\<close>

fun over_count :: "scalar \<Rightarrow> nat \<Rightarrow> scalar" where
  "over_count (Num a) n = (if n = 0 then scaled_infinity a PosInf else Num (a / real n))"
| "over_count a n = a"

text \<open>
  A tensor is a floating-point tensor, as the image batches and the outputs of the networks
  are, modelled at rank 1: the list of its elements. Integer tensors are outside the model.
\<close>

type_synonym tensor = "scalar list"

text \<open>
  An elementwise operation on two rank-1 tensors: equal sizes pair up, a tensor of one
  element is broadcast, any other pair of sizes is rejected.
\<close>

definition elementwise ::
  "(scalar \<Rightarrow> scalar \<Rightarrow> scalar) \<Rightarrow> tensor \<Rightarrow> tensor \<Rightarrow> error + tensor" where
  "elementwise f a b =
     (if length a = length b then Inr (map2 f a b)
      else if length a = 1 then Inr (map (f (hd a)) b)
      else if length b = 1 then Inr (map (\<lambda>x. f x (hd b)) a)
      else Inl InvalidArgumentError)"

definition tf_abs :: "tensor \<Rightarrow> tensor" where
  "tf_abs x = map sabs x"

text \<open>\<open>tf.reduce_mean\<close>: the sum of the elements over their number, \<open>NaN\<close> for no elements.\<close>

definition reduce_mean :: "tensor \<Rightarrow> scalar" where
  "reduce_mean x = over_count (foldr sadd x (Num 0)) (length x)"

definition ones_like :: "tensor \<Rightarrow> tensor" where
  "ones_like x = replicate (length x) (Num 1)"

definition zeros_like :: "tensor \<Rightarrow> tensor" where
  "zeros_like x = replicate (length x) (Num 0)"

text \<open>
  \<open>tf.keras.losses.BinaryCrossentropy\<close>, by its flag \<open>from_logits\<close>. With the flag, the loss
  of a label \<open>z\<close> and a logit \<open>x\<close> is TensorFlow's \<open>sigmoid_cross_entropy_with_logits\<close>, which
  computes \<open>max(x, 0) - x * z + log(1 + exp(-abs(x)))\<close> by a test of \<open>x >= 0\<close>; without it, the
  prediction is a probability, clipped away from 0 and 1 by \<open>epsilon\<close>. The loss of a tensor
  is the mean over its elements.
\<close>

definition sigmoid_cross_entropy_with_logits :: "scalar \<Rightarrow> scalar \<Rightarrow> scalar" where
  "sigmoid_cross_entropy_with_logits z x =
     (let cond = sle (Num 0) x;
          relu_logits = (if cond then x else Num 0);
          neg_abs_logits = (if cond then sneg x else x)
      in sadd (ssub relu_logits (smul x z)) (slog1p (sexp neg_abs_logits)))"

definition epsilon :: real where
  "epsilon = 1 / 10 ^ 7"

definition binary_crossentropy_of_probability :: "scalar \<Rightarrow> scalar \<Rightarrow> scalar" where
  "binary_crossentropy_of_probability z p =
     (let q = smin (smax p (Num epsilon)) (Num (1 - epsilon));
          bce = sadd (smul z (slog (sadd q (Num epsilon))))
                  (smul (ssub (Num 1) z) (slog (sadd (ssub (Num 1) q) (Num epsilon))))
      in sneg bce)"

definition BinaryCrossentropy :: "bool \<Rightarrow> tensor \<Rightarrow> tensor \<Rightarrow> error + scalar" where
  "BinaryCrossentropy from_logits y_true y_pred =
     bind_err
       (elementwise
          (if from_logits then sigmoid_cross_entropy_with_logits
           else binary_crossentropy_of_probability) y_true y_pred)
       (\<lambda>losses. Inr (reduce_mean losses))"

subsection \<open>The Trainer object\<close>

text \<open>
  A network is an opaque function of its weights, the \<open>training\<close> flag and its input. An
  optimizer holds its running state; its \<open>minimize\<close> stands for \<open>tape.gradient\<close> followed by
  \<open>apply_gradients\<close>: from the recorded loss, as a function of the network's weights, and
  the current weights it gives the new weights and its new state.
\<close>

record 'w network =
  call :: "'w \<Rightarrow> bool \<Rightarrow> tensor \<Rightarrow> tensor"
  weights :: 'w

record ('w, 'o) optimizer =
  slots :: 'o
  minimize :: "'o \<Rightarrow> ('w \<Rightarrow> error + scalar) \<Rightarrow> 'w \<Rightarrow> 'w \<times> 'o"

record ('w, 'o) Trainer =
  LAMBDA :: scalar
  generator_clear2fog :: "'w network"
  generator_fog2clear :: "'w network"
  discriminator_fog :: "'w network"
  discriminator_clear :: "'w network"
  normalized_input :: bool
  generator_clear2fog_optimizer :: "('w, 'o) optimizer"
  generator_fog2clear_optimizer :: "('w, 'o) optimizer"
  discriminator_fog_optimizer :: "('w, 'o) optimizer"
  discriminator_clear_optimizer :: "('w, 'o) optimizer"
  weights_path :: pyval
  tensorboard_base_logdir :: pyval
  total_epochs :: pyval
  image_log_path :: pyval
  config_path :: "string option"
  tensorboard_current_logdir :: pyval

text \<open>\<open>self.loss_obj\<close>, set once by the constructor.\<close>

definition loss_obj :: "tensor \<Rightarrow> tensor \<Rightarrow> error + scalar" where
  "loss_obj = BinaryCrossentropy True"

text \<open>
  The constructor. Adam's learning rate and \<open>beta_1\<close> are inside the optimizer the caller
  passes for \<open>adam\<close>; each network gets its own copy.
\<close>

definition init ::
  "'w network \<Rightarrow> 'w network \<Rightarrow> 'w network \<Rightarrow> 'w network \<Rightarrow> scalar \<Rightarrow> ('w, 'o) optimizer \<Rightarrow> bool
     \<Rightarrow> ('w, 'o) Trainer" where
  "init g_clear2fog g_fog2clear d_fog d_clear lam adam normalized =
     \<lparr> LAMBDA = lam,
       generator_clear2fog = g_clear2fog,
       generator_fog2clear = g_fog2clear,
       discriminator_fog = d_fog,
       discriminator_clear = d_clear,
       normalized_input = normalized,
       generator_clear2fog_optimizer = adam,
       generator_fog2clear_optimizer = adam,
       discriminator_fog_optimizer = adam,
       discriminator_clear_optimizer = adam,
       weights_path = PNone,
       tensorboard_base_logdir = PStr ''tensorboard_logs'',
       total_epochs = PInt 0,
       image_log_path = PStr ''image_logs'',
       config_path = Some ''trainer_config.json'',
       tensorboard_current_logdir = PNone \<rparr>"

subsection \<open>The loss functions\<close>

text \<open>
  \<open>LAMBDA\<close> is the Python number passed to the constructor, held as a floating-point value;
  \<open>self.LAMBDA * 0.5 * loss\<close> multiplies from the left.
\<close>

definition discriminator_loss :: "tensor \<Rightarrow> tensor \<Rightarrow> error + scalar" where
  "discriminator_loss real' generated =
     bind_err (loss_obj (ones_like real') real') (\<lambda>real_loss.
     bind_err (loss_obj (zeros_like generated) generated) (\<lambda>generated_loss.
       let total_disc_loss = sadd real_loss generated_loss
       in Inr (smul total_disc_loss (Num (1 / 2)))))"

definition generator_loss :: "tensor \<Rightarrow> error + scalar" where
  "generator_loss generated = loss_obj (ones_like generated) generated"

definition calc_cycle_loss :: "('w, 'o) Trainer \<Rightarrow> tensor \<Rightarrow> tensor \<Rightarrow> error + scalar" where
  "calc_cycle_loss self real_image cycled_image =
     bind_err (elementwise ssub real_image cycled_image) (\<lambda>diff.
       let loss1 = reduce_mean (tf_abs diff)
       in Inr (smul (LAMBDA self) loss1))"

definition identity_loss :: "('w, 'o) Trainer \<Rightarrow> tensor \<Rightarrow> tensor \<Rightarrow> error + scalar" where
  "identity_loss self real_image same_image =
     bind_err (elementwise ssub real_image same_image) (\<lambda>diff.
       let loss = reduce_mean (tf_abs diff)
       in Inr (smul (smul (LAMBDA self) (Num (1 / 2))) loss))"

subsection \<open>Files, output and the program state\<close>

text \<open>
  The file system maps a path to what is stored there; a file is kept as the value it
  holds (the JSON document, the weights of a network) rather than as bytes, so that
  \<open>json.dump\<close> and \<open>json.load\<close>, and \<open>save_weights\<close> and \<open>load_weights\<close>, are inverse by
  construction. Whether the parent directory of a path exists is not tracked.
\<close>

datatype 'w entry = Directory | JsonFile pyval | WeightsFile 'w | OtherFile

text \<open>The four networks, as \<open>get_models_and_paths\<close> lists them.\<close>

datatype model = GeneratorClear2Fog | GeneratorFog2Clear | DiscriminatorClear | DiscriminatorFog

text \<open>
  What the program prints and which collaborators it calls, in order. A printed line is
  kept as its format string and the arguments of \<open>format\<close>; time stamps and durations are
  left out. \<open>Inference m x\<close> is a call of the network \<open>m\<close> on \<open>x\<close> by the sample callback.
\<close>

datatype event =
    Print string "pyval list"
  | Inference model tensor
  | PrintWithTimestamp string "pyval list"
  | PrintLosses scalar scalar scalar scalar
  | Plot string "tensor list" bool
  | Savefig string string pyval
  | Show
  | WriteFile string string pyval
  | ClearOutputCallback
  | CreateFileWriter string
  | SummaryScalar string string scalar pyval string

record ('w, 'o) state =
  self :: "('w, 'o) Trainer"
  files :: "string \<rightharpoonup> 'w entry"
  out :: "event list"

text \<open>A statement: from a state, an error or a value, and the state it leaves.\<close>

type_synonym ('s, 'a) prog = "'s \<Rightarrow> (error + 'a) \<times> 's"

definition return :: "'a \<Rightarrow> ('s, 'a) prog" where
  "return v s = (Inr v, s)"

definition raise :: "error \<Rightarrow> ('s, 'a) prog" where
  "raise e s = (Inl e, s)"

definition bind :: "('s, 'a) prog \<Rightarrow> ('a \<Rightarrow> ('s, 'b) prog) \<Rightarrow> ('s, 'b) prog" where
  "bind m f s = (case m s of (Inl e, s') \<Rightarrow> (Inl e, s') | (Inr v, s') \<Rightarrow> f v s')"

definition seq :: "('s, unit) prog \<Rightarrow> ('s, 'b) prog \<Rightarrow> ('s, 'b) prog" where
  "seq m n = bind m (\<lambda>_. n)"

definition lift :: "error + 'a \<Rightarrow> ('s, 'a) prog" where
  "lift r s = (r, s)"

definition emit :: "event \<Rightarrow> (('w, 'o) state, unit) prog" where
  "emit e s = (Inr (), s\<lparr>out := out s @ [e]\<rparr>)"

subsection \<open>Paths and dict access\<close>

text \<open>\<open>os.path.join\<close> and \<open>os.path.dirname\<close> of \<open>posixpath\<close>.\<close>

definition path_join :: "string \<Rightarrow> string \<Rightarrow> string" where
  "path_join a b =
     (if b \<noteq> [] \<and> hd b = CHR ''/'' then b
      else if a = [] \<or> last a = CHR ''/'' then a @ b
      else a @ ''/'' @ b)"

definition dirname :: "string \<Rightarrow> string" where
  "dirname p =
     (let head = rev (dropWhile (\<lambda>c. c \<noteq> CHR ''/'') (rev p))
      in if head \<noteq> [] \<and> filter (\<lambda>c. c \<noteq> CHR ''/'') head \<noteq> []
         then rev (dropWhile (\<lambda>c. c = CHR ''/'') (rev head))
         else head)"

text \<open>\<open>os.path.join\<close> on an attribute: anything but a string is a \<open>TypeError\<close>.\<close>

definition join_attr :: "pyval \<Rightarrow> string \<Rightarrow> error + string" where
  "join_attr a b = (case a of PStr p \<Rightarrow> Inr (path_join p b) | _ \<Rightarrow> Inl TypeError)"

text \<open>
  \<open>key in config\<close> and \<open>config[key]\<close> for a string key. A dict is tested by key, a list by
  element, a string by substring; the other values are not iterable. Only a dict can be
  indexed by a string.
\<close>

fun is_prefix :: "string \<Rightarrow> string \<Rightarrow> bool" where
  "is_prefix [] ys = True"
| "is_prefix (x # xs) [] = False"
| "is_prefix (x # xs) (y # ys) = (x = y \<and> is_prefix xs ys)"

fun is_substring :: "string \<Rightarrow> string \<Rightarrow> bool" where
  "is_substring xs [] = (xs = [])"
| "is_substring xs (y # ys) = (is_prefix xs (y # ys) \<or> is_substring xs ys)"

fun py_in :: "string \<Rightarrow> pyval \<Rightarrow> error + bool" where
  "py_in k (PDict items) = Inr (map_of items k \<noteq> None)"
| "py_in k (PList xs) = Inr (List.member xs (PStr k))"
| "py_in k (PStr s) = Inr (is_substring k s)"
| "py_in k _ = Inl TypeError"

fun py_getitem :: "pyval \<Rightarrow> string \<Rightarrow> error + pyval" where
  "py_getitem (PDict items) k = (case map_of items k of None \<Rightarrow> Inl KeyError | Some v \<Rightarrow> Inr v)"
| "py_getitem _ k = Inl TypeError"

subsection \<open>Configuration persistence\<close>

text \<open>
  Modelled from the spec: the directory-creation utility \<open>tools.create_dir\<close> (\<open>lib/tools.py\<close>
  is not among the sources). It creates the directory where nothing exists yet and is
  taken to succeed.
\<close>

definition create_dir :: "string \<Rightarrow> (('w, 'o) state, unit) prog" where
  "create_dir p s =
     (Inr (), if files s p = None then s\<lparr>files := (files s)(p \<mapsto> Directory)\<rparr> else s)"

text \<open>\<open>open(path, 'w')\<close> followed by \<open>json.dump\<close>.\<close>

definition write_json :: "string \<Rightarrow> pyval \<Rightarrow> (('w, 'o) state, unit) prog" where
  "write_json p v s =
     (if files s p = Some Directory then (Inl IsADirectoryError, s)
      else (Inr (), s\<lparr>files := (files s)(p \<mapsto> JsonFile v)\<rparr>))"

definition save_config :: "(('w, 'o) state, unit) prog" where
  "save_config s =
     (let config = PDict
            [(''weights_path'', weights_path (self s)),
             (''tensorboard_base_logdir'', tensorboard_base_logdir (self s)),
             (''tensorboard_current_logdir'', tensorboard_current_logdir (self s)),
             (''total_epochs'', total_epochs (self s)),
             (''image_log_path'', image_log_path (self s))]
      in case config_path (self s) of
           None \<Rightarrow> (Inl TypeError, s)
         | Some p \<Rightarrow>
             seq (create_dir (dirname p))
            (seq (write_json p config)
                 (emit (Print ''Trainer config saved in {}'' [PStr p]))) s)"

text \<open>\<open>if key in config: self.field = config[key]\<close>, for the field that \<open>assign\<close> sets.\<close>

definition load_key ::
  "pyval \<Rightarrow> string \<Rightarrow> (pyval \<Rightarrow> ('w, 'o) Trainer \<Rightarrow> ('w, 'o) Trainer)
     \<Rightarrow> (('w, 'o) state, unit) prog" where
  "load_key config key assign =
     bind (lift (py_in key config)) (\<lambda>present.
       if present
       then bind (lift (py_getitem config key)) (\<lambda>v s. (Inr (), s\<lparr>self := assign v (self s)\<rparr>))
       else return ())"

definition load_config :: "bool \<Rightarrow> (('w, 'o) state, unit) prog" where
  "load_config load_tensorboard_current_logdir s =
     (case config_path (self s) of
        None \<Rightarrow> (Inl TypeError, s)
      | Some p \<Rightarrow>
         (case files s p of
            None \<Rightarrow> emit (Print ''Config path doesn't exist. Ignoring load config.'' []) s
          | Some Directory \<Rightarrow> (Inl IsADirectoryError, s)
          | Some (JsonFile config) \<Rightarrow>
              seq (load_key config ''weights_path'' (\<lambda>v t. t\<lparr>weights_path := v\<rparr>))
             (seq (load_key config ''tensorboard_base_logdir''
                     (\<lambda>v t. t\<lparr>tensorboard_base_logdir := v\<rparr>))
             (seq (if load_tensorboard_current_logdir
                   then load_key config ''tensorboard_current_logdir''
                          (\<lambda>v t. t\<lparr>tensorboard_current_logdir := v\<rparr>)
                   else return ())
             (seq (load_key config ''total_epochs'' (\<lambda>v t. t\<lparr>total_epochs := v\<rparr>))
             (seq (load_key config ''image_log_path'' (\<lambda>v t. t\<lparr>image_log_path := v\<rparr>))
                  (emit (Print ''Trainer config loaded from {}'' [PStr p])))))) s
          | Some _ \<Rightarrow> (Inl JSONDecodeError, s)))"

subsection \<open>Checkpoints\<close>

fun get_model :: "model \<Rightarrow> ('w, 'o) Trainer \<Rightarrow> 'w network" where
  "get_model GeneratorClear2Fog t = generator_clear2fog t"
| "get_model GeneratorFog2Clear t = generator_fog2clear t"
| "get_model DiscriminatorClear t = discriminator_clear t"
| "get_model DiscriminatorFog t = discriminator_fog t"

fun set_weights :: "model \<Rightarrow> 'w \<Rightarrow> ('w, 'o) Trainer \<Rightarrow> ('w, 'o) Trainer" where
  "set_weights GeneratorClear2Fog w t =
     t\<lparr>generator_clear2fog := (generator_clear2fog t)\<lparr>weights := w\<rparr>\<rparr>"
| "set_weights GeneratorFog2Clear w t =
     t\<lparr>generator_fog2clear := (generator_fog2clear t)\<lparr>weights := w\<rparr>\<rparr>"
| "set_weights DiscriminatorClear w t =
     t\<lparr>discriminator_clear := (discriminator_clear t)\<lparr>weights := w\<rparr>\<rparr>"
| "set_weights DiscriminatorFog w t =
     t\<lparr>discriminator_fog := (discriminator_fog t)\<lparr>weights := w\<rparr>\<rparr>"

definition get_models_and_paths :: "('w, 'o) Trainer \<Rightarrow> error + (model list \<times> string list)" where
  "get_models_and_paths t =
     bind_err (join_attr (weights_path t) ''generator_clear2fog.h5'') (\<lambda>generator_clear2fog_weights_path.
     bind_err (join_attr (weights_path t) ''generator_fog2clear.h5'') (\<lambda>generator_fog2clear_weights_path.
     bind_err (join_attr (weights_path t) ''discriminator_clear.h5'') (\<lambda>discriminator_clear_weights_path.
     bind_err (join_attr (weights_path t) ''discriminator_fog.h5'') (\<lambda>discriminator_fog_weights_path.
       Inr ([GeneratorClear2Fog, GeneratorFog2Clear, DiscriminatorClear, DiscriminatorFog],
            [generator_clear2fog_weights_path,
             generator_fog2clear_weights_path,
             discriminator_clear_weights_path,
             discriminator_fog_weights_path])))))"

text \<open>
  \<open>model.load_weights(path)\<close> and \<open>model.save_weights(path)\<close> of the network objects: loading
  anything but a weights file fails, and so does saving over a directory.
\<close>

definition load_weights :: "model \<Rightarrow> string \<Rightarrow> (('w, 'o) state, unit) prog" where
  "load_weights m path s =
     (case files s path of
        Some (WeightsFile w) \<Rightarrow> (Inr (), s\<lparr>self := set_weights m w (self s)\<rparr>)
      | _ \<Rightarrow> (Inl OSError, s))"

definition save_weights_to :: "model \<Rightarrow> string \<Rightarrow> (('w, 'o) state, unit) prog" where
  "save_weights_to m path s =
     (if files s path = Some Directory then (Inl OSError, s)
      else (Inr (), s\<lparr>files := (files s)(path \<mapsto> WeightsFile (weights (get_model m (self s))))\<rparr>))"

definition isfile :: "('w, 'o) state \<Rightarrow> string \<Rightarrow> bool" where
  "isfile s path = (files s path \<noteq> None \<and> files s path \<noteq> Some Directory)"

fun restore_loop :: "(model \<times> string) list \<Rightarrow> (('w, 'o) state, unit) prog" where
  "restore_loop [] = return ()"
| "restore_loop ((m, path) # rest) =
     seq (\<lambda>s. if isfile s path
              then seq (load_weights m path) (emit (Print ''Weights loaded: {}'' [PStr path])) s
              else emit (Print ''Not found: {}'' [PStr path]) s)
         (restore_loop rest)"

definition configure_checkpoint :: "string \<Rightarrow> (('w, 'o) state, unit) prog" where
  "configure_checkpoint weights_path' =
     seq (\<lambda>s. (Inr (), s\<lparr>self := (self s)\<lparr>weights_path := PStr weights_path'\<rparr>\<rparr>))
    (bind (\<lambda>s. (get_models_and_paths (self s), s)) (\<lambda>(models, paths).
     seq (create_dir weights_path')
         (restore_loop (zip models paths))))"

fun save_loop :: "(model \<times> string) list \<Rightarrow> (('w, 'o) state, unit) prog" where
  "save_loop [] = return ()"
| "save_loop ((m, path) # rest) = seq (save_weights_to m path) (save_loop rest)"

definition save_weights :: "(('w, 'o) state, unit) prog" where
  "save_weights =
     bind (\<lambda>s. (get_models_and_paths (self s), s)) (\<lambda>(models, paths).
       save_loop (zip models paths))"

subsection \<open>The training step\<close>

text \<open>A forward pass of a network with its current weights.\<close>

definition run :: "'w network \<Rightarrow> bool \<Rightarrow> tensor \<Rightarrow> tensor" where
  "run net training x = call net (weights net) training x"

text \<open>The block recorded on the gradient tape: the forward passes and the four losses.\<close>

definition recorded_losses ::
  "('w, 'o) Trainer \<Rightarrow> tensor \<Rightarrow> tensor \<Rightarrow> error + (scalar \<times> scalar \<times> scalar \<times> scalar)" where
  "recorded_losses tr real_clear real_fog =
     (let fake_fog = run (generator_clear2fog tr) True real_clear;
          cycled_clear = run (generator_fog2clear tr) True fake_fog;
          fake_clear = run (generator_fog2clear tr) True real_fog;
          cycled_fog = run (generator_clear2fog tr) True fake_clear;
          same_clear = run (generator_fog2clear tr) True real_clear;
          same_fog = run (generator_clear2fog tr) True real_fog;
          disc_real_clear = run (discriminator_clear tr) True real_clear;
          disc_real_fog = run (discriminator_fog tr) True real_fog;
          disc_fake_clear = run (discriminator_clear tr) True fake_clear;
          disc_fake_fog = run (discriminator_fog tr) True fake_fog
      in bind_err (generator_loss disc_fake_fog) (\<lambda>gen_clear2fog_loss.
         bind_err (generator_loss disc_fake_clear) (\<lambda>gen_fog2clear_loss.
         bind_err (calc_cycle_loss tr real_clear cycled_clear) (\<lambda>cycle_clear.
         bind_err (calc_cycle_loss tr real_fog cycled_fog) (\<lambda>cycle_fog.
         let total_cycle_loss = sadd cycle_clear cycle_fog in
         bind_err (identity_loss tr real_fog same_fog) (\<lambda>identity_fog.
         let total_gen_clear2fog_loss =
               sadd (sadd gen_clear2fog_loss total_cycle_loss) identity_fog in
         bind_err (identity_loss tr real_clear same_clear) (\<lambda>identity_clear.
         let total_gen_fog2clear_loss =
               sadd (sadd gen_fog2clear_loss total_cycle_loss) identity_clear in
         bind_err (discriminator_loss disc_real_clear disc_fake_clear) (\<lambda>disc_clear_loss.
         bind_err (discriminator_loss disc_real_fog disc_fake_fog) (\<lambda>disc_fog_loss.
           Inr (total_gen_clear2fog_loss, total_gen_fog2clear_loss,
                disc_clear_loss, disc_fog_loss))))))))))"

text \<open>
  \<open>tape.gradient(loss, net.trainable_variables)\<close> and \<open>optimizer.apply_gradients\<close> for one
  network: \<open>loss\<close> is the recorded loss as a function of that network's weights.
\<close>

definition apply_gradients ::
  "('w, 'o) optimizer \<Rightarrow> ('w \<Rightarrow> error + scalar) \<Rightarrow> 'w network
     \<Rightarrow> 'w network \<times> ('w, 'o) optimizer" where
  "apply_gradients opt loss net =
     (let (w, sl) = minimize opt (slots opt) loss (weights net)
      in (net\<lparr>weights := w\<rparr>, opt\<lparr>slots := sl\<rparr>))"

definition train_step ::
  "('w, 'o) Trainer \<Rightarrow> tensor \<Rightarrow> tensor
     \<Rightarrow> error + ((scalar \<times> scalar \<times> scalar \<times> scalar) \<times> ('w, 'o) Trainer)" where
  "train_step tr real_clear real_fog =
     bind_err (recorded_losses tr real_clear real_fog) (\<lambda>losses.
       let loss_of = (\<lambda>m pick w.
             bind_err (recorded_losses (set_weights m w tr) real_clear real_fog)
               (\<lambda>l. Inr (pick l)));
           g_clear2fog = apply_gradients (generator_clear2fog_optimizer tr)
             (loss_of GeneratorClear2Fog (\<lambda>(a, b, c, d). a)) (generator_clear2fog tr);
           g_fog2clear = apply_gradients (generator_fog2clear_optimizer tr)
             (loss_of GeneratorFog2Clear (\<lambda>(a, b, c, d). b)) (generator_fog2clear tr);
           d_clear = apply_gradients (discriminator_clear_optimizer tr)
             (loss_of DiscriminatorClear (\<lambda>(a, b, c, d). c)) (discriminator_clear tr);
           d_fog = apply_gradients (discriminator_fog_optimizer tr)
             (loss_of DiscriminatorFog (\<lambda>(a, b, c, d). d)) (discriminator_fog tr)
       in Inr (losses,
               tr\<lparr>generator_clear2fog := fst g_clear2fog,
                  generator_clear2fog_optimizer := snd g_clear2fog,
                  generator_fog2clear := fst g_fog2clear,
                  generator_fog2clear_optimizer := snd g_fog2clear,
                  discriminator_clear := fst d_clear,
                  discriminator_clear_optimizer := snd d_clear,
                  discriminator_fog := fst d_fog,
                  discriminator_fog_optimizer := snd d_fog\<rparr>))"

subsection \<open>The sample callback\<close>

text \<open>
  What a caller can pass for \<open>sample_test\<close>: nothing, a list, a tuple, or a value of another
  type.
\<close>

datatype sample = SampleNone | SampleList "tensor list" | SampleTuple "tensor list" | SampleOther

text \<open>
  \<open>os.path.join(self.image_log_path, name.format(self.total_epochs))\<close> and the writing of the
  image there: the event keeps the directory, the name and the epoch.
\<close>

definition image_path :: "(string \<Rightarrow> string \<Rightarrow> pyval \<Rightarrow> event) \<Rightarrow> string \<Rightarrow> (('w, 'o) state, unit) prog" where
  "image_path writer name s =
     (case image_log_path (self s) of
        PStr dir \<Rightarrow> emit (writer dir name (total_epochs (self s))) s
      | _ \<Rightarrow> (Inl TypeError, s))"

text \<open>A call of a network by the callback: the forward pass, recorded.\<close>

definition predict :: "model \<Rightarrow> tensor \<Rightarrow> (('w, 'o) state, tensor) prog" where
  "predict m x s = (Inr (run (get_model m (self s)) False x), s\<lparr>out := out s @ [Inference m x]\<rparr>)"

text \<open>The callback from its length check on, for the elements of the list or tuple.\<close>

definition show_sample ::
  "tensor list \<Rightarrow> bool \<Rightarrow> bool \<Rightarrow> bool \<Rightarrow> bool \<Rightarrow> (('w, 'o) state, unit) prog" where
  "show_sample sample_test plot_sample_generator plot_sample_gen_and_disc
       save_sample_generator_output save_sample_gen_and_disc_output =
     (if length sample_test \<noteq> 2
      then raise (Exception ''sample_test should contain 2 elements!'')
      else
        let sample_clear = sample_test ! 0;
            sample_fog = sample_test ! 1
        in bind (predict GeneratorClear2Fog sample_clear) (\<lambda>prediction_clear2fog.
           bind (predict GeneratorFog2Clear sample_fog) (\<lambda>prediction_fog2clear.
           bind (predict DiscriminatorClear sample_clear) (\<lambda>discriminator_clear_output.
           bind (predict DiscriminatorFog sample_fog) (\<lambda>discriminator_fog_output.
           bind (predict DiscriminatorClear prediction_fog2clear) (\<lambda>discriminator_fakeclear_output.
           bind (predict DiscriminatorFog prediction_clear2fog) (\<lambda>discriminator_fakefog_output.
           bind (\<lambda>s. (Inr (normalized_input (self s)), s)) (\<lambda>normalized.
           seq (if plot_sample_gen_and_disc \<or> save_sample_gen_and_disc_output
                then seq (emit (Plot ''plot_generators_and_discriminators_predictions''
                                  [sample_clear, prediction_clear2fog, sample_fog,
                                   prediction_fog2clear, discriminator_clear_output,
                                   discriminator_fog_output, discriminator_fakeclear_output,
                                   discriminator_fakefog_output]
                                  normalized))
                    (seq (if save_sample_gen_and_disc_output
                          then image_path Savefig ''gen_and_disc_output_epoch_{}.jpg''
                          else return ())
                         (if plot_sample_gen_and_disc then emit Show else return ()))
                else return ())
           (seq (if plot_sample_generator
                 then seq (emit (Plot ''plot_generators_predictions_v2''
                                   [sample_clear, prediction_clear2fog, sample_fog,
                                    prediction_fog2clear]
                                   normalized))
                          (emit Show)
                 else return ())
                (if save_sample_generator_output
                 then seq (emit (Plot ''get_generator_square_image''
                                   [sample_clear, prediction_clear2fog, sample_fog,
                                    prediction_fog2clear]
                                   normalized))
                          (image_path WriteFile ''gen_output_epoch_{}.jpg'')
                 else return ()))))))))))"

definition epoch_callback ::
  "sample \<Rightarrow> bool \<Rightarrow> bool \<Rightarrow> bool \<Rightarrow> bool \<Rightarrow> (('w, 'o) state, unit) prog" where
  "epoch_callback sample_test plot_sample_generator plot_sample_gen_and_disc
       save_sample_generator_output save_sample_gen_and_disc_output =
     (case sample_test of
        SampleNone \<Rightarrow> return ()
      | SampleOther \<Rightarrow> raise (Exception ''sample_test should be a list or tuple!'')
      | SampleList xs \<Rightarrow>
          show_sample xs plot_sample_generator plot_sample_gen_and_disc
            save_sample_generator_output save_sample_gen_and_disc_output
      | SampleTuple xs \<Rightarrow>
          show_sample xs plot_sample_generator plot_sample_gen_and_disc
            save_sample_generator_output save_sample_gen_and_disc_output)"

subsection \<open>The epoch loop\<close>

text \<open>
  The arguments of \<open>train\<close>. The two datasets are the lists of their batches;
  \<open>clear_output_callback\<close> says whether a callback was passed; \<open>now\<close> is what
  \<open>datetime.datetime.now().strftime\<close> returns during the call.
\<close>

record train_args =
  train_clear :: "tensor list"
  train_fog :: "tensor list"
  epochs :: int
  epoch_save_rate :: "int option"
  progress_print_rate :: int
  clear_output_callback :: bool
  use_tensorboard :: bool
  sample_test :: sample
  plot_sample_generator :: bool
  plot_sample_gen_and_disc :: bool
  save_sample_generator_output :: bool
  save_sample_gen_and_disc_output :: bool
  load_config_first :: bool
  save_config_each_epoch :: bool
  now :: string

text \<open>
  Python's \<open>a % b\<close> for an integer \<open>a\<close>: \<open>b\<close> may be \<open>None\<close>, which is a \<open>TypeError\<close>, or
  zero. \<open>x + 1\<close> and \<open>x + suffix\<close> for an attribute \<open>x\<close>.
\<close>

definition py_mod :: "int \<Rightarrow> int option \<Rightarrow> error + int" where
  "py_mod a b =
     (case b of
        None \<Rightarrow> Inl TypeError
      | Some d \<Rightarrow> if d = 0 then Inl ZeroDivisionError else Inr (a mod d))"

fun plus_one :: "pyval \<Rightarrow> error + pyval" where
  "plus_one (PInt n) = Inr (PInt (n + 1))"
| "plus_one (PBool b) = Inr (PInt ((if b then 1 else 0) + 1))"
| "plus_one (PFloat r) = Inr (PFloat (r + 1))"
| "plus_one _ = Inl TypeError"

definition plus_str :: "pyval \<Rightarrow> string \<Rightarrow> error + string" where
  "plus_str a suffix = (case a of PStr p \<Rightarrow> Inr (p @ suffix) | _ \<Rightarrow> Inl TypeError)"

text \<open>\<open>self.total_epochs + 1\<close>, as the messages and the summaries evaluate it.\<close>

definition total_plus_one :: "(('w, 'o) state, pyval) prog" where
  "total_plus_one s = (plus_one (total_epochs (self s)), s)"

text \<open>\<open>tools.create_dir\<close> on an attribute.\<close>

definition create_dir_attr :: "pyval \<Rightarrow> (('w, 'o) state, unit) prog" where
  "create_dir_attr a = (case a of PStr p \<Rightarrow> create_dir p | _ \<Rightarrow> raise TypeError)"

text \<open>The tensorboard block before the loop: the two summary writers, when asked for.\<close>

definition configure_tensorboard :: "train_args \<Rightarrow> (('w, 'o) state, (string \<times> string) option) prog" where
  "configure_tensorboard a =
     (if use_tensorboard a
      then seq (\<lambda>s. if tensorboard_current_logdir (self s) = PNone
                    then (case join_attr (tensorboard_base_logdir (self s)) (now a) of
                            Inl e \<Rightarrow> (Inl e, s)
                          | Inr dir \<Rightarrow>
                              (Inr (), s\<lparr>self := (self s)\<lparr>tensorboard_current_logdir := PStr dir\<rparr>\<rparr>))
                    else (Inr (), s))
          (bind (\<lambda>s. (plus_str (tensorboard_current_logdir (self s)) ''-clear'', s))
             (\<lambda>tensorboard_logdir_clear.
           bind (\<lambda>s. (plus_str (tensorboard_current_logdir (self s)) ''-fog'', s))
             (\<lambda>tensorboard_logdir_fog.
           seq (emit (CreateFileWriter tensorboard_logdir_clear))
          (seq (emit (CreateFileWriter tensorboard_logdir_fog))
               (return (Some (tensorboard_logdir_clear, tensorboard_logdir_fog)))))))
      else return None)"

text \<open>
  The loop over the zipped datasets. It carries the four loss totals and the counter \<open>n\<close>;
  \<open>length'\<close> is the variable \<open>length\<close>, the count of the epoch before.
\<close>

type_synonym totals = "scalar \<times> scalar \<times> scalar \<times> scalar"

definition run_train_step :: "tensor \<Rightarrow> tensor \<Rightarrow> (('w, 'o) state, totals) prog" where
  "run_train_step image_clear image_fog s =
     (case train_step (self s) image_clear image_fog of
        Inl e \<Rightarrow> (Inl e, s)
      | Inr (losses, tr) \<Rightarrow> (Inr losses, s\<lparr>self := tr\<rparr>))"

fun batch_loop ::
  "train_args \<Rightarrow> pyval \<Rightarrow> (tensor \<times> tensor) list \<Rightarrow> totals \<times> int
     \<Rightarrow> (('w, 'o) state, totals \<times> int) prog" where
  "batch_loop a length' [] acc = return acc"
| "batch_loop a length' ((image_clear, image_fog) # dataset)
       ((clear2fog_loss_total, fog2clear_loss_total, disc_clear_loss_total, disc_fog_loss_total), n) =
     bind (run_train_step image_clear image_fog)
       (\<lambda>(clear2fog_loss, fog2clear_loss, disc_clear_loss, disc_fog_loss).
     seq (bind (lift (py_mod n (Some (progress_print_rate a)))) (\<lambda>r.
            if r = 0 then emit (PrintWithTimestamp ''{}/{}'' [PInt n, length']) else return ()))
         (batch_loop a length' dataset
            ((sadd clear2fog_loss_total clear2fog_loss,
              sadd fog2clear_loss_total fog2clear_loss,
              sadd disc_clear_loss_total disc_clear_loss,
              sadd disc_fog_loss_total disc_fog_loss), n + 1)))"

text \<open>The block under \<open># Save weights\<close>.\<close>

definition save_checkpoint :: "train_args \<Rightarrow> int \<Rightarrow> (('w, 'o) state, unit) prog" where
  "save_checkpoint a epoch s =
     (if weights_path (self s) \<noteq> PNone
      then if epoch_save_rate a \<noteq> None
        then (case py_mod (epoch + 1) (epoch_save_rate a) of
                Inl e \<Rightarrow> (Inl e, s)
              | Inr r \<Rightarrow>
                  if r = 0
                  then seq save_weights
                         (bind total_plus_one (\<lambda>total.
                            emit (PrintWithTimestamp
                                    ''Saving checkpoint for epoch {} (total {}) at {}''
                                    [PInt (epoch + 1), total, weights_path (self s)]))) s
                  else (Inr (), s))
        else (Inr (), s)
      else (Inr (), s))"

text \<open>The block under \<open># Tensorboard\<close>: four scalars, each with the step \<open>total_epochs + 1\<close>.\<close>

definition summary_scalar ::
  "string \<Rightarrow> string \<Rightarrow> scalar \<Rightarrow> string \<Rightarrow> (('w, 'o) state, unit) prog" where
  "summary_scalar logdir name v description =
     bind total_plus_one (\<lambda>step. emit (SummaryScalar logdir name v step description))"

definition write_summaries ::
  "(string \<times> string) option \<Rightarrow> totals \<Rightarrow> (('w, 'o) state, unit) prog" where
  "write_summaries writers losses =
     (case (writers, losses) of
        (None, _) \<Rightarrow> return ()
      | (Some (logdir_clear, logdir_fog),
         clear2fog_loss_total, fog2clear_loss_total, disc_clear_loss_total, disc_fog_loss_total) \<Rightarrow>
          seq (summary_scalar logdir_clear ''generator'' fog2clear_loss_total ''fog2clear loss'')
         (seq (summary_scalar logdir_clear ''discriminator'' disc_clear_loss_total
                 ''discriminator_clear loss'')
         (seq (summary_scalar logdir_fog ''generator'' clear2fog_loss_total ''clear2fog loss'')
              (summary_scalar logdir_fog ''discriminator'' disc_fog_loss_total
                 ''discriminator_fog loss''))))"

text \<open>\<open>self.total_epochs += 1\<close>.\<close>

definition increment_total_epochs :: "(('w, 'o) state, unit) prog" where
  "increment_total_epochs =
     bind total_plus_one (\<lambda>total s. (Inr (), s\<lparr>self := (self s)\<lparr>total_epochs := total\<rparr>\<rparr>))"

text \<open>One iteration of \<open>for epoch in range(epochs)\<close>; it returns the new \<open>length\<close>.\<close>

definition epoch_body ::
  "train_args \<Rightarrow> (string \<times> string) option \<Rightarrow> int \<Rightarrow> pyval \<Rightarrow> (('w, 'o) state, pyval) prog" where
  "epoch_body a writers epoch length' =
     seq (bind total_plus_one (\<lambda>total.
            emit (PrintWithTimestamp ''Starting with epoch {} (total {})'' [PInt (epoch + 1), total])))
    (seq (epoch_callback (sample_test a) (plot_sample_generator a) (plot_sample_gen_and_disc a)
            (save_sample_generator_output a) (save_sample_gen_and_disc_output a))
    (bind (batch_loop a length' (zip (train_clear a) (train_fog a))
             ((Num 0, Num 0, Num 0, Num 0), 0))
       (\<lambda>(losses, n).
     seq (if clear_output_callback a then emit ClearOutputCallback else return ())
    (seq (save_checkpoint a epoch)
    (seq (bind total_plus_one (\<lambda>total.
            emit (PrintWithTimestamp
                    ''Time taken for epoch {} (total {}) is {} sec (effective: {} sec)''
                    [PInt (epoch + 1), total])))
    (seq (case losses of
            (clear2fog_loss_total, fog2clear_loss_total, disc_clear_loss_total, disc_fog_loss_total) \<Rightarrow>
              emit (PrintLosses clear2fog_loss_total fog2clear_loss_total
                      disc_clear_loss_total disc_fog_loss_total))
    (seq (write_summaries writers losses)
    (seq increment_total_epochs
    (seq (if save_config_each_epoch a then save_config else return ())
         (return (PInt n)))))))))))"

fun epoch_loop ::
  "train_args \<Rightarrow> (string \<times> string) option \<Rightarrow> int list \<Rightarrow> pyval \<Rightarrow> (('w, 'o) state, unit) prog" where
  "epoch_loop a writers [] length' = return ()"
| "epoch_loop a writers (epoch # rest) length' =
     bind (epoch_body a writers epoch length') (epoch_loop a writers rest)"

definition train :: "train_args \<Rightarrow> (('w, 'o) state, unit) prog" where
  "train a =
     seq (\<lambda>s. if load_config_first a \<and> config_path (self s) \<noteq> None
              then load_config True s else (Inr (), s))
    (seq (\<lambda>s. if save_sample_generator_output a \<or> save_sample_gen_and_disc_output a
              then create_dir_attr (image_log_path (self s)) s else (Inr (), s))
    (bind (configure_tensorboard a) (\<lambda>writers.
       epoch_loop a writers [0 .. epochs a - 1] (PStr ''Unknown''))))"

subsection \<open>Sample objects\<close>

text \<open>A small trainer, a program state and arguments of \<open>train\<close>, for concrete runs.\<close>

definition sample_network :: "real network" where
  "sample_network = \<lparr> call = (\<lambda>w training x. map (smul (Num w)) x), weights = 1 \<rparr>"

definition sample_optimizer :: "(real, nat) optimizer" where
  "sample_optimizer = \<lparr> slots = 0, minimize = (\<lambda>n loss w. (w / 2, Suc n)) \<rparr>"

definition sample_trainer :: "(real, nat) Trainer" where
  "sample_trainer =
     init sample_network sample_network sample_network sample_network (Num 10) sample_optimizer True"

definition sample_state :: "(real, nat) state" where
  "sample_state = \<lparr> self = sample_trainer, files = Map.empty, out = [] \<rparr>"

definition default_args :: train_args where
  "default_args =
     \<lparr> train_clear = [], train_fog = [], epochs = 40, epoch_save_rate = Some 1,
       progress_print_rate = 10, clear_output_callback = False, use_tensorboard = False,
       sample_test = SampleNone, plot_sample_generator = False,
       plot_sample_gen_and_disc = True, save_sample_generator_output = True,
       save_sample_gen_and_disc_output = True, load_config_first = True,
       save_config_each_epoch = True, now = ''20200101-000000'' \<rparr>"

subsection \<open>Notions used in the properties\<close>

text \<open>
  \<open>establishes R m\<close>: from every state, the statement \<open>m\<close> ends, normally or with an error,
  in a state that \<open>R\<close> relates to the one it started from.
\<close>

definition establishes :: "('s \<Rightarrow> 's \<Rightarrow> bool) \<Rightarrow> ('s, 'a) prog \<Rightarrow> bool" where
  "establishes R m = (\<forall>s. R s (snd (m s)))"

text \<open>
  A trainer with its five persisted attributes blanked out, and the relation of two states
  that have the same files and differ at most in those attributes; unless \<open>b\<close> holds, not
  in \<open>tensorboard_current_logdir\<close> either.
\<close>

definition without_persisted :: "('w, 'o) Trainer \<Rightarrow> ('w, 'o) Trainer" where
  "without_persisted t =
     t\<lparr>weights_path := PNone, tensorboard_base_logdir := PNone,
       tensorboard_current_logdir := PNone, total_epochs := PNone, image_log_path := PNone\<rparr>"

definition persisted_frame :: "bool \<Rightarrow> ('w, 'o) state \<Rightarrow> ('w, 'o) state \<Rightarrow> bool" where
  "persisted_frame b s s' =
     (files s' = files s \<and>
      without_persisted (self s') = without_persisted (self s) \<and>
      (b \<or> tensorboard_current_logdir (self s') = tensorboard_current_logdir (self s)))"

text \<open>The value an attribute has after loading a dict: the stored one if the key is there.\<close>

definition stored_or_current :: "(string \<times> pyval) list \<Rightarrow> string \<Rightarrow> pyval \<Rightarrow> pyval" where
  "stored_or_current items key current =
     (case map_of items key of Some v \<Rightarrow> v | None \<Rightarrow> current)"

definition assign_stored ::
  "(string \<times> pyval) list \<Rightarrow> string \<Rightarrow> (pyval \<Rightarrow> 't \<Rightarrow> 't) \<Rightarrow> 't \<Rightarrow> 't" where
  "assign_stored items key assign t =
     (case map_of items key of None \<Rightarrow> t | Some v \<Rightarrow> assign v t)"

text \<open>The file name of each network under \<open>weights_path\<close>.\<close>

fun weights_file :: "model \<Rightarrow> string" where
  "weights_file GeneratorClear2Fog = ''generator_clear2fog.h5''"
| "weights_file GeneratorFog2Clear = ''generator_fog2clear.h5''"
| "weights_file DiscriminatorClear = ''discriminator_clear.h5''"
| "weights_file DiscriminatorFog = ''discriminator_fog.h5''"

text \<open>
  \<open>loadable\<close>: what is at the path, if anything, is a weights file or a directory.
  \<open>notice\<close>: the line \<open>configure_checkpoint\<close> prints for a path. \<open>restored_weights\<close>: the
  weights a network has after the restore.
\<close>

definition loadable :: "('w, 'o) state \<Rightarrow> string \<Rightarrow> bool" where
  "loadable s path =
     (case files s path of Some (JsonFile v) \<Rightarrow> False | Some OtherFile \<Rightarrow> False | _ \<Rightarrow> True)"

definition notice :: "('w, 'o) state \<Rightarrow> string \<Rightarrow> event" where
  "notice s path =
     (if isfile s path then Print ''Weights loaded: {}'' [PStr path]
      else Print ''Not found: {}'' [PStr path])"

definition restored_weights :: "('w, 'o) state \<Rightarrow> string \<Rightarrow> 'w \<Rightarrow> 'w" where
  "restored_weights s path current =
     (case files s path of Some (WeightsFile w) \<Rightarrow> w | _ \<Rightarrow> current)"

text \<open>
  A \<open>sample_test\<close> that is given and is not a list or tuple of two elements; a result that
  is an \<open>Exception\<close> raised by the code itself; a statement that never ends in one.
\<close>

definition invalid_sample :: "sample \<Rightarrow> bool" where
  "invalid_sample st =
     (case st of
        SampleNone \<Rightarrow> False
      | SampleList xs \<Rightarrow> length xs \<noteq> 2
      | SampleTuple xs \<Rightarrow> length xs \<noteq> 2
      | SampleOther \<Rightarrow> True)"

definition is_exception :: "error + 'a \<Rightarrow> bool" where
  "is_exception r = (\<exists>msg. r = Inl (Exception msg))"

definition no_exception :: "('s, 'a) prog \<Rightarrow> bool" where
  "no_exception m = (\<forall>s. \<not> is_exception (fst (m s)))"

text \<open>
  The six calls of the networks that the callback makes for a pair of samples, in order;
  and the relation of two states of which the second has printed or called more, but run
  no network.
\<close>

definition sample_inferences :: "('w, 'o) Trainer \<Rightarrow> tensor \<Rightarrow> tensor \<Rightarrow> event list" where
  "sample_inferences tr sample_clear sample_fog =
     [Inference GeneratorClear2Fog sample_clear,
      Inference GeneratorFog2Clear sample_fog,
      Inference DiscriminatorClear sample_clear,
      Inference DiscriminatorFog sample_fog,
      Inference DiscriminatorClear (run (generator_fog2clear tr) False sample_fog),
      Inference DiscriminatorFog (run (generator_clear2fog tr) False sample_clear)]"

definition runs_no_inference :: "('w, 'o) state \<Rightarrow> ('w, 'o) state \<Rightarrow> bool" where
  "runs_no_inference s s' =
     (\<exists>rest. out s' = out s @ rest \<and> (\<forall>m x. Inference m x \<notin> set rest))"

text \<open>
  A trainer whose two generators return as many elements as they are given. What the
  training step does on a list of pairs of batches, one after the other: the losses of
  each step and the trainer after the last.
\<close>

definition generators_keep_size :: "('w, 'o) Trainer \<Rightarrow> bool" where
  "generators_keep_size tr =
     (\<forall>w training x.
        length (call (generator_clear2fog tr) w training x) = length x \<and>
        length (call (generator_fog2clear tr) w training x) = length x)"

fun train_steps ::
  "('w, 'o) Trainer \<Rightarrow> (tensor \<times> tensor) list \<Rightarrow> error + (totals list \<times> ('w, 'o) Trainer)" where
  "train_steps tr [] = Inr ([], tr)"
| "train_steps tr ((x, y) # pairs) =
     bind_err (train_step tr x y) (\<lambda>(losses, tr').
     bind_err (train_steps tr' pairs) (\<lambda>(rest, tr'').
       Inr (losses # rest, tr'')))"

text \<open>The running totals after adding the losses of some steps to them.\<close>

fun add_losses :: "totals \<Rightarrow> totals list \<Rightarrow> totals" where
  "add_losses totals [] = totals"
| "add_losses (t1, t2, t3, t4) ((l1, l2, l3, l4) # rest) =
     add_losses (sadd t1 l1, sadd t2 l2, sadd t3 l3, sadd t4 l4) rest"

text \<open>The relation of two states with the same \<open>Trainer\<close> object.\<close>

definition same_trainer :: "('w, 'o) state \<Rightarrow> ('w, 'o) state \<Rightarrow> bool" where
  "same_trainer s s' = (self s' = self s)"

text \<open>The relation of two states whose \<open>Trainer\<close> objects differ in \<open>total_epochs\<close> at most.\<close>

definition only_epochs_differ :: "('w, 'o) state \<Rightarrow> ('w, 'o) state \<Rightarrow> bool" where
  "only_epochs_differ s s' = (self s' = (self s)\<lparr>total_epochs := total_epochs (self s')\<rparr>)"

text \<open>
  Three relations of the state before and after a statement: \<open>quiet\<close>, the files, the epoch
  counter and the config path are the same; \<open>same_epochs\<close>, the epoch counter and the config
  path are; \<open>keeps_weight_files\<close>, every weights file there is afterwards was there before,
  with the same weights.
\<close>

definition quiet :: "('w, 'o) state \<Rightarrow> ('w, 'o) state \<Rightarrow> bool" where
  "quiet s s' =
     (files s' = files s \<and> total_epochs (self s') = total_epochs (self s) \<and>
      config_path (self s') = config_path (self s))"

definition same_epochs :: "('w, 'o) state \<Rightarrow> ('w, 'o) state \<Rightarrow> bool" where
  "same_epochs s s' =
     (total_epochs (self s') = total_epochs (self s) \<and>
      config_path (self s') = config_path (self s))"

definition keeps_weight_files :: "('w, 'o) state \<Rightarrow> ('w, 'o) state \<Rightarrow> bool" where
  "keeps_weight_files s s' =
     (\<forall>p w. files s' p = Some (WeightsFile w) \<longrightarrow> files s p = Some (WeightsFile w))"

subsection \<open>More sample objects\<close>

text \<open>
  A state after three epochs with a weights path; a state whose config file holds two keys
  only, one of them no persisted attribute; a state with two of the four weight files.
\<close>

definition trained_state :: "(real, nat) state" where
  "trained_state =
     sample_state\<lparr>self := sample_trainer\<lparr>weights_path := PStr ''weights'', total_epochs := PInt 3\<rparr>\<rparr>"

definition partial_config_state :: "(real, nat) state" where
  "partial_config_state =
     sample_state\<lparr>files :=
       [''trainer_config.json'' \<mapsto> JsonFile (PDict [(''total_epochs'', PInt 7), (''LAMBDA'', PInt 99)])]\<rparr>"

definition two_files_state :: "(real, nat) state" where
  "two_files_state =
     sample_state\<lparr>files :=
       [''weights/generator_clear2fog.h5'' \<mapsto> WeightsFile 5,
        ''weights/discriminator_fog.h5'' \<mapsto> WeightsFile 7]\<rparr>"

subsection \<open>Sequences of calls\<close>

text \<open>
  A triple for the runs that return: from a state with \<open>P\<close>, if the statement returns \<open>v\<close>,
  the state it leaves has \<open>Q v\<close>.
\<close>

definition hoare :: "('s \<Rightarrow> bool) \<Rightarrow> ('s, 'a) prog \<Rightarrow> ('a \<Rightarrow> 's \<Rightarrow> bool) \<Rightarrow> bool" where
  "hoare P m Q = (\<forall>s. P s \<longrightarrow> (case m s of (Inl e, s') \<Rightarrow> True | (Inr v, s') \<Rightarrow> Q v s'))"

text \<open>
  \<open>epochs_are\<close>: the counter of the object and its config path. \<open>saved_epochs\<close>: the config
  file holds a dict with this counter.
\<close>

definition epochs_are :: "int \<Rightarrow> string option \<Rightarrow> ('w, 'o) state \<Rightarrow> bool" where
  "epochs_are k c s = (total_epochs (self s) = PInt k \<and> config_path (self s) = c)"

definition saved_epochs :: "int \<Rightarrow> string option \<Rightarrow> ('w, 'o) state \<Rightarrow> bool" where
  "saved_epochs k c s =
     (case c of
        None \<Rightarrow> False
      | Some p \<Rightarrow>
          (case files s p of
             Some (JsonFile (PDict items)) \<Rightarrow> map_of items ''total_epochs'' = Some (PInt k)
           | _ \<Rightarrow> False))"

text \<open>An integer counter has not decreased: it is an integer still, and not a smaller one.\<close>

fun epochs_le :: "pyval \<Rightarrow> pyval \<Rightarrow> bool" where
  "epochs_le (PInt k) (PInt j) = (k \<le> j)"
| "epochs_le (PInt k) _ = False"
| "epochs_le _ _ = True"

definition not_decreased :: "('w, 'o) state \<Rightarrow> ('w, 'o) state \<Rightarrow> bool" where
  "not_decreased s s' = epochs_le (total_epochs (self s)) (total_epochs (self s'))"

text \<open>
  What a user does with the class over several processes: construct a \<open>Trainer\<close>, which a
  new process has to do first, or call \<open>train\<close> on the one there is. The files stay.
\<close>

datatype ('w, 'o) step =
  NewTrainer "'w network" "'w network" "'w network" "'w network" scalar "('w, 'o) optimizer" bool
| CallTrain train_args

fun session :: "('w, 'o) step list \<Rightarrow> (('w, 'o) state, unit) prog" where
  "session [] = return ()"
| "session (NewTrainer g_clear2fog g_fog2clear d_fog d_clear lam adam normalized # rest) =
     seq (\<lambda>s. (Inr (), s\<lparr>self := init g_clear2fog g_fog2clear d_fog d_clear lam adam normalized\<rparr>))
         (session rest)"
| "session (CallTrain a # rest) = seq (train a) (session rest)"

fun is_train :: "('w, 'o) step \<Rightarrow> bool" where
  "is_train (CallTrain a) = True"
| "is_train _ = False"

definition count_trains :: "('w, 'o) step list \<Rightarrow> nat" where
  "count_trains calls = length (filter is_train calls)"

text \<open>A call of \<open>train\<close> for one epoch that loads the config first and saves it after the epoch.\<close>

fun persistent :: "('w, 'o) step \<Rightarrow> bool" where
  "persistent (CallTrain a) = (epochs a = 1 \<and> load_config_first a \<and> save_config_each_epoch a)"
| "persistent _ = True"

text \<open>A \<open>Trainer\<close> as the constructor leaves it in these attributes, and no config file yet.\<close>

definition new_run :: "('w, 'o) state \<Rightarrow> bool" where
  "new_run s =
     (total_epochs (self s) = PInt 0 \<and> config_path (self s) = Some ''trainer_config.json'' \<and>
      files s ''trainer_config.json'' = None)"

text \<open>
  What holds between the calls of such a sequence: the config file holds the count \<open>k\<close>, or
  there is none, \<open>k\<close> is 0 and so is the counter; and right after a call of \<open>train\<close> the
  counter of the object is \<open>k\<close>.
\<close>

definition resumable :: "int \<Rightarrow> bool \<Rightarrow> ('w, 'o) state \<Rightarrow> bool" where
  "resumable k trained s =
     (config_path (self s) = Some ''trainer_config.json'' \<and>
      (saved_epochs k (Some ''trainer_config.json'') s \<or>
       k = 0 \<and> total_epochs (self s) = PInt 0 \<and> files s ''trainer_config.json'' = None) \<and>
      (trained \<longrightarrow> total_epochs (self s) = PInt k))"

text \<open>
  Arguments with which \<open>train\<close> has nothing to show, to log or to checkpoint, and a step
  that keeps to them: such arguments, or a constructor call with generators that keep the
  size of their input.
\<close>

definition plain :: "train_args \<Rightarrow> bool" where
  "plain a =
     (sample_test a = SampleNone \<and> \<not> use_tensorboard a \<and> \<not> save_sample_generator_output a \<and>
      \<not> save_sample_gen_and_disc_output a \<and> epoch_save_rate a = None \<and>
      progress_print_rate a \<noteq> 0)"

fun undisturbed :: "('w, 'o) step \<Rightarrow> bool" where
  "undisturbed (CallTrain a) = plain a"
| "undisturbed (NewTrainer g_clear2fog g_fog2clear d_fog d_clear lam adam normalized) =
     generators_keep_size (init g_clear2fog g_fog2clear d_fog d_clear lam adam normalized)"

text \<open>
  Arguments of \<open>train\<close> for one epoch over the pairs of five and three batches. A state
  whose object has counted five epochs and whose config file holds two, as after two epochs
  with \<open>save_config_each_epoch\<close> and three without.
\<close>

definition one_epoch :: train_args where
  "one_epoch =
     default_args\<lparr>train_clear := [[Num 1], [Num 2], [Num 3], [Num 4], [Num 5]],
       train_fog := [[Num 6], [Num 7], [Num 8]], epochs := 1, epoch_save_rate := None,
       save_sample_generator_output := False, save_sample_gen_and_disc_output := False\<rparr>"

definition stale_state :: "(real, nat) state" where
  "stale_state =
     sample_state\<lparr>self := sample_trainer\<lparr>total_epochs := PInt 5\<rparr>,
       files := [''trainer_config.json'' \<mapsto> JsonFile (PDict
         [(''weights_path'', PNone),
          (''tensorboard_base_logdir'', PStr ''tensorboard_logs''),
          (''tensorboard_current_logdir'', PNone),
          (''total_epochs'', PInt 2),
          (''image_log_path'', PStr ''image_logs'')])]\<rparr>"

section \<open>Properties\<close>

subsection \<open>The loss functions\<close>

lemma smul_commute: "smul a b = smul b a"
  by (cases a; cases b) (simp_all add: scaled_infinity_def mult.commute)

lemma binary_crossentropy_constant_target:
  "\<exists>l. BinaryCrossentropy from_logits (replicate (length x) c) x = Inr l"
  by (simp add: BinaryCrossentropy_def bind_err_def elementwise_def)

text \<open>
  With the flag \<open>from_logits\<close>, the loss of one finite element is the cross-entropy of the
  label and the sigmoid of the logit: the loss object reads the discriminator's output as
  a logit.
\<close>

lemma logits_loss_is_cross_entropy_of_sigmoid:
  "sigmoid_cross_entropy_with_logits (Num z) (Num x) =
     Num (- (z * ln (1 / (1 + exp (- x))) + (1 - z) * ln (1 - 1 / (1 + exp (- x)))))"
proof -
  have pos: "0 < 1 + exp y" for y :: real by (simp add: add_pos_pos)
  have l1: "ln (1 / (1 + exp (- x))) = - ln (1 + exp (- x))"
    using pos[of "- x"] by (simp add: ln_div)
  have "1 - 1 / (1 + exp (- x)) = exp (- x) / (1 + exp (- x))"
    using pos[of "- x"] by (simp add: field_simps)
  then have l2: "ln (1 - 1 / (1 + exp (- x))) = - x - ln (1 + exp (- x))"
    using pos[of "- x"] by (simp add: ln_div)
  have rhs: "- (z * ln (1 / (1 + exp (- x))) + (1 - z) * ln (1 - 1 / (1 + exp (- x)))) =
      x - x * z + ln (1 + exp (- x))"
    unfolding l1 l2 by (simp add: algebra_simps)
  show ?thesis
  proof (cases "0 \<le> x")
    case True
    then show ?thesis
      unfolding rhs using pos[of "- x"]
      by (simp add: sigmoid_cross_entropy_with_logits_def ssub_def slog1p_def)
  next
    case False
    then have neg: "x < 0" by simp
    have "1 + exp x = exp x * (1 + exp (- x))"
      by (simp add: algebra_simps exp_minus_inverse flip: exp_add)
    then have "ln (1 + exp x) = x + ln (1 + exp (- x))"
      using pos[of "- x"] by (simp add: ln_mult)
    then show ?thesis
      unfolding rhs using neg pos[of x]
      by (simp add: sigmoid_cross_entropy_with_logits_def ssub_def slog1p_def)
  qed
qed

text \<open>
  C3. \<open>discriminator_loss real generated\<close> is half the sum of the binary cross-entropy of
  \<open>real\<close> against a target of ones and of \<open>generated\<close> against a target of zeros, the
  cross-entropy being the one computed from logits. Neither cross-entropy raises.
\<close>

theorem discriminator_loss_half_sum:
  "\<exists>real_loss generated_loss.
     BinaryCrossentropy True (ones_like real') real' = Inr real_loss \<and>
     BinaryCrossentropy True (zeros_like generated) generated = Inr generated_loss \<and>
     discriminator_loss real' generated = Inr (smul (Num (1 / 2)) (sadd real_loss generated_loss))"
proof -
  obtain a where a: "BinaryCrossentropy True (ones_like real') real' = Inr a"
    using binary_crossentropy_constant_target[where from_logits = True and c = "Num 1" and x = real']
    by (auto simp: ones_like_def)
  obtain b where b: "BinaryCrossentropy True (zeros_like generated) generated = Inr b"
    using binary_crossentropy_constant_target[where from_logits = True and c = "Num 0"
        and x = generated]
    by (auto simp: zeros_like_def)
  show ?thesis
    using a b
    by (simp add: discriminator_loss_def loss_obj_def bind_err_def smul_commute[of _ "Num (1 / 2)"])
qed







text \<open>
  It fails as well for an infinite or \<open>NaN\<close> element, and for an infinite \<open>LAMBDA\<close>: the
  difference of an infinity with itself is \<open>NaN\<close>, and so is the product of an infinity and 0.
\<close>

lemma non_finite_image_loss_is_nan:
  "calc_cycle_loss sample_trainer [PosInf] [PosInf] = Inr NaN"
  "identity_loss sample_trainer [Num 1, NaN] [Num 1, NaN] = Inr NaN"
  "calc_cycle_loss (sample_trainer\<lparr>LAMBDA := PosInf\<rparr>) [Num 1] [Num 1] = Inr NaN"
  "identity_loss (sample_trainer\<lparr>LAMBDA := NegInf\<rparr>) [Num 1] [Num 1] = Inr NaN"
  by (simp_all add: calc_cycle_loss_def identity_loss_def bind_err_def elementwise_def
      reduce_mean_def tf_abs_def ssub_def scaled_infinity_def sample_trainer_def init_def)

subsection \<open>Statements and relations\<close>

lemma establishesD: "establishes R m \<Longrightarrow> R s (snd (m s))"
  by (simp add: establishes_def)

lemmas prog_defs = bind_def seq_def return_def raise_def lift_def emit_def

lemma establishes_bind:
  assumes "transp R" "establishes R m" "\<And>v. establishes R (f v)"
  shows "establishes R (bind m f)"
  unfolding establishes_def
proof
  fix s
  obtain r s1 where ms: "m s = (r, s1)" by (cases "m s")
  have 1: "R s s1" using assms(2) ms by (auto simp: establishes_def dest: spec[where x = s])
  show "R s (snd (bind m f s))"
  proof (cases r)
    case (Inl e)
    then show ?thesis using ms 1 by (simp add: bind_def)
  next
    case (Inr v)
    have "R s1 (snd (f v s1))" using assms(3)[of v] by (simp add: establishes_def)
    with 1 have "R s (snd (f v s1))" using assms(1) by (auto dest: transpD)
    then show ?thesis using ms Inr by (simp add: bind_def)
  qed
qed

lemma establishes_seq:
  "transp R \<Longrightarrow> establishes R m \<Longrightarrow> establishes R n \<Longrightarrow> establishes R (seq m n)"
  unfolding seq_def by (rule establishes_bind)

lemma establishes_return: "reflp R \<Longrightarrow> establishes R (return v)"
  by (simp add: establishes_def return_def reflpD)

lemma establishes_raise: "reflp R \<Longrightarrow> establishes R (raise v)"
  by (simp add: establishes_def raise_def reflpD)

lemma establishes_lift: "reflp R \<Longrightarrow> establishes R (lift v)"
  by (simp add: establishes_def lift_def reflpD)

lemma establishes_if:
  "establishes R m \<Longrightarrow> establishes R n \<Longrightarrow> establishes R (if c then m else n)"
  by simp

lemma persisted_frame_refl: "reflp (persisted_frame b)"
  by (rule reflpI) (simp add: persisted_frame_def)

lemma persisted_frame_trans: "transp (persisted_frame b)"
  by (rule transpI) (auto simp: persisted_frame_def)

lemma persisted_frame_emit: "establishes (persisted_frame b) (emit e)"
  by (simp add: establishes_def emit_def persisted_frame_def)

lemma load_key_frame:
  assumes "\<And>v s. persisted_frame b s (s\<lparr>self := assign v (self s)\<rparr>)"
  shows "establishes (persisted_frame b) (load_key config key assign)"
  unfolding load_key_def
  apply (rule establishes_bind[OF persisted_frame_trans])
   apply (rule establishes_lift[OF persisted_frame_refl])
  apply (rule establishes_if)
   apply (rule establishes_bind[OF persisted_frame_trans])
    apply (rule establishes_lift[OF persisted_frame_refl])
   apply (simp add: establishes_def assms)
  apply (rule establishes_return[OF persisted_frame_refl])
  done

lemma load_config_establishes_frame:
  "establishes (persisted_frame b) (load_config b)"
proof -
  have chain: "establishes (persisted_frame b)
      (seq (load_key config ''weights_path'' (\<lambda>v t. t\<lparr>weights_path := v\<rparr>))
             (seq (load_key config ''tensorboard_base_logdir''
                     (\<lambda>v t. t\<lparr>tensorboard_base_logdir := v\<rparr>))
             (seq (if b
                   then load_key config ''tensorboard_current_logdir''
                          (\<lambda>v t. t\<lparr>tensorboard_current_logdir := v\<rparr>)
                   else return ())
             (seq (load_key config ''total_epochs'' (\<lambda>v t. t\<lparr>total_epochs := v\<rparr>))
             (seq (load_key config ''image_log_path'' (\<lambda>v t. t\<lparr>image_log_path := v\<rparr>))
                  (emit (Print ''Trainer config loaded from {}'' [PStr p])))))))"
    for config :: pyval and p
    by (cases b; simp only: if_True if_False;
        intro establishes_seq[OF persisted_frame_trans] load_key_frame
          establishes_return[OF persisted_frame_refl] persisted_frame_emit;
        simp add: persisted_frame_def without_persisted_def)
  show ?thesis
    unfolding establishes_def
  proof
    fix s :: "('a, 'b) state"
    show "persisted_frame b s (snd (load_config b s))"
    proof (cases "config_path (self s)")
      case None
      then show ?thesis
        by (simp add: load_config_def reflpD[OF persisted_frame_refl])
    next
      case (Some p)
      show ?thesis
      proof (cases "files s p")
        case None
        then show ?thesis using Some
          by (simp add: load_config_def establishesD[OF persisted_frame_emit])
      next
        case (Some e)
        then show ?thesis using \<open>config_path (self s) = Some p\<close>
          by (cases e)
            (simp_all add: load_config_def establishesD[OF chain] reflpD[OF persisted_frame_refl])
      qed
    qed
  qed
qed


subsection \<open>Configuration persistence\<close>

lemma without_persisted_eq:
  "without_persisted t' = without_persisted t \<Longrightarrow>
   t' = t\<lparr>weights_path := weights_path t',
        tensorboard_base_logdir := tensorboard_base_logdir t',
        tensorboard_current_logdir := tensorboard_current_logdir t',
        total_epochs := total_epochs t',
        image_log_path := image_log_path t'\<rparr>"
  by (cases t; cases t') (simp add: without_persisted_def)

text \<open>
  C10. Whatever the config file holds, \<open>load_config\<close> leaves \<open>LAMBDA\<close>, \<open>normalized_input\<close> and
  \<open>config_path\<close> as they were: the object after the call is the object before it with at
  most the five persisted attributes replaced, and \<open>tensorboard_current_logdir\<close> keeps its
  value unless \<open>load_tensorboard_current_logdir\<close> is true. This holds also when the call ends
  in an error.
\<close>

theorem load_config_frame:
  "LAMBDA (self (snd (load_config b s))) = LAMBDA (self s) \<and>
   normalized_input (self (snd (load_config b s))) = normalized_input (self s) \<and>
   config_path (self (snd (load_config b s))) = config_path (self s) \<and>
   self (snd (load_config b s)) =
     (self s)\<lparr>weights_path := weights_path (self (snd (load_config b s))),
        tensorboard_base_logdir := tensorboard_base_logdir (self (snd (load_config b s))),
        tensorboard_current_logdir := tensorboard_current_logdir (self (snd (load_config b s))),
        total_epochs := total_epochs (self (snd (load_config b s))),
        image_log_path := image_log_path (self (snd (load_config b s)))\<rparr> \<and>
   (b \<or> tensorboard_current_logdir (self (snd (load_config b s))) =
          tensorboard_current_logdir (self s))"
proof -
  have f: "persisted_frame b s (snd (load_config b s))"
    by (rule establishesD[OF load_config_establishes_frame])
  then have w: "without_persisted (self (snd (load_config b s))) = without_persisted (self s)"
    by (simp add: persisted_frame_def)
  have "LAMBDA (without_persisted (self (snd (load_config b s)))) = LAMBDA (without_persisted (self s))"
    "normalized_input (without_persisted (self (snd (load_config b s)))) = normalized_input (without_persisted (self s))"
    "config_path (without_persisted (self (snd (load_config b s)))) = config_path (without_persisted (self s))"
    using w by simp_all
  then have "LAMBDA (self (snd (load_config b s))) = LAMBDA (self s)"
   "normalized_input (self (snd (load_config b s))) = normalized_input (self s)"
   "config_path (self (snd (load_config b s))) = config_path (self s)"
    by (simp_all add: without_persisted_def)
  then show ?thesis
    using without_persisted_eq[OF w] f by (simp add: persisted_frame_def)
qed



lemma load_key_dict:
  "load_key (PDict items) key assign s =
     (Inr (), s\<lparr>self := assign_stored items key assign (self s)\<rparr>)"
  by (simp add: load_key_def prog_defs assign_stored_def split: option.splits)

lemma assign_stored_fields:
  "weights_path (assign_stored items key (\<lambda>v t. t\<lparr>weights_path := v\<rparr>) t) =
     stored_or_current items key (weights_path t)"
  "tensorboard_base_logdir (assign_stored items key (\<lambda>v t. t\<lparr>tensorboard_base_logdir := v\<rparr>) t) =
     stored_or_current items key (tensorboard_base_logdir t)"
  "tensorboard_current_logdir
     (assign_stored items key (\<lambda>v t. t\<lparr>tensorboard_current_logdir := v\<rparr>) t) =
     stored_or_current items key (tensorboard_current_logdir t)"
  "total_epochs (assign_stored items key (\<lambda>v t. t\<lparr>total_epochs := v\<rparr>) t) =
     stored_or_current items key (total_epochs t)"
  "image_log_path (assign_stored items key (\<lambda>v t. t\<lparr>image_log_path := v\<rparr>) t) =
     stored_or_current items key (image_log_path t)"
  by (simp_all add: assign_stored_def stored_or_current_def split: option.splits)

lemma assign_stored_other_fields:
  "(\<And>v t. weights_path (assign v t) = weights_path t) \<Longrightarrow>
     weights_path (assign_stored items key assign t) = weights_path t"
  "(\<And>v t. tensorboard_base_logdir (assign v t) = tensorboard_base_logdir t) \<Longrightarrow>
     tensorboard_base_logdir (assign_stored items key assign t) = tensorboard_base_logdir t"
  "(\<And>v t. tensorboard_current_logdir (assign v t) = tensorboard_current_logdir t) \<Longrightarrow>
     tensorboard_current_logdir (assign_stored items key assign t) = tensorboard_current_logdir t"
  "(\<And>v t. total_epochs (assign v t) = total_epochs t) \<Longrightarrow>
     total_epochs (assign_stored items key assign t) = total_epochs t"
  "(\<And>v t. image_log_path (assign v t) = image_log_path t) \<Longrightarrow>
     image_log_path (assign_stored items key assign t) = image_log_path t"
  by (simp_all add: assign_stored_def split: option.splits)

lemma load_config_dict:
  assumes "config_path (self s) = Some p" "files s p = Some (JsonFile (PDict items))"
  shows "\<exists>s'. load_config b s = (Inr (), s') \<and>
     weights_path (self s') = stored_or_current items ''weights_path'' (weights_path (self s)) \<and>
     tensorboard_base_logdir (self s') =
       stored_or_current items ''tensorboard_base_logdir'' (tensorboard_base_logdir (self s)) \<and>
     tensorboard_current_logdir (self s') =
       (if b then stored_or_current items ''tensorboard_current_logdir''
                   (tensorboard_current_logdir (self s))
        else tensorboard_current_logdir (self s)) \<and>
     total_epochs (self s') = stored_or_current items ''total_epochs'' (total_epochs (self s)) \<and>
     image_log_path (self s') =
       stored_or_current items ''image_log_path'' (image_log_path (self s))"
  using assms
  by (simp add: load_config_def seq_def bind_def load_key_dict return_def emit_def
      assign_stored_fields assign_stored_other_fields)

lemma save_config_file:
  assumes "save_config s = (Inr (), s1)"
  shows "\<exists>p. config_path (self s) = Some p \<and> self s1 = self s \<and>
     files s1 p = Some (JsonFile (PDict
            [(''weights_path'', weights_path (self s)),
             (''tensorboard_base_logdir'', tensorboard_base_logdir (self s)),
             (''tensorboard_current_logdir'', tensorboard_current_logdir (self s)),
             (''total_epochs'', total_epochs (self s)),
             (''image_log_path'', image_log_path (self s))]))"
  using assms
  by (auto simp: save_config_def seq_def bind_def create_dir_def write_json_def emit_def
      split: option.splits if_splits)

text \<open>
  C4. (1) If \<open>save_config\<close> returns, \<open>load_config\<close> into any object \<open>t\<close> with the same
  \<open>config_path\<close> returns and gives the five persisted attributes the values they had when
  saved. (2) Loading a config file that holds a dict sets each persisted attribute whose
  key the dict has to the stored value and leaves the others as they are
  (\<open>tensorboard_current_logdir\<close> only if the flag \<open>b\<close> asks for it). (3) If nothing exists at
  \<open>config_path\<close>, \<open>load_config\<close> returns without an error and changes neither the object nor
  the files.
\<close>

theorem config_round_trip_and_merge:
  "(save_config s = (Inr (), s1) \<and> config_path t = config_path (self s) \<longrightarrow>
      (\<exists>s2. load_config True (s1\<lparr>self := t\<rparr>) = (Inr (), s2) \<and>
         weights_path (self s2) = weights_path (self s) \<and>
         tensorboard_base_logdir (self s2) = tensorboard_base_logdir (self s) \<and>
         tensorboard_current_logdir (self s2) = tensorboard_current_logdir (self s) \<and>
         total_epochs (self s2) = total_epochs (self s) \<and>
         image_log_path (self s2) = image_log_path (self s))) \<and>
   (config_path (self s) = Some p \<and> files s p = Some (JsonFile (PDict items)) \<longrightarrow>
      (\<exists>s2. load_config b s = (Inr (), s2) \<and>
         weights_path (self s2) =
           stored_or_current items ''weights_path'' (weights_path (self s)) \<and>
         tensorboard_base_logdir (self s2) =
           stored_or_current items ''tensorboard_base_logdir'' (tensorboard_base_logdir (self s)) \<and>
         tensorboard_current_logdir (self s2) =
           (if b then stored_or_current items ''tensorboard_current_logdir''
                       (tensorboard_current_logdir (self s))
            else tensorboard_current_logdir (self s)) \<and>
         total_epochs (self s2) =
           stored_or_current items ''total_epochs'' (total_epochs (self s)) \<and>
         image_log_path (self s2) =
           stored_or_current items ''image_log_path'' (image_log_path (self s)))) \<and>
   (config_path (self s) = Some p \<and> files s p = None \<longrightarrow>
      (\<exists>s2. load_config b s = (Inr (), s2) \<and> self s2 = self s \<and> files s2 = files s))"
proof (intro conjI impI)
  assume a: "save_config s = (Inr (), s1) \<and> config_path t = config_path (self s)"
  then obtain p where p: "config_path (self s) = Some p"
    and f: "files s1 p = Some (JsonFile (PDict
            [(''weights_path'', weights_path (self s)),
             (''tensorboard_base_logdir'', tensorboard_base_logdir (self s)),
             (''tensorboard_current_logdir'', tensorboard_current_logdir (self s)),
             (''total_epochs'', total_epochs (self s)),
             (''image_log_path'', image_log_path (self s))]))"
    using save_config_file[of s s1] by auto
  have "config_path (self (s1\<lparr>self := t\<rparr>)) = Some p" using a p by simp
  moreover have "files (s1\<lparr>self := t\<rparr>) p = Some (JsonFile (PDict
            [(''weights_path'', weights_path (self s)),
             (''tensorboard_base_logdir'', tensorboard_base_logdir (self s)),
             (''tensorboard_current_logdir'', tensorboard_current_logdir (self s)),
             (''total_epochs'', total_epochs (self s)),
             (''image_log_path'', image_log_path (self s))]))"
    using f by simp
  ultimately show "\<exists>s2. load_config True (s1\<lparr>self := t\<rparr>) = (Inr (), s2) \<and>
         weights_path (self s2) = weights_path (self s) \<and>
         tensorboard_base_logdir (self s2) = tensorboard_base_logdir (self s) \<and>
         tensorboard_current_logdir (self s2) = tensorboard_current_logdir (self s) \<and>
         total_epochs (self s2) = total_epochs (self s) \<and>
         image_log_path (self s2) = image_log_path (self s)"
    using load_config_dict[where s = "s1\<lparr>self := t\<rparr>" and b = True]
    by (fastforce simp: stored_or_current_def)
next
  assume "config_path (self s) = Some p \<and> files s p = Some (JsonFile (PDict items))"
  then show "\<exists>s2. load_config b s = (Inr (), s2) \<and>
         weights_path (self s2) =
           stored_or_current items ''weights_path'' (weights_path (self s)) \<and>
         tensorboard_base_logdir (self s2) =
           stored_or_current items ''tensorboard_base_logdir'' (tensorboard_base_logdir (self s)) \<and>
         tensorboard_current_logdir (self s2) =
           (if b then stored_or_current items ''tensorboard_current_logdir''
                       (tensorboard_current_logdir (self s))
            else tensorboard_current_logdir (self s)) \<and>
         total_epochs (self s2) =
           stored_or_current items ''total_epochs'' (total_epochs (self s)) \<and>
         image_log_path (self s2) =
           stored_or_current items ''image_log_path'' (image_log_path (self s))"
    using load_config_dict[of s p items b] by simp
next
  assume "config_path (self s) = Some p \<and> files s p = None"
  then show "\<exists>s2. load_config b s = (Inr (), s2) \<and> self s2 = self s \<and> files s2 = files s"
    by (simp add: load_config_def emit_def)
qed

lemma dirname_sample: "dirname ''trainer_config.json'' = ''''"
  by (simp add: dirname_def)

lemma save_trained:
  "save_config trained_state = (Inr (), snd (save_config trained_state))"
  by (simp add: save_config_def trained_state_def sample_state_def sample_trainer_def init_def
      seq_def bind_def create_dir_def write_json_def emit_def dirname_sample)

theorem config_round_trip_and_merge_witness:
  "(\<exists>s2. load_config True ((snd (save_config trained_state))\<lparr>self := sample_trainer\<rparr>) = (Inr (), s2) \<and>
         weights_path (self s2) = PStr ''weights'' \<and> total_epochs (self s2) = PInt 3) \<and>
   (\<exists>s2. load_config False partial_config_state = (Inr (), s2) \<and>
         weights_path (self s2) = PNone \<and> total_epochs (self s2) = PInt 7) \<and>
   (\<exists>s2. load_config True sample_state = (Inr (), s2) \<and> self s2 = sample_trainer \<and>
         files s2 = Map.empty)"
proof (intro conjI)
  have c: "config_path sample_trainer = config_path (self trained_state)"
    by (simp add: trained_state_def sample_state_def sample_trainer_def init_def)
  have v: "weights_path (self trained_state) = PStr ''weights''"
    "total_epochs (self trained_state) = PInt 3"
    by (simp_all add: trained_state_def)
  from config_round_trip_and_merge[where s = trained_state
        and ?s1.0 = "snd (save_config trained_state)" and t = sample_trainer,
        THEN conjunct1, rule_format, OF conjI[OF save_trained c]]
  show "\<exists>s2. load_config True ((snd (save_config trained_state))\<lparr>self := sample_trainer\<rparr>) = (Inr (), s2) \<and>
         weights_path (self s2) = PStr ''weights'' \<and> total_epochs (self s2) = PInt 3"
    unfolding v by blast
next
  have p: "config_path (self partial_config_state) = Some ''trainer_config.json''"
    and f: "files partial_config_state ''trainer_config.json'' =
       Some (JsonFile (PDict [(''total_epochs'', PInt 7), (''LAMBDA'', PInt 99)]))"
    by (simp_all add: partial_config_state_def sample_state_def sample_trainer_def init_def)
  have v: "stored_or_current [(''total_epochs'', PInt 7), (''LAMBDA'', PInt 99)] ''weights_path''
       (weights_path (self partial_config_state)) = PNone"
    "stored_or_current [(''total_epochs'', PInt 7), (''LAMBDA'', PInt 99)] ''total_epochs''
       (total_epochs (self partial_config_state)) = PInt 7"
    by (simp_all add: stored_or_current_def partial_config_state_def sample_state_def
        sample_trainer_def init_def)
  from config_round_trip_and_merge[where s = partial_config_state and b = False,
        THEN conjunct2, THEN conjunct1, rule_format, OF conjI[OF p f]]
  show "\<exists>s2. load_config False partial_config_state = (Inr (), s2) \<and>
         weights_path (self s2) = PNone \<and> total_epochs (self s2) = PInt 7"
    unfolding v by blast
next
  have p: "config_path (self sample_state) = Some ''trainer_config.json''"
    and f: "files sample_state ''trainer_config.json'' = None"
    by (simp_all add: sample_state_def sample_trainer_def init_def)
  have v: "self sample_state = sample_trainer" "files sample_state = Map.empty"
    by (simp_all add: sample_state_def)
  from config_round_trip_and_merge[where s = sample_state and b = True,
        THEN conjunct2, THEN conjunct2, rule_format, OF conjI[OF p f]]
  show "\<exists>s2. load_config True sample_state = (Inr (), s2) \<and> self s2 = sample_trainer \<and>
         files s2 = Map.empty"
    unfolding v by blast
qed

text \<open>A key of the file that names no persisted attribute, here \<open>LAMBDA\<close>, is not read.\<close>

lemma load_config_ignores_other_keys:
  "LAMBDA (self (snd (load_config True partial_config_state))) = Num 10 \<and>
   total_epochs (self (snd (load_config True partial_config_state))) = PInt 7"
  by (simp add: load_config_def partial_config_state_def sample_state_def sample_trainer_def
      init_def seq_def bind_def load_key_dict assign_stored_def emit_def)

subsection \<open>Checkpoint restore\<close>

lemma get_model_set_weights:
  "weights (get_model m (set_weights m' w t)) = (if m = m' then w else weights (get_model m t))"
  "call (get_model m (set_weights m' w t)) = call (get_model m t)"
  "without_persisted (set_weights m' w t) = set_weights m' w (without_persisted t)"
  "weights_path (set_weights m' w t) = weights_path t"
  by (cases m; cases m'; simp add: without_persisted_def)+

lemma restore_step:
  assumes "loadable s path"
  shows "\<exists>s'. (if isfile s path
              then seq (load_weights m path) (emit (Print ''Weights loaded: {}'' [PStr path])) s
              else emit (Print ''Not found: {}'' [PStr path]) s) = (Inr (), s') \<and>
     files s' = files s \<and> out s' = out s @ [notice s path] \<and>
     weights_path (self s') = weights_path (self s) \<and>
     (\<forall>k. call (get_model k (self s')) = call (get_model k (self s))) \<and>
     (\<forall>k. weights (get_model k (self s')) =
        (if k = m then restored_weights s path (weights (get_model k (self s)))
         else weights (get_model k (self s))))"
  using assms
  by (auto simp: loadable_def isfile_def notice_def restored_weights_def load_weights_def
      seq_def bind_def emit_def get_model_set_weights split: option.splits entry.splits)

lemma restore_loop_result:
  assumes "\<forall>(m, path) \<in> set mps. loadable s path" "distinct (map fst mps)"
  shows "\<exists>s'. restore_loop mps s = (Inr (), s') \<and>
     files s' = files s \<and> out s' = out s @ map (\<lambda>(m, path). notice s path) mps \<and>
     weights_path (self s') = weights_path (self s) \<and>
     (\<forall>k. call (get_model k (self s')) = call (get_model k (self s))) \<and>
     (\<forall>k. weights (get_model k (self s')) =
        (case map_of mps k of
           None \<Rightarrow> weights (get_model k (self s))
         | Some path \<Rightarrow> restored_weights s path (weights (get_model k (self s)))))"
  using assms
proof (induction mps arbitrary: s)
  case Nil
  then show ?case by (simp add: return_def)
next
  case (Cons mp mps)
  obtain m path where mp: "mp = (m, path)" by (cases mp)
  have l: "loadable s path" using Cons.prems mp by simp
  from restore_step[OF l, of m] obtain s1 where
    s1: "(if isfile s path
              then seq (load_weights m path) (emit (Print ''Weights loaded: {}'' [PStr path])) s
              else emit (Print ''Not found: {}'' [PStr path]) s) = (Inr (), s1)"
    and f1: "files s1 = files s" and o1: "out s1 = out s @ [notice s path]"
    and p1: "weights_path (self s1) = weights_path (self s)"
    and c1: "\<forall>k. call (get_model k (self s1)) = call (get_model k (self s))"
    and w1: "\<forall>k. weights (get_model k (self s1)) =
        (if k = m then restored_weights s path (weights (get_model k (self s)))
         else weights (get_model k (self s)))"
    by blast
  have same: "loadable s1 = loadable s" "notice s1 = notice s" "restored_weights s1 = restored_weights s"
    using f1 by (auto simp: loadable_def notice_def restored_weights_def isfile_def fun_eq_iff)
  have "\<forall>(m, path) \<in> set mps. loadable s1 path" "distinct (map fst mps)"
    using Cons.prems same by auto
  from Cons.IH[OF this] obtain s' where
    r: "restore_loop mps s1 = (Inr (), s')"
    and f: "files s' = files s1" and o: "out s' = out s1 @ map (\<lambda>(m, path). notice s1 path) mps"
    and p: "weights_path (self s') = weights_path (self s1)"
    and c: "\<forall>k. call (get_model k (self s')) = call (get_model k (self s1))"
    and w: "\<forall>k. weights (get_model k (self s')) =
        (case map_of mps k of
           None \<Rightarrow> weights (get_model k (self s1))
         | Some path \<Rightarrow> restored_weights s1 path (weights (get_model k (self s1))))"
    by blast
  have notin: "map_of mps m = None"
    using Cons.prems(2) mp by (simp add: map_of_eq_None_iff)
  have "restore_loop (mp # mps) s = (Inr (), s')"
    using s1 r mp by (simp add: seq_def bind_def)
  moreover have "\<forall>k. weights (get_model k (self s')) =
        (case map_of (mp # mps) k of
           None \<Rightarrow> weights (get_model k (self s))
         | Some path \<Rightarrow> restored_weights s path (weights (get_model k (self s))))"
    using w w1 notin mp same by (auto split: option.splits)
  ultimately show ?case
    using f f1 o o1 p p1 c c1 mp same by simp
qed

lemma path_join_longer: "b \<noteq> [] \<Longrightarrow> hd b \<noteq> CHR ''/'' \<Longrightarrow> path_join a b \<noteq> a"
  by (auto simp: path_join_def)

lemma get_models_and_paths_str:
  "weights_path t = PStr p \<Longrightarrow>
   get_models_and_paths t =
     Inr ([GeneratorClear2Fog, GeneratorFog2Clear, DiscriminatorClear, DiscriminatorFog],
          map (\<lambda>m. path_join p (weights_file m))
            [GeneratorClear2Fog, GeneratorFog2Clear, DiscriminatorClear, DiscriminatorFog])"
  by (simp add: get_models_and_paths_def join_attr_def bind_err_def)

lemma weights_file_relative: "weights_file m \<noteq> [] \<and> hd (weights_file m) \<noteq> CHR ''/''"
  by (cases m) simp_all

text \<open>
  C5. Let each of the four weight paths hold a weights file, a directory or nothing. Then
  \<open>configure_checkpoint\<close> returns without an error; each network whose file exists has the
  weights of its file and every other network the weights it had; the forward functions
  are unchanged; and one line is printed per network, \<open>Weights loaded\<close> where the file
  exists and \<open>Not found\<close> where it does not, in the order of \<open>get_models_and_paths\<close>.
\<close>

theorem configure_checkpoint_per_network:
  assumes "\<forall>m. loadable s (path_join p (weights_file m))"
  shows "\<exists>s'. configure_checkpoint p s = (Inr (), s') \<and>
     weights_path (self s') = PStr p \<and>
     (\<forall>m. weights (get_model m (self s')) =
        (case files s (path_join p (weights_file m)) of
           Some (WeightsFile w) \<Rightarrow> w
         | _ \<Rightarrow> weights (get_model m (self s)))) \<and>
     (\<forall>m. call (get_model m (self s')) = call (get_model m (self s))) \<and>
     out s' = out s @
       map (\<lambda>m. if isfile s (path_join p (weights_file m))
                then Print ''Weights loaded: {}'' [PStr (path_join p (weights_file m))]
                else Print ''Not found: {}'' [PStr (path_join p (weights_file m))])
         [GeneratorClear2Fog, GeneratorFog2Clear, DiscriminatorClear, DiscriminatorFog]"
proof -
  let ?ms = "[GeneratorClear2Fog, GeneratorFog2Clear, DiscriminatorClear, DiscriminatorFog]"
  let ?mps = "zip ?ms (map (\<lambda>m. path_join p (weights_file m)) ?ms)"
  define s0 where "s0 = s\<lparr>self := (self s)\<lparr>weights_path := PStr p\<rparr>\<rparr>"
  define s1 where "s1 = snd (create_dir p s0)"
  have ne: "path_join p (weights_file m) \<noteq> p" for m
    using weights_file_relative[of m] by (simp add: path_join_longer)
  have f1: "files s1 (path_join p (weights_file m)) = files s (path_join p (weights_file m))" for m
    using ne[of m] by (simp add: s1_def s0_def create_dir_def)
  have o1: "out s1 = out s" and c1: "create_dir p s0 = (Inr (), s1)"
    and t1: "self s1 = (self s)\<lparr>weights_path := PStr p\<rparr>"
    by (simp_all add: s1_def s0_def create_dir_def)
  have l: "loadable s1 (path_join p (weights_file m))" for m
    using assms f1[of m] by (simp add: loadable_def)
  have l1: "\<forall>(m, path) \<in> set ?mps. loadable s1 path"
    using l[of GeneratorClear2Fog] l[of GeneratorFog2Clear] l[of DiscriminatorClear]
      l[of DiscriminatorFog] by simp
  have d: "distinct (map fst ?mps)" by simp
  from restore_loop_result[OF l1 d] obtain s' where
    r: "restore_loop ?mps s1 = (Inr (), s')"
    and f: "files s' = files s1" and o: "out s' = out s1 @ map (\<lambda>(m, path). notice s1 path) ?mps"
    and pth: "weights_path (self s') = weights_path (self s1)"
    and c: "\<forall>k. call (get_model k (self s')) = call (get_model k (self s1))"
    and w: "\<forall>k. weights (get_model k (self s')) =
        (case map_of ?mps k of
           None \<Rightarrow> weights (get_model k (self s1))
         | Some path \<Rightarrow> restored_weights s1 path (weights (get_model k (self s1))))"
    by blast
  have run: "configure_checkpoint p s = (Inr (), s')"
    using r c1 get_models_and_paths_str[of "self s0" p]
    by (simp add: configure_checkpoint_def seq_def bind_def s0_def)
  have g1: "get_model m (self s1) = get_model m (self s)" for m
    by (cases m) (simp_all add: t1)
  have wm: "weights (get_model m (self s')) =
        (case files s (path_join p (weights_file m)) of
           Some (WeightsFile w) \<Rightarrow> w
         | _ \<Rightarrow> weights (get_model m (self s)))" for m
  proof -
    have "map_of ?mps m = Some (path_join p (weights_file m))"
      by (cases m) simp_all
    then show ?thesis
      using w[rule_format, of m] f1[of m] g1[of m]
      by (simp only: restored_weights_def option.case)
  qed
  have n1: "notice s1 (path_join p (weights_file m)) =
      (if isfile s (path_join p (weights_file m))
                then Print ''Weights loaded: {}'' [PStr (path_join p (weights_file m))]
                else Print ''Not found: {}'' [PStr (path_join p (weights_file m))])" for m
    using f1[of m] by (simp add: notice_def isfile_def)
  have "map (\<lambda>(m, path). notice s1 path) ?mps =
      map (\<lambda>m. notice s1 (path_join p (weights_file m))) ?ms"
    by simp
  also have "\<dots> = map (\<lambda>m. if isfile s (path_join p (weights_file m))
                then Print ''Weights loaded: {}'' [PStr (path_join p (weights_file m))]
                else Print ''Not found: {}'' [PStr (path_join p (weights_file m))]) ?ms"
    by (simp only: n1)
  finally have "out s' = out s @
       map (\<lambda>m. if isfile s (path_join p (weights_file m))
                then Print ''Weights loaded: {}'' [PStr (path_join p (weights_file m))]
                else Print ''Not found: {}'' [PStr (path_join p (weights_file m))]) ?ms"
    using o o1 by simp
  then show ?thesis
    using run wm c g1 pth t1 by auto
qed


lemma sample_paths:
  "path_join ''weights'' ''generator_clear2fog.h5'' = ''weights/generator_clear2fog.h5''"
  "path_join ''weights'' ''generator_fog2clear.h5'' = ''weights/generator_fog2clear.h5''"
  "path_join ''weights'' ''discriminator_clear.h5'' = ''weights/discriminator_clear.h5''"
  "path_join ''weights'' ''discriminator_fog.h5'' = ''weights/discriminator_fog.h5''"
  by (simp_all add: path_join_def)

theorem configure_checkpoint_per_network_witness:
  "\<exists>s'. configure_checkpoint ''weights'' two_files_state = (Inr (), s') \<and>
     weights (generator_clear2fog (self s')) = 5 \<and>
     weights (generator_fog2clear (self s')) = 1 \<and>
     weights (discriminator_clear (self s')) = 1 \<and>
     weights (discriminator_fog (self s')) = 7 \<and>
     out s' =
       [Print ''Weights loaded: {}'' [PStr ''weights/generator_clear2fog.h5''],
        Print ''Not found: {}'' [PStr ''weights/generator_fog2clear.h5''],
        Print ''Not found: {}'' [PStr ''weights/discriminator_clear.h5''],
        Print ''Weights loaded: {}'' [PStr ''weights/discriminator_fog.h5'']]"
proof -
  have l: "\<forall>m. loadable two_files_state (path_join ''weights'' (weights_file m))"
  proof
    fix m show "loadable two_files_state (path_join ''weights'' (weights_file m))"
      by (cases m) (simp_all add: loadable_def two_files_state_def sample_paths)
  qed
  from configure_checkpoint_per_network[OF l] obtain s' where
    r: "configure_checkpoint ''weights'' two_files_state = (Inr (), s')"
    and w: "\<forall>m. weights (get_model m (self s')) =
        (case files two_files_state (path_join ''weights'' (weights_file m)) of
           Some (WeightsFile w) \<Rightarrow> w
         | _ \<Rightarrow> weights (get_model m (self two_files_state)))"
    and o: "out s' = out two_files_state @
       map (\<lambda>m. if isfile two_files_state (path_join ''weights'' (weights_file m))
                then Print ''Weights loaded: {}'' [PStr (path_join ''weights'' (weights_file m))]
                else Print ''Not found: {}'' [PStr (path_join ''weights'' (weights_file m))])
         [GeneratorClear2Fog, GeneratorFog2Clear, DiscriminatorClear, DiscriminatorFog]"
    by blast
  have "weights (generator_clear2fog (self s')) = 5"
    using w[rule_format, of GeneratorClear2Fog] by (simp add: sample_paths two_files_state_def)
  moreover have "weights (generator_fog2clear (self s')) = 1"
    using w[rule_format, of GeneratorFog2Clear]
    by (simp add: sample_paths two_files_state_def sample_state_def sample_trainer_def init_def
        sample_network_def)
  moreover have "weights (discriminator_clear (self s')) = 1"
    using w[rule_format, of DiscriminatorClear]
    by (simp add: sample_paths two_files_state_def sample_state_def sample_trainer_def init_def
        sample_network_def)
  moreover have "weights (discriminator_fog (self s')) = 7"
    using w[rule_format, of DiscriminatorFog] by (simp add: sample_paths two_files_state_def)
  moreover have "out s' =
       [Print ''Weights loaded: {}'' [PStr ''weights/generator_clear2fog.h5''],
        Print ''Not found: {}'' [PStr ''weights/generator_fog2clear.h5''],
        Print ''Not found: {}'' [PStr ''weights/discriminator_clear.h5''],
        Print ''Weights loaded: {}'' [PStr ''weights/discriminator_fog.h5'']]"
    using o by (simp add: sample_paths two_files_state_def sample_state_def isfile_def)
  ultimately show ?thesis using r by blast
qed

subsection \<open>The sample callback\<close>

lemma no_exception_bind:
  assumes "no_exception m" "\<And>v. no_exception (f v)"
  shows "no_exception (bind m f)"
  unfolding no_exception_def
proof
  fix s
  obtain r s1 where ms: "m s = (r, s1)" by (cases "m s")
  have 1: "\<not> is_exception r" using assms(1) ms by (auto simp: no_exception_def dest: spec[where x = s])
  show "\<not> is_exception (fst (bind m f s))"
  proof (cases r)
    case (Inl e)
    then show ?thesis using ms 1 by (simp add: bind_def is_exception_def)
  next
    case (Inr v)
    then show ?thesis using ms assms(2)[of v] by (simp add: bind_def no_exception_def)
  qed
qed

lemma no_exception_seq:
  "no_exception m \<Longrightarrow> no_exception n \<Longrightarrow> no_exception (seq m n)"
  unfolding seq_def by (rule no_exception_bind)

lemma no_exception_basic:
  "no_exception (return v)" "no_exception (emit e)" "no_exception (image_path w name)"
  "no_exception (predict m x)" "no_exception (\<lambda>s. (Inr (f s), s))"
  by (auto simp: no_exception_def is_exception_def return_def emit_def image_path_def
      predict_def split: pyval.splits)

lemma no_exceptionD: "no_exception m \<Longrightarrow> \<not> is_exception (fst (m s))"
  by (simp add: no_exception_def)

lemma no_exception_if:
  "no_exception m \<Longrightarrow> no_exception n \<Longrightarrow> no_exception (if c then m else n)"
  by simp

lemma show_sample_two:
  assumes "length xs = 2"
  shows "\<not> is_exception (fst (show_sample xs a b c d s))"
proof -
  have "no_exception (show_sample xs a b c d)"
    unfolding show_sample_def Let_def using assms
    by (simp only: if_False not_True_eq_False not_not refl)
      (intro no_exception_bind no_exception_seq no_exception_if no_exception_basic)
  then show ?thesis by (rule no_exceptionD)
qed

lemma show_sample_not_two:
  "length xs \<noteq> 2 \<Longrightarrow>
   show_sample xs a b c d s = (Inl (Exception ''sample_test should contain 2 elements!''), s)"
  by (simp add: show_sample_def raise_def)

lemma runs_no_inference_refl: "reflp runs_no_inference"
  by (rule reflpI) (simp add: runs_no_inference_def)

lemma runs_no_inference_trans: "transp runs_no_inference"
proof (rule transpI)
  fix x y z :: "('a, 'b) state"
  assume "runs_no_inference x y" "runs_no_inference y z"
  then obtain r1 r2 where "out y = out x @ r1" "\<forall>m v. Inference m v \<notin> set r1"
    "out z = out y @ r2" "\<forall>m v. Inference m v \<notin> set r2"
    by (auto simp: runs_no_inference_def)
  then have "out z = out x @ (r1 @ r2) \<and> (\<forall>m v. Inference m v \<notin> set (r1 @ r2))"
    by simp
  then show "runs_no_inference x z"
    unfolding runs_no_inference_def by blast
qed

lemma runs_no_inference_statements:
  "establishes runs_no_inference (emit (Plot name tensors normalized))"
  "establishes runs_no_inference (emit Show)"
  "establishes runs_no_inference (image_path Savefig file)"
  "establishes runs_no_inference (image_path WriteFile file)"
  by (auto simp: establishes_def emit_def image_path_def runs_no_inference_def
      split: pyval.splits)

lemma plots_run_no_inference:
  "establishes runs_no_inference
     (seq (if b \<or> d
           then seq (emit (Plot n1 t1 normalized))
               (seq (if d then image_path Savefig f1 else return ())
                    (if b then emit Show else return ()))
           else return ())
      (seq (if a then seq (emit (Plot n2 t2 normalized)) (emit Show) else return ())
           (if c then seq (emit (Plot n3 t3 normalized)) (image_path WriteFile f2)
            else return ())))"
  by (intro establishes_seq[OF runs_no_inference_trans] establishes_if
      establishes_return[OF runs_no_inference_refl] runs_no_inference_statements)

lemma after_recorded_events:
  assumes "establishes runs_no_inference m" "out s' = out s @ events"
  shows "\<exists>rest. out (snd (m s')) = out s @ events @ rest \<and>
     (\<forall>k x. Inference k x \<notin> set rest)"
  using establishesD[OF assms(1), of s'] assms(2) by (auto simp: runs_no_inference_def)

lemma bind_predict:
  "bind (predict m x) f s =
     f (run (get_model m (self s)) False x) (s\<lparr>out := out s @ [Inference m x]\<rparr>)"
  by (simp add: bind_def predict_def)

lemma bind_read: "bind (\<lambda>s. (Inr (g s), s)) f s = f (g s) s"
  by (simp add: bind_def)

lemma show_sample_pair:
  "\<exists>rest. out (snd (show_sample [x, y] a b c d s)) =
       out s @ sample_inferences (self s) x y @ rest \<and>
     (\<forall>k z. Inference k z \<notin> set rest)"
proof -
  have len: "length [x, y] = 2" and nth: "[x, y] ! 0 = x" "[x, y] ! 1 = y"
    by simp_all
  show ?thesis
    unfolding show_sample_def Let_def
    apply (simp only: len nth simp_thms if_False bind_predict bind_read)
    apply (rule after_recorded_events[OF plots_run_no_inference])
    apply (simp add: sample_inferences_def)
    done
qed

text \<open>
  C6. \<open>epoch_callback\<close> ends in an \<open>Exception\<close> of its own exactly when \<open>sample_test\<close> is given
  and is not a list or tuple of two elements. It then leaves the state as it was: nothing
  is printed, no collaborator is called and no network is run, the calls of the networks
  being recorded in \<open>out\<close>. For \<open>None\<close> it returns at once, the state unchanged as well. For a
  pair, by contrast, the six calls of the networks are what it records first, and what
  follows them runs no network.
\<close>

theorem epoch_callback_argument_check:
  "(is_exception (fst (epoch_callback st a b c d s)) \<longleftrightarrow> invalid_sample st) \<and>
   (invalid_sample st \<longrightarrow> snd (epoch_callback st a b c d s) = s) \<and>
   epoch_callback SampleNone a b c d s = (Inr (), s) \<and>
   (st = SampleList [x, y] \<or> st = SampleTuple [x, y] \<longrightarrow>
      (\<exists>rest. out (snd (epoch_callback st a b c d s)) =
           out s @ sample_inferences (self s) x y @ rest \<and>
         (\<forall>k z. Inference k z \<notin> set rest)))"
proof (intro conjI impI)
  show "is_exception (fst (epoch_callback st a b c d s)) \<longleftrightarrow> invalid_sample st"
    by (cases st)
      (auto simp: epoch_callback_def invalid_sample_def return_def raise_def is_exception_def
        show_sample_not_two dest: show_sample_two[unfolded is_exception_def])
next
  assume "invalid_sample st"
  then show "snd (epoch_callback st a b c d s) = s"
    by (cases st)
      (auto simp: epoch_callback_def invalid_sample_def raise_def show_sample_not_two)
next
  show "epoch_callback SampleNone a b c d s = (Inr (), s)"
    by (simp add: epoch_callback_def return_def)
next
  assume "st = SampleList [x, y] \<or> st = SampleTuple [x, y]"
  then show "\<exists>rest. out (snd (epoch_callback st a b c d s)) =
           out s @ sample_inferences (self s) x y @ rest \<and>
         (\<forall>k z. Inference k z \<notin> set rest)"
    using show_sample_pair[of x y a b c d s] by (auto simp: epoch_callback_def)
qed

theorem epoch_callback_argument_check_witness:
  "is_exception
     (fst (epoch_callback (SampleList [[Num 1], [Num 2], [Num 3]]) False True True True sample_state)) \<and>
   snd (epoch_callback (SampleList [[Num 1], [Num 2], [Num 3]]) False True True True sample_state) =
     sample_state \<and>
   \<not> is_exception
     (fst (epoch_callback (SampleTuple [[Num 1], [Num 2]]) False True True True sample_state)) \<and>
   (\<exists>rest. out (snd (epoch_callback (SampleTuple [[Num 1], [Num 2]]) False False False False
                          sample_state)) =
      [Inference GeneratorClear2Fog [Num 1], Inference GeneratorFog2Clear [Num 2],
       Inference DiscriminatorClear [Num 1], Inference DiscriminatorFog [Num 2],
       Inference DiscriminatorClear [Num 2], Inference DiscriminatorFog [Num 1]] @ rest)"
proof -
  have r: "run (generator_fog2clear (self sample_state)) False [Num 2] = [Num 2]"
    "run (generator_clear2fog (self sample_state)) False [Num 1] = [Num 1]"
    by (simp_all add: run_def sample_state_def sample_trainer_def init_def sample_network_def)
  have "\<exists>rest. out (snd (epoch_callback (SampleTuple [[Num 1], [Num 2]]) False False False False
                          sample_state)) =
      out sample_state @ sample_inferences (self sample_state) [Num 1] [Num 2] @ rest"
    using epoch_callback_argument_check[where st = "SampleTuple [[Num 1], [Num 2]]"
        and a = False and b = False and c = False and d = False and s = sample_state
        and x = "[Num 1]" and y = "[Num 2]"]
    by auto
  then have 4: "\<exists>rest. out (snd (epoch_callback (SampleTuple [[Num 1], [Num 2]]) False False False False
                          sample_state)) =
      [Inference GeneratorClear2Fog [Num 1], Inference GeneratorFog2Clear [Num 2],
       Inference DiscriminatorClear [Num 1], Inference DiscriminatorFog [Num 2],
       Inference DiscriminatorClear [Num 2], Inference DiscriminatorFog [Num 1]] @ rest"
    unfolding sample_inferences_def r by (simp add: sample_state_def)
  show ?thesis
    using epoch_callback_argument_check[where st = "SampleList [[Num 1], [Num 2], [Num 3]]"
        and a = False and b = True and c = True and d = True and s = sample_state]
      epoch_callback_argument_check[where st = "SampleTuple [[Num 1], [Num 2]]" and a = False
        and b = True and c = True and d = True and s = sample_state] 4
    by (simp add: invalid_sample_def)
qed

subsection \<open>The training step\<close>

lemma bind_err_Inr: "bind_err m f = Inr r \<Longrightarrow> \<exists>v. m = Inr v \<and> f v = Inr r"
  by (cases m) (simp_all add: bind_err_def)

lemma recorded_losses_composition:
  assumes "recorded_losses tr real_clear real_fog = Inr losses"
  shows "\<exists>adv_clear2fog adv_fog2clear cycle_clear cycle_fog identity_fog identity_clear
        disc_clear disc_fog.
     generator_loss (run (discriminator_fog tr) True (run (generator_clear2fog tr) True real_clear))
       = Inr adv_clear2fog \<and>
     generator_loss (run (discriminator_clear tr) True (run (generator_fog2clear tr) True real_fog))
       = Inr adv_fog2clear \<and>
     calc_cycle_loss tr real_clear
       (run (generator_fog2clear tr) True (run (generator_clear2fog tr) True real_clear))
       = Inr cycle_clear \<and>
     calc_cycle_loss tr real_fog
       (run (generator_clear2fog tr) True (run (generator_fog2clear tr) True real_fog))
       = Inr cycle_fog \<and>
     identity_loss tr real_fog (run (generator_clear2fog tr) True real_fog) = Inr identity_fog \<and>
     identity_loss tr real_clear (run (generator_fog2clear tr) True real_clear) = Inr identity_clear \<and>
     discriminator_loss (run (discriminator_clear tr) True real_clear)
       (run (discriminator_clear tr) True (run (generator_fog2clear tr) True real_fog))
       = Inr disc_clear \<and>
     discriminator_loss (run (discriminator_fog tr) True real_fog)
       (run (discriminator_fog tr) True (run (generator_clear2fog tr) True real_clear))
       = Inr disc_fog \<and>
     losses =
       (sadd (sadd adv_clear2fog (sadd cycle_clear cycle_fog)) identity_fog,
        sadd (sadd adv_fog2clear (sadd cycle_clear cycle_fog)) identity_clear,
        disc_clear, disc_fog)"
  using assms unfolding recorded_losses_def Let_def
  by (auto dest!: bind_err_Inr)

lemma train_step_Inr:
  "train_step tr real_clear real_fog = Inr (losses, tr') \<Longrightarrow>
   recorded_losses tr real_clear real_fog = Inr losses"
  unfolding train_step_def Let_def
  by (auto dest!: bind_err_Inr)

lemma train_step_returns:
  "recorded_losses tr real_clear real_fog = Inr losses \<Longrightarrow>
   \<exists>tr'. train_step tr real_clear real_fog = Inr (losses, tr')"
  unfolding train_step_def Let_def by (simp add: bind_err_def)


lemma generator_loss_returns: "\<exists>l. generator_loss x = Inr l"
  using binary_crossentropy_constant_target[where from_logits = True and c = "Num 1" and x = x]
  by (simp add: generator_loss_def loss_obj_def ones_like_def)

lemma discriminator_loss_returns: "\<exists>l. discriminator_loss x y = Inr l"
proof -
  obtain a where a: "loss_obj (ones_like x) x = Inr a"
    using binary_crossentropy_constant_target[where from_logits = True and c = "Num 1" and x = x]
    by (auto simp: loss_obj_def ones_like_def)
  obtain b where b: "loss_obj (zeros_like y) y = Inr b"
    using binary_crossentropy_constant_target[where from_logits = True and c = "Num 0" and x = y]
    by (auto simp: loss_obj_def zeros_like_def)
  show ?thesis using a b by (simp add: discriminator_loss_def bind_err_def)
qed

lemma recorded_losses_returns:
  assumes "calc_cycle_loss tr real_clear
       (run (generator_fog2clear tr) True (run (generator_clear2fog tr) True real_clear))
       = Inr cycle_clear"
    "calc_cycle_loss tr real_fog
       (run (generator_clear2fog tr) True (run (generator_fog2clear tr) True real_fog))
       = Inr cycle_fog"
    "identity_loss tr real_fog (run (generator_clear2fog tr) True real_fog) = Inr identity_fog"
    "identity_loss tr real_clear (run (generator_fog2clear tr) True real_clear) = Inr identity_clear"
  shows "\<exists>losses. recorded_losses tr real_clear real_fog = Inr losses"
proof -
  obtain g1 where g1: "generator_loss (run (discriminator_fog tr) True (run (generator_clear2fog tr) True real_clear)) = Inr g1"
    using generator_loss_returns by blast
  obtain g2 where g2: "generator_loss (run (discriminator_clear tr) True (run (generator_fog2clear tr) True real_fog)) = Inr g2"
    using generator_loss_returns by blast
  obtain d1 where d1: "discriminator_loss (run (discriminator_clear tr) True real_clear)
       (run (discriminator_clear tr) True (run (generator_fog2clear tr) True real_fog)) = Inr d1"
    using discriminator_loss_returns by blast
  obtain d2 where d2: "discriminator_loss (run (discriminator_fog tr) True real_fog)
       (run (discriminator_fog tr) True (run (generator_clear2fog tr) True real_clear)) = Inr d2"
    using discriminator_loss_returns by blast
  show ?thesis
    unfolding recorded_losses_def Let_def
    by (simp add: g1 g2 d1 d2 assms bind_err_def)
qed

text \<open>
  C2. When \<open>train_step\<close> returns, its four losses are: for each direction, the adversarial
  loss of the generator (\<open>generator_loss\<close> of the discriminator's score of the fake image)
  plus the sum of the two cycle losses plus the identity loss of the generator applied to
  the other domain (\<open>real_fog\<close> for clear2fog, \<open>real_clear\<close> for fog2clear); and for each
  discriminator, \<open>discriminator_loss\<close> of its scores of the real and of the fake image. It
  returns whenever the two cycle losses and the two identity losses are defined.
\<close>

theorem train_step_losses:
  "(train_step tr real_clear real_fog = Inr (losses, tr') \<longrightarrow>
     (\<exists>adv_clear2fog adv_fog2clear cycle_clear cycle_fog identity_fog identity_clear
        disc_clear disc_fog.
     generator_loss (run (discriminator_fog tr) True (run (generator_clear2fog tr) True real_clear))
       = Inr adv_clear2fog \<and>
     generator_loss (run (discriminator_clear tr) True (run (generator_fog2clear tr) True real_fog))
       = Inr adv_fog2clear \<and>
     calc_cycle_loss tr real_clear
       (run (generator_fog2clear tr) True (run (generator_clear2fog tr) True real_clear))
       = Inr cycle_clear \<and>
     calc_cycle_loss tr real_fog
       (run (generator_clear2fog tr) True (run (generator_fog2clear tr) True real_fog))
       = Inr cycle_fog \<and>
     identity_loss tr real_fog (run (generator_clear2fog tr) True real_fog) = Inr identity_fog \<and>
     identity_loss tr real_clear (run (generator_fog2clear tr) True real_clear) = Inr identity_clear \<and>
     discriminator_loss (run (discriminator_clear tr) True real_clear)
       (run (discriminator_clear tr) True (run (generator_fog2clear tr) True real_fog))
       = Inr disc_clear \<and>
     discriminator_loss (run (discriminator_fog tr) True real_fog)
       (run (discriminator_fog tr) True (run (generator_clear2fog tr) True real_clear))
       = Inr disc_fog \<and>
     losses =
       (sadd (sadd adv_clear2fog (sadd cycle_clear cycle_fog)) identity_fog,
        sadd (sadd adv_fog2clear (sadd cycle_clear cycle_fog)) identity_clear,
        disc_clear, disc_fog))) \<and>
   (calc_cycle_loss tr real_clear
       (run (generator_fog2clear tr) True (run (generator_clear2fog tr) True real_clear))
       = Inr c1 \<and>
    calc_cycle_loss tr real_fog
       (run (generator_clear2fog tr) True (run (generator_fog2clear tr) True real_fog))
       = Inr c2 \<and>
    identity_loss tr real_fog (run (generator_clear2fog tr) True real_fog) = Inr i1 \<and>
    identity_loss tr real_clear (run (generator_fog2clear tr) True real_clear) = Inr i2 \<longrightarrow>
    (\<exists>r. train_step tr real_clear real_fog = Inr r))"
proof (intro conjI impI)
  assume "train_step tr real_clear real_fog = Inr (losses, tr')"
  then have "recorded_losses tr real_clear real_fog = Inr losses" by (rule train_step_Inr)
  then show "\<exists>adv_clear2fog adv_fog2clear cycle_clear cycle_fog identity_fog identity_clear
        disc_clear disc_fog.
     generator_loss (run (discriminator_fog tr) True (run (generator_clear2fog tr) True real_clear))
       = Inr adv_clear2fog \<and>
     generator_loss (run (discriminator_clear tr) True (run (generator_fog2clear tr) True real_fog))
       = Inr adv_fog2clear \<and>
     calc_cycle_loss tr real_clear
       (run (generator_fog2clear tr) True (run (generator_clear2fog tr) True real_clear))
       = Inr cycle_clear \<and>
     calc_cycle_loss tr real_fog
       (run (generator_clear2fog tr) True (run (generator_fog2clear tr) True real_fog))
       = Inr cycle_fog \<and>
     identity_loss tr real_fog (run (generator_clear2fog tr) True real_fog) = Inr identity_fog \<and>
     identity_loss tr real_clear (run (generator_fog2clear tr) True real_clear) = Inr identity_clear \<and>
     discriminator_loss (run (discriminator_clear tr) True real_clear)
       (run (discriminator_clear tr) True (run (generator_fog2clear tr) True real_fog))
       = Inr disc_clear \<and>
     discriminator_loss (run (discriminator_fog tr) True real_fog)
       (run (discriminator_fog tr) True (run (generator_clear2fog tr) True real_clear))
       = Inr disc_fog \<and>
     losses =
       (sadd (sadd adv_clear2fog (sadd cycle_clear cycle_fog)) identity_fog,
        sadd (sadd adv_fog2clear (sadd cycle_clear cycle_fog)) identity_clear,
        disc_clear, disc_fog)"
    by (rule recorded_losses_composition)
next
  assume a: "calc_cycle_loss tr real_clear
       (run (generator_fog2clear tr) True (run (generator_clear2fog tr) True real_clear))
       = Inr c1 \<and>
    calc_cycle_loss tr real_fog
       (run (generator_clear2fog tr) True (run (generator_fog2clear tr) True real_fog))
       = Inr c2 \<and>
    identity_loss tr real_fog (run (generator_clear2fog tr) True real_fog) = Inr i1 \<and>
    identity_loss tr real_clear (run (generator_fog2clear tr) True real_clear) = Inr i2"
  then obtain losses where "recorded_losses tr real_clear real_fog = Inr losses"
    using recorded_losses_returns[of tr real_clear c1 real_fog c2 i1 i2] by blast
  then show "\<exists>r. train_step tr real_clear real_fog = Inr r"
    using train_step_returns by blast
qed

lemma sample_losses:
  "calc_cycle_loss sample_trainer [Num 1, Num 2] [Num 1, Num 2] = Inr (Num 0)"
  "calc_cycle_loss sample_trainer [Num 3, Num 4] [Num 3, Num 4] = Inr (Num 0)"
  "identity_loss sample_trainer [Num 1, Num 2] [Num 1, Num 2] = Inr (Num 0)"
  "identity_loss sample_trainer [Num 3, Num 4] [Num 3, Num 4] = Inr (Num 0)"
  by (simp_all add: calc_cycle_loss_def identity_loss_def bind_err_def elementwise_def
      reduce_mean_def tf_abs_def ssub_def sample_trainer_def init_def)

lemma smul_one: "smul (Num 1) v = v"
  by (cases v) (simp_all add: scaled_infinity_def)

lemma sample_run:
  "run (generator_clear2fog sample_trainer) t x = x"
  "run (generator_fog2clear sample_trainer) t x = x"
  "run (discriminator_clear sample_trainer) t x = x"
  "run (discriminator_fog sample_trainer) t x = x"
proof -
  have "smul (Num 1) = id" by (simp add: fun_eq_iff smul_one)
  then show "run (generator_clear2fog sample_trainer) t x = x"
    "run (generator_fog2clear sample_trainer) t x = x"
    "run (discriminator_clear sample_trainer) t x = x"
    "run (discriminator_fog sample_trainer) t x = x"
    by (simp_all add: run_def sample_trainer_def init_def sample_network_def)
qed

theorem train_step_losses_witness:
  "\<exists>adv_clear2fog adv_fog2clear disc_clear disc_fog tr'.
     generator_loss [Num 1, Num 2] = Inr adv_clear2fog \<and>
     generator_loss [Num 3, Num 4] = Inr adv_fog2clear \<and>
     discriminator_loss [Num 1, Num 2] [Num 3, Num 4] = Inr disc_clear \<and>
     discriminator_loss [Num 3, Num 4] [Num 1, Num 2] = Inr disc_fog \<and>
     train_step sample_trainer [Num 1, Num 2] [Num 3, Num 4] =
       Inr ((sadd (sadd adv_clear2fog (Num 0)) (Num 0),
             sadd (sadd adv_fog2clear (Num 0)) (Num 0), disc_clear, disc_fog), tr')"
proof -
  have "\<exists>r. train_step sample_trainer [Num 1, Num 2] [Num 3, Num 4] = Inr r"
    using train_step_losses[where tr = sample_trainer and real_clear = "[Num 1, Num 2]"
        and real_fog = "[Num 3, Num 4]" and ?c1.0 = "Num 0" and ?c2.0 = "Num 0"
        and ?i1.0 = "Num 0" and ?i2.0 = "Num 0", THEN conjunct2]
    by (simp add: sample_run sample_losses)
  then obtain losses tr' where
    r: "train_step sample_trainer [Num 1, Num 2] [Num 3, Num 4] = Inr (losses, tr')"
    by auto
  from train_step_losses[where tr = sample_trainer and real_clear = "[Num 1, Num 2]"
        and real_fog = "[Num 3, Num 4]", THEN conjunct1, rule_format, OF r]
  show ?thesis
    unfolding r by (simp add: sample_run sample_losses)
qed

subsection \<open>Statements that only write events\<close>

lemma establishes_mono:
  "establishes R m \<Longrightarrow> (\<And>s s'. R s s' \<Longrightarrow> S s s') \<Longrightarrow> establishes S m"
  by (simp add: establishes_def)

lemma establishes_pure: "reflp R \<Longrightarrow> establishes R (\<lambda>s. (f s, s))"
  by (simp add: establishes_def reflpD)

lemma establishes_case_prod:
  "(\<And>a b. establishes R (f a b)) \<Longrightarrow> establishes R (case v of (a, b) \<Rightarrow> f a b)"
  by (cases v) simp

text \<open>
  The callback, the counter \<open>total_epochs + 1\<close> and the summaries change the state by appending
  events only: a reflexive and transitive relation that every appended event keeps is kept by
  them.
\<close>

lemma events_only:
  fixes R :: "('w, 'o) state \<Rightarrow> ('w, 'o) state \<Rightarrow> bool"
  assumes r: "reflp R" and t: "transp R" and e: "\<And>e. establishes R (emit e)"
  shows "establishes R total_plus_one"
    and "establishes R (epoch_callback st a b c d)"
    and "establishes R (write_summaries writers losses)"
proof -
  note intros = establishes_bind[OF t] establishes_seq[OF t] establishes_return[OF r]
    establishes_raise[OF r] establishes_lift[OF r] establishes_pure[OF r]
    establishes_if establishes_case_prod
  show total: "establishes R total_plus_one"
    unfolding total_plus_one_def by (rule establishes_pure[OF r])
  have image: "establishes R (image_path w name)" for w name
    unfolding establishes_def
  proof
    fix s :: "('w, 'o) state"
    show "R s (snd (image_path w name s))"
      using establishesD[OF e, where s = s] reflpD[OF r, of s]
      by (cases "image_log_path (self s)") (simp_all add: image_path_def)
  qed
  have predict: "establishes R (predict m x)" for m x
    unfolding establishes_def
  proof
    fix s :: "('w, 'o) state"
    show "R s (snd (predict m x s))"
      using establishesD[OF e[of "Inference m x"], where s = s] by (simp add: predict_def emit_def)
  qed
  have "show": "establishes R (show_sample xs a b c d)" for xs
    unfolding show_sample_def Let_def
    by (intro intros predict e image)
  show "establishes R (epoch_callback st a b c d)"
    unfolding epoch_callback_def
    by (cases st) (simp_all add: intros "show")
  have s: "establishes R (summary_scalar dir n v desc)" for dir n v desc
    unfolding summary_scalar_def by (intro intros total e)
  show "establishes R (write_summaries writers losses)"
    unfolding write_summaries_def
    by (cases writers; cases losses) (auto intro!: intros s)
qed

subsection \<open>The loop over the batches\<close>

lemma bind_Inr:
  "bind m f s = (Inr r, s') \<Longrightarrow> \<exists>v s1. m s = (Inr v, s1) \<and> f v s1 = (Inr r, s')"
  by (cases "m s") (auto simp: bind_def split: sum.splits)

lemma seq_Inr:
  "seq m n s = (Inr r, s') \<Longrightarrow> \<exists>s1. m s = (Inr (), s1) \<and> n s1 = (Inr r, s')"
  unfolding seq_def by (drule bind_Inr) auto

lemma bind_InrE:
  assumes "bind m f s = (Inr r, s')"
  obtains v s1 where "m s = (Inr v, s1)" "f v s1 = (Inr r, s')"
  using bind_Inr[OF assms] by blast

lemma seq_InrE:
  assumes "seq m n s = (Inr r, s')"
  obtains s1 where "m s = (Inr (), s1)" "n s1 = (Inr r, s')"
  using seq_Inr[OF assms] by blast

lemma run_train_step_Inr:
  "run_train_step x y s = (Inr l, s1) \<Longrightarrow>
   train_step (self s) x y = Inr (l, self s1) \<and> files s1 = files s"
  by (auto simp: run_train_step_def split: sum.splits)

lemma progress_print_Inr:
  assumes "bind (lift (py_mod n (Some rate))) (\<lambda>r.
            if r = 0 then emit e else return ()) s1 = (Inr (), s2)"
  shows "self s2 = self s1 \<and> files s2 = files s1"
  using assms
  by (auto simp: bind_def lift_def py_mod_def emit_def return_def split: if_splits)

text \<open>When the loop returns, it has taken the steps of \<open>train_steps\<close>, one per pair.\<close>

lemma batch_loop_steps:
  assumes "batch_loop a length' ds (acc, n) s = (Inr (acc', n'), s')"
  shows "\<exists>losses. train_steps (self s) ds = Inr (losses, self s') \<and>
     length losses = length ds \<and> acc' = add_losses acc losses \<and>
     n' = n + int (length ds) \<and> files s' = files s"
  using assms
proof (induction ds arbitrary: acc n s)
  case Nil
  then show ?case by (simp add: return_def)
next
  case (Cons d ds)
  obtain x y where d: "d = (x, y)" by (cases d)
  obtain t1 t2 t3 t4 where acc: "acc = (t1, t2, t3, t4)" by (cases acc) auto
  from Cons.prems obtain l s1 where
    step: "run_train_step x y s = (Inr l, s1)"
    and rest: "(case l of (l1, l2, l3, l4) \<Rightarrow>
       seq (bind (lift (py_mod n (Some (progress_print_rate a)))) (\<lambda>r.
            if r = 0 then emit (PrintWithTimestamp ''{}/{}'' [PInt n, length']) else return ()))
         (batch_loop a length' ds
            ((sadd t1 l1, sadd t2 l2, sadd t3 l3, sadd t4 l4), n + 1))) s1 = (Inr (acc', n'), s')"
    unfolding d acc batch_loop.simps by (blast dest: bind_Inr)
  obtain l1 l2 l3 l4 where l: "l = (l1, l2, l3, l4)" by (cases l) auto
  from rest obtain s2 where
    print: "bind (lift (py_mod n (Some (progress_print_rate a)))) (\<lambda>r.
            if r = 0 then emit (PrintWithTimestamp ''{}/{}'' [PInt n, length']) else return ()) s1
          = (Inr (), s2)"
    and loop: "batch_loop a length' ds
         ((sadd t1 l1, sadd t2 l2, sadd t3 l3, sadd t4 l4), n + 1) s2 = (Inr (acc', n'), s')"
    unfolding l by (auto dest: seq_Inr)
  from Cons.IH[OF loop] obtain losses where
    ih: "train_steps (self s2) ds = Inr (losses, self s')" "length losses = length ds"
      "acc' = add_losses (sadd t1 l1, sadd t2 l2, sadd t3 l3, sadd t4 l4) losses"
      "n' = n + 1 + int (length ds)" "files s' = files s2"
    by blast
  have s12: "self s2 = self s1" "files s2 = files s1"
    using progress_print_Inr[OF print] by simp_all
  have st: "train_step (self s) x y = Inr ((l1, l2, l3, l4), self s1)" "files s1 = files s"
    using run_train_step_Inr[OF step] l by simp_all
  have "train_steps (self s) (d # ds) = Inr ((l1, l2, l3, l4) # losses, self s')"
    using st ih(1) s12 by (simp add: d bind_err_def)
  moreover have "acc' = add_losses acc ((l1, l2, l3, l4) # losses)"
    using ih(3) by (simp add: acc)
  ultimately show ?case
    using ih(2,4,5) s12 st(2) by auto
qed

text \<open>When the loop ends in an error, a training step or the progress line has raised it.\<close>

lemma batch_loop_error:
  assumes "batch_loop a length' ds (acc, n) s = (Inl e, s')"
  shows "(\<exists>k. k \<le> length ds \<and> train_steps (self s) (take k ds) = Inl e) \<or>
     (progress_print_rate a = 0 \<and> e = ZeroDivisionError)"
  using assms
proof (induction ds arbitrary: acc n s)
  case Nil
  then show ?case by (simp add: return_def)
next
  case (Cons d ds)
  obtain x y where d: "d = (x, y)" by (cases d)
  obtain t1 t2 t3 t4 where acc: "acc = (t1, t2, t3, t4)" by (cases acc) auto
  show ?case
  proof (cases "train_step (self s) x y")
    case (Inl e')
    then have "e' = e"
      using Cons.prems by (simp add: d acc bind_def run_train_step_def)
    then have "train_steps (self s) (take 1 (d # ds)) = Inl e"
      using Inl by (simp add: d bind_err_def)
    then show ?thesis by (intro disjI1 exI[of _ 1]) simp
  next
    case (Inr r)
    obtain l1 l2 l3 l4 tr' where r: "r = ((l1, l2, l3, l4), tr')" by (cases r) auto
    show ?thesis
    proof (cases "progress_print_rate a = 0")
      case True
      then have "e = ZeroDivisionError"
        using Cons.prems Inr r
        by (simp add: d acc bind_def seq_def run_train_step_def lift_def py_mod_def)
      with True show ?thesis by simp
    next
      case False
      define s2 where "s2 = (if n mod progress_print_rate a = 0
        then s\<lparr>self := tr', out := out s @ [PrintWithTimestamp ''{}/{}'' [PInt n, length']]\<rparr>
        else s\<lparr>self := tr'\<rparr>)"
      have "batch_loop a length' ds
          ((sadd t1 l1, sadd t2 l2, sadd t3 l3, sadd t4 l4), n + 1) s2 = (Inl e, s')"
        using Cons.prems Inr r False
        by (auto simp: d acc bind_def seq_def run_train_step_def lift_def py_mod_def emit_def
            return_def s2_def split: if_splits)
      from Cons.IH[OF this] have
        "(\<exists>k. k \<le> length ds \<and> train_steps (self s2) (take k ds) = Inl e) \<or>
         (progress_print_rate a = 0 \<and> e = ZeroDivisionError)" .
      then obtain k where k: "k \<le> length ds" "train_steps tr' (take k ds) = Inl e"
        using False by (auto simp: s2_def split: if_splits)
      have "train_steps (self s) (take (Suc k) (d # ds)) = Inl e"
        using Inr r k(2) by (simp add: d bind_err_def)
      then show ?thesis using k(1) by (intro disjI1 exI[of _ "Suc k"]) simp
    qed
  qed
qed

lemma get_model_train_step:
  assumes "train_step tr x y = Inr (losses, tr')"
  shows "call (get_model m tr') = call (get_model m tr)"
  using assms unfolding train_step_def Let_def apply_gradients_def
  by (cases m) (auto simp: bind_err_def split: sum.splits prod.splits)

lemma generators_keep_size_losses:
  assumes "generators_keep_size tr"
  shows "\<exists>c. calc_cycle_loss tr x
       (run (generator_fog2clear tr) True (run (generator_clear2fog tr) True x)) = Inr c"
    "\<exists>c. calc_cycle_loss tr x
       (run (generator_clear2fog tr) True (run (generator_fog2clear tr) True x)) = Inr c"
    "\<exists>c. identity_loss tr x (run (generator_clear2fog tr) True x) = Inr c"
    "\<exists>c. identity_loss tr x (run (generator_fog2clear tr) True x) = Inr c"
  using assms
  by (simp_all add: generators_keep_size_def run_def calc_cycle_loss_def identity_loss_def
      bind_err_def elementwise_def)

lemma train_step_keeps_size:
  assumes "generators_keep_size tr"
  shows "\<exists>losses tr'. train_step tr x y = Inr (losses, tr') \<and> generators_keep_size tr'"
proof -
  obtain c1 c2 i1 i2 where
    "calc_cycle_loss tr x
       (run (generator_fog2clear tr) True (run (generator_clear2fog tr) True x)) = Inr c1"
    "calc_cycle_loss tr y
       (run (generator_clear2fog tr) True (run (generator_fog2clear tr) True y)) = Inr c2"
    "identity_loss tr y (run (generator_clear2fog tr) True y) = Inr i1"
    "identity_loss tr x (run (generator_fog2clear tr) True x) = Inr i2"
    using generators_keep_size_losses[OF assms] by metis
  then obtain losses where "recorded_losses tr x y = Inr losses"
    using recorded_losses_returns by blast
  then obtain tr' where t: "train_step tr x y = Inr (losses, tr')"
    using train_step_returns by blast
  have "generators_keep_size tr'"
    using assms get_model_train_step[OF t, of GeneratorClear2Fog]
      get_model_train_step[OF t, of GeneratorFog2Clear]
    by (simp add: generators_keep_size_def)
  with t show ?thesis by blast
qed

lemma batch_loop_returns:
  assumes "generators_keep_size (self s)" "progress_print_rate a \<noteq> 0"
  shows "\<exists>acc' s'. batch_loop a length' ds (acc, n) s = (Inr (acc', n + int (length ds)), s') \<and>
     generators_keep_size (self s')"
  using assms(1)
proof (induction ds arbitrary: acc n s)
  case Nil
  then show ?case by (cases acc) (auto simp: return_def)
next
  case (Cons d ds)
  obtain image_clear image_fog where d: "d = (image_clear, image_fog)" by (cases d)
  obtain t1 t2 t3 t4 where acc: "acc = (t1, t2, t3, t4)" by (cases acc) auto
  obtain l1 l2 l3 l4 tr' where
    t: "train_step (self s) image_clear image_fog = Inr ((l1, l2, l3, l4), tr')"
    and sp: "generators_keep_size tr'"
    using train_step_keeps_size[OF Cons.prems, of image_clear image_fog]
    by (metis prod_cases4)
  define s1 where "s1 = s\<lparr>self := tr'\<rparr>"
  define s2 where "s2 = (if n mod progress_print_rate a = 0
      then s1\<lparr>out := out s1 @ [PrintWithTimestamp ''{}/{}'' [PInt n, length']]\<rparr> else s1)"
  have sp2: "generators_keep_size (self s2)" using sp by (simp add: s2_def s1_def)
  from Cons.IH[OF sp2, of "(sadd t1 l1, sadd t2 l2, sadd t3 l3, sadd t4 l4)" "n + 1"]
  obtain acc' s' where
    r: "batch_loop a length' ds ((sadd t1 l1, sadd t2 l2, sadd t3 l3, sadd t4 l4), n + 1) s2 =
         (Inr (acc', n + 1 + int (length ds)), s')"
    and sp': "generators_keep_size (self s')"
    by blast
  have "batch_loop a length' (d # ds) (acc, n) s = (Inr (acc', n + int (length (d # ds))), s')"
    using t r[unfolded s2_def s1_def] assms(2)
    by (auto simp: d acc bind_def seq_def run_train_step_def lift_def py_mod_def emit_def
        return_def add.assoc split: if_splits)
  with sp' show ?case by blast
qed

subsection \<open>One epoch\<close>

lemma same_trainer_refl: "reflp same_trainer" by (rule reflpI) (simp add: same_trainer_def)
lemma same_trainer_trans: "transp same_trainer" by (rule transpI) (simp add: same_trainer_def)
lemma same_trainer_emit: "establishes same_trainer (emit e)"
  by (simp add: establishes_def emit_def same_trainer_def)

lemma same_trainerD: "establishes same_trainer m \<Longrightarrow> m s = (r, s') \<Longrightarrow> self s' = self s"
  by (auto simp: establishes_def same_trainer_def dest: spec[of _ s])

lemmas same_trainer_events = events_only[OF same_trainer_refl same_trainer_trans same_trainer_emit]

lemma only_epochs_differ_refl: "reflp only_epochs_differ"
  by (rule reflpI) (simp add: only_epochs_differ_def)

lemma only_epochs_differ_trans: "transp only_epochs_differ"
proof (rule transpI)
  fix s1 s2 s3 :: "('w, 'o) state"
  assume a: "only_epochs_differ s1 s2" and b: "only_epochs_differ s2 s3"
  have "self s3 = (self s2)\<lparr>total_epochs := total_epochs (self s3)\<rparr>"
    using b by (simp add: only_epochs_differ_def)
  also have "\<dots> = ((self s1)\<lparr>total_epochs := total_epochs (self s2)\<rparr>)
      \<lparr>total_epochs := total_epochs (self s3)\<rparr>"
    using a by (simp add: only_epochs_differ_def)
  finally show "only_epochs_differ s1 s3"
    by (simp add: only_epochs_differ_def)
qed

lemma same_trainer_only_epochs: "same_trainer s s' \<Longrightarrow> only_epochs_differ s s'"
  by (simp add: same_trainer_def only_epochs_differ_def)

lemma only_epochs_differ_emit: "establishes only_epochs_differ (emit e)"
  by (simp add: establishes_def emit_def only_epochs_differ_def)

lemmas only_epochs_differ_events =
  events_only[OF only_epochs_differ_refl only_epochs_differ_trans only_epochs_differ_emit]

lemmas only_epochs_differ_intros =
  establishes_bind[OF only_epochs_differ_trans] establishes_seq[OF only_epochs_differ_trans]
  establishes_return[OF only_epochs_differ_refl] establishes_raise[OF only_epochs_differ_refl]
  establishes_lift[OF only_epochs_differ_refl] establishes_pure[OF only_epochs_differ_refl]
  establishes_if establishes_case_prod

lemma self_save_loop: "self (snd (save_loop ps s)) = self s"
proof (induction ps arbitrary: s)
  case Nil
  then show ?case by (simp add: return_def)
next
  case (Cons p ps)
  obtain m path where p: "p = (m, path)" by (cases p)
  show ?case
    using Cons.IH[of "s\<lparr>files := (files s)(path \<mapsto> WeightsFile (weights (get_model m (self s))))\<rparr>"]
    by (simp add: p seq_def bind_def save_weights_to_def)
qed

lemma self_save_weights: "self (snd (save_weights s)) = self s"
  by (simp add: save_weights_def bind_def self_save_loop split: sum.splits prod.splits)

lemma only_epochs_differ_save_checkpoint:
  "establishes only_epochs_differ (save_checkpoint a epoch)"
proof -
  have w: "establishes only_epochs_differ save_weights"
    by (simp add: establishes_def only_epochs_differ_def self_save_weights)
  have "establishes only_epochs_differ
      (seq save_weights (bind total_plus_one (\<lambda>total. emit (PrintWithTimestamp msg [v, total, p]))))"
    for msg v p
    by (intro only_epochs_differ_intros w only_epochs_differ_events only_epochs_differ_emit)
  from establishesD[OF this] show ?thesis
    unfolding establishes_def save_checkpoint_def
    by (auto simp: reflpD[OF only_epochs_differ_refl] split: sum.splits)
qed

lemma only_epochs_differ_increment: "establishes only_epochs_differ increment_total_epochs"
  by (auto simp: establishes_def only_epochs_differ_def increment_total_epochs_def bind_def
      total_plus_one_def split: sum.splits)

lemma only_epochs_differ_save_config: "establishes only_epochs_differ save_config"
  by (auto simp: establishes_def only_epochs_differ_def save_config_def seq_def bind_def
      create_dir_def write_json_def emit_def split: option.splits)

text \<open>
  An epoch that returns has taken the steps of \<open>train_steps\<close> from the trainer it started
  with, one for each pair of the zipped streams; what the rest of the iteration changes in
  the trainer is \<open>total_epochs\<close>, and the \<open>length\<close> it returns is the number of steps.
\<close>

lemma epoch_body_steps:
  fixes s :: "('w, 'o) state"
  assumes "epoch_body a writers epoch length' s = (Inr l, s')"
  shows "\<exists>losses tr'. train_steps (self s) (zip (train_clear a) (train_fog a)) = Inr (losses, tr') \<and>
     length losses = length (zip (train_clear a) (train_fog a)) \<and>
     l = PInt (int (length (zip (train_clear a) (train_fog a)))) \<and>
     self s' = tr'\<lparr>total_epochs := total_epochs (self s')\<rparr>"
proof -
  from assms[unfolded epoch_body_def] obtain s1 where
    1: "bind total_plus_one (\<lambda>total.
          emit (PrintWithTimestamp ''Starting with epoch {} (total {})'' [PInt (epoch + 1), total])) s
        = (Inr (), s1)"
    and r1: "seq (epoch_callback (sample_test a) (plot_sample_generator a) (plot_sample_gen_and_disc a)
            (save_sample_generator_output a) (save_sample_gen_and_disc_output a))
    (bind (batch_loop a length' (zip (train_clear a) (train_fog a))
             ((Num 0, Num 0, Num 0, Num 0), 0))
       (\<lambda>(losses, n).
     seq (if clear_output_callback a then emit ClearOutputCallback else return ())
    (seq (save_checkpoint a epoch)
    (seq (bind total_plus_one (\<lambda>total.
            emit (PrintWithTimestamp
                    ''Time taken for epoch {} (total {}) is {} sec (effective: {} sec)''
                    [PInt (epoch + 1), total])))
    (seq (case losses of
            (clear2fog_loss_total, fog2clear_loss_total, disc_clear_loss_total, disc_fog_loss_total) \<Rightarrow>
              emit (PrintLosses clear2fog_loss_total fog2clear_loss_total
                      disc_clear_loss_total disc_fog_loss_total))
    (seq (write_summaries writers losses)
    (seq increment_total_epochs
    (seq (if save_config_each_epoch a then save_config else return ())
         (return (PInt n)))))))))) s1 = (Inr l, s')"
    by (rule seq_InrE)
  from r1 obtain s2 where
    2: "epoch_callback (sample_test a) (plot_sample_generator a) (plot_sample_gen_and_disc a)
            (save_sample_generator_output a) (save_sample_gen_and_disc_output a) s1 = (Inr (), s2)"
    and r2: "bind (batch_loop a length' (zip (train_clear a) (train_fog a))
             ((Num 0, Num 0, Num 0, Num 0), 0))
       (\<lambda>(losses, n).
     seq (if clear_output_callback a then emit ClearOutputCallback else return ())
    (seq (save_checkpoint a epoch)
    (seq (bind total_plus_one (\<lambda>total.
            emit (PrintWithTimestamp
                    ''Time taken for epoch {} (total {}) is {} sec (effective: {} sec)''
                    [PInt (epoch + 1), total])))
    (seq (case losses of
            (clear2fog_loss_total, fog2clear_loss_total, disc_clear_loss_total, disc_fog_loss_total) \<Rightarrow>
              emit (PrintLosses clear2fog_loss_total fog2clear_loss_total
                      disc_clear_loss_total disc_fog_loss_total))
    (seq (write_summaries writers losses)
    (seq increment_total_epochs
    (seq (if save_config_each_epoch a then save_config else return ())
         (return (PInt n))))))))) s2 = (Inr l, s')"
    by (rule seq_InrE)
  from r2 obtain totals n s3 where
    3: "batch_loop a length' (zip (train_clear a) (train_fog a))
             ((Num 0, Num 0, Num 0, Num 0), 0) s2 = (Inr (totals, n), s3)"
    and r3: "seq (if clear_output_callback a then emit ClearOutputCallback else return ())
    (seq (save_checkpoint a epoch)
    (seq (bind total_plus_one (\<lambda>total.
            emit (PrintWithTimestamp
                    ''Time taken for epoch {} (total {}) is {} sec (effective: {} sec)''
                    [PInt (epoch + 1), total])))
    (seq (case totals of
            (clear2fog_loss_total, fog2clear_loss_total, disc_clear_loss_total, disc_fog_loss_total) \<Rightarrow>
              emit (PrintLosses clear2fog_loss_total fog2clear_loss_total
                      disc_clear_loss_total disc_fog_loss_total))
    (seq (write_summaries writers totals)
    (seq increment_total_epochs
    (seq (if save_config_each_epoch a then save_config else return ())
         (return (PInt n)))))))) s3 = (Inr l, s')"
    by (auto elim!: bind_InrE)
  have "establishes same_trainer
      (bind total_plus_one (\<lambda>total. emit (PrintWithTimestamp msg [v, total])))" for msg v
    by (intro establishes_bind[OF same_trainer_trans] same_trainer_events same_trainer_emit)
  from same_trainerD[OF this 1] have "self s1 = self s" .
  moreover have "self s2 = self s1"
    by (rule same_trainerD[OF same_trainer_events(2) 2])
  ultimately have s2: "self s2 = self s" by simp
  from batch_loop_steps[OF 3] obtain losses where
    steps: "train_steps (self s) (zip (train_clear a) (train_fog a)) = Inr (losses, self s3)"
      "length losses = length (zip (train_clear a) (train_fog a))"
      "n = int (length (zip (train_clear a) (train_fog a)))"
    unfolding s2 by auto
  have "establishes only_epochs_differ
     (seq (if clear_output_callback a then emit ClearOutputCallback else return ())
    (seq (save_checkpoint a epoch)
    (seq (bind total_plus_one (\<lambda>total.
            emit (PrintWithTimestamp
                    ''Time taken for epoch {} (total {}) is {} sec (effective: {} sec)''
                    [PInt (epoch + 1), total])))
    (seq (case totals of
            (clear2fog_loss_total, fog2clear_loss_total, disc_clear_loss_total, disc_fog_loss_total) \<Rightarrow>
              emit (PrintLosses clear2fog_loss_total fog2clear_loss_total
                      disc_clear_loss_total disc_fog_loss_total))
    (seq (write_summaries writers totals)
    (seq increment_total_epochs
    (seq (if save_config_each_epoch a then save_config else return ())
         (return (PInt n)))))))))"
    by (intro only_epochs_differ_intros only_epochs_differ_emit only_epochs_differ_events
        only_epochs_differ_save_checkpoint only_epochs_differ_increment
        only_epochs_differ_save_config)
  from establishesD[OF this, of s3] have after: "self s' = (self s3)\<lparr>total_epochs := total_epochs (self s')\<rparr>"
    unfolding r3 by (simp add: only_epochs_differ_def)
  have "l = PInt n"
    using r3 by (elim seq_InrE) (simp add: return_def)
  with steps after show ?thesis by blast
qed

text \<open>
  C7. The loop over the zipped streams takes one training step per pair, in order.
  (1) When it returns, the trainer it leaves is the one that \<open>min (len clear) (len fog)\<close>
  successive calls of \<open>train_step\<close> on the pairs produce from the trainer it started with,
  the totals are the sums of the losses of these steps, and the counter has grown by that
  minimum. (2) An epoch that returns has taken exactly these steps from the trainer it
  started with; the rest of the iteration changes \<open>total_epochs\<close> only, and the \<open>length\<close>
  returned is the minimum. (3) With generators that keep the size of their input and a
  \<open>progress_print_rate\<close> other than 0 the loop does return, whatever the two lengths.
  (4) An error of the loop is the error of one of these steps, or the division by a
  \<open>progress_print_rate\<close> of 0: no error comes from the lengths.
\<close>

theorem zipped_streams_steps:
  fixes s :: "('w, 'o) state"
  shows
  "(batch_loop a length' (zip cs fs) (acc, n) s = (Inr (acc', n'), s') \<longrightarrow>
      (\<exists>losses. train_steps (self s) (zip cs fs) = Inr (losses, self s') \<and>
         length losses = min (length cs) (length fs) \<and>
         acc' = add_losses acc losses \<and>
         n' = n + int (min (length cs) (length fs)))) \<and>
   (epoch_body a writers epoch length' s = (Inr l, s') \<longrightarrow>
      (\<exists>losses tr'.
         train_steps (self s) (zip (train_clear a) (train_fog a)) = Inr (losses, tr') \<and>
         length losses = min (length (train_clear a)) (length (train_fog a)) \<and>
         self s' = tr'\<lparr>total_epochs := total_epochs (self s')\<rparr> \<and>
         l = PInt (int (min (length (train_clear a)) (length (train_fog a)))))) \<and>
   (generators_keep_size (self s) \<and> progress_print_rate a \<noteq> 0 \<longrightarrow>
      (\<exists>totals s2. batch_loop a length' (zip cs fs) (acc, n) s =
         (Inr (totals, n + int (min (length cs) (length fs))), s2))) \<and>
   (batch_loop a length' (zip cs fs) (acc, n) s = (Inl e, s') \<longrightarrow>
      (\<exists>k \<le> min (length cs) (length fs). train_steps (self s) (take k (zip cs fs)) = Inl e) \<or>
      (progress_print_rate a = 0 \<and> e = ZeroDivisionError))"
proof (intro conjI impI)
  assume "batch_loop a length' (zip cs fs) (acc, n) s = (Inr (acc', n'), s')"
  from batch_loop_steps[OF this]
  show "\<exists>losses. train_steps (self s) (zip cs fs) = Inr (losses, self s') \<and>
         length losses = min (length cs) (length fs) \<and>
         acc' = add_losses acc losses \<and>
         n' = n + int (min (length cs) (length fs))"
    by auto
next
  assume "epoch_body a writers epoch length' s = (Inr l, s')"
  from epoch_body_steps[OF this]
  show "\<exists>losses tr'.
         train_steps (self s) (zip (train_clear a) (train_fog a)) = Inr (losses, tr') \<and>
         length losses = min (length (train_clear a)) (length (train_fog a)) \<and>
         self s' = tr'\<lparr>total_epochs := total_epochs (self s')\<rparr> \<and>
         l = PInt (int (min (length (train_clear a)) (length (train_fog a))))"
    by auto
next
  assume "generators_keep_size (self s) \<and> progress_print_rate a \<noteq> 0"
  then show "\<exists>totals s2. batch_loop a length' (zip cs fs) (acc, n) s =
         (Inr (totals, n + int (min (length cs) (length fs))), s2)"
    using batch_loop_returns[of s a length' "zip cs fs" acc n] by auto
next
  assume "batch_loop a length' (zip cs fs) (acc, n) s = (Inl e, s')"
  from batch_loop_error[OF this]
  show "(\<exists>k \<le> min (length cs) (length fs). train_steps (self s) (take k (zip cs fs)) = Inl e) \<or>
      (progress_print_rate a = 0 \<and> e = ZeroDivisionError)"
    by auto
qed

lemma sample_generators_keep_size: "generators_keep_size (self sample_state)"
  by (simp add: generators_keep_size_def sample_state_def sample_trainer_def init_def
      sample_network_def)

theorem zipped_streams_steps_witness:
  "\<exists>totals s2 losses.
     batch_loop default_args (PStr ''Unknown'')
       (zip [[Num 1], [Num 2], [Num 3], [Num 4], [Num 5]] [[Num 6], [Num 7], [Num 8]])
       ((Num 0, Num 0, Num 0, Num 0), 0) sample_state = (Inr (totals, 3), s2) \<and>
     train_steps (self sample_state)
       (zip [[Num 1], [Num 2], [Num 3], [Num 4], [Num 5]] [[Num 6], [Num 7], [Num 8]]) =
       Inr (losses, self s2) \<and>
     length losses = 3 \<and> totals = add_losses (Num 0, Num 0, Num 0, Num 0) losses"
proof -
  note steps = zipped_streams_steps[where s = sample_state and a = default_args
      and cs = "[[Num 1], [Num 2], [Num 3], [Num 4], [Num 5]]"
      and fs = "[[Num 6], [Num 7], [Num 8]]" and n = 0
      and acc = "(Num 0, Num 0, Num 0, Num 0)" and length' = "PStr ''Unknown''"]
  from steps[THEN conjunct2, THEN conjunct2, THEN conjunct1, rule_format,
      OF conjI[OF sample_generators_keep_size]]
  obtain totals s2 where
    b: "batch_loop default_args (PStr ''Unknown'')
       (zip [[Num 1], [Num 2], [Num 3], [Num 4], [Num 5]] [[Num 6], [Num 7], [Num 8]])
       ((Num 0, Num 0, Num 0, Num 0), 0) sample_state = (Inr (totals, 3), s2)"
    by (auto simp: default_args_def)
  from steps[where acc' = totals and n' = 3 and s' = s2, THEN conjunct1, rule_format, OF b]
  show ?thesis using b by auto
qed

subsection \<open>What the epoch loop leaves unchanged\<close>

lemma quiet_refl: "reflp quiet" by (rule reflpI) (simp add: quiet_def)
lemma quiet_trans: "transp quiet" by (rule transpI) (simp add: quiet_def)
lemma same_epochs_refl: "reflp same_epochs" by (rule reflpI) (simp add: same_epochs_def)
lemma same_epochs_trans: "transp same_epochs" by (rule transpI) (simp add: same_epochs_def)
lemma keeps_weight_files_refl: "reflp keeps_weight_files"
  by (rule reflpI) (simp add: keeps_weight_files_def)
lemma keeps_weight_files_trans: "transp keeps_weight_files"
  by (rule transpI) (simp add: keeps_weight_files_def)

lemma quiet_same_epochs: "quiet s s' \<Longrightarrow> same_epochs s s'"
  by (simp add: quiet_def same_epochs_def)
lemma quiet_keeps_weight_files: "quiet s s' \<Longrightarrow> keeps_weight_files s s'"
  by (simp add: quiet_def keeps_weight_files_def)

lemmas quiet_intros =
  establishes_bind[OF quiet_trans] establishes_seq[OF quiet_trans]
  establishes_return[OF quiet_refl] establishes_raise[OF quiet_refl]
  establishes_lift[OF quiet_refl] establishes_pure[OF quiet_refl]
  establishes_if establishes_case_prod

lemma quiet_emit: "establishes quiet (emit e)"
  by (simp add: establishes_def emit_def quiet_def)

lemmas quiet_events = events_only[OF quiet_refl quiet_trans quiet_emit]

lemma train_step_fields:
  assumes "train_step tr x y = Inr (losses, tr')"
  shows "total_epochs tr' = total_epochs tr" "config_path tr' = config_path tr"
    "weights_path tr' = weights_path tr"
  using assms unfolding train_step_def Let_def
  by (auto simp: bind_err_def split: sum.splits)

lemma quiet_run_train_step: "establishes quiet (run_train_step x y)"
  by (auto simp: establishes_def run_train_step_def quiet_def train_step_fields
      split: sum.splits)

lemma quiet_batch_loop: "establishes quiet (batch_loop a length' ds acc)"
proof (induction ds arbitrary: acc)
  case Nil
  then show ?case by (simp add: quiet_intros)
next
  case (Cons d ds)
  obtain x y where d: "d = (x, y)" by (cases d)
  obtain t1 t2 t3 t4 n where acc: "acc = ((t1, t2, t3, t4), n)" by (cases acc) auto
  show ?case
    unfolding d acc batch_loop.simps
    by (intro quiet_intros quiet_run_train_step quiet_emit Cons.IH)
qed

lemma quiet_configure_tensorboard: "establishes quiet (configure_tensorboard a)"
proof -
  have 1: "establishes quiet (\<lambda>s. if tensorboard_current_logdir (self s) = PNone
                    then (case join_attr (tensorboard_base_logdir (self s)) (now a) of
                            Inl e \<Rightarrow> (Inl e, s)
                          | Inr dir \<Rightarrow>
                              (Inr (), s\<lparr>self := (self s)\<lparr>tensorboard_current_logdir := PStr dir\<rparr>\<rparr>))
                    else (Inr (), s))"
    by (auto simp: establishes_def quiet_def split: sum.splits)
  show ?thesis
    unfolding configure_tensorboard_def
    by (intro quiet_intros quiet_emit 1)
qed

lemmas keeps_intros =
  establishes_bind[OF keeps_weight_files_trans] establishes_seq[OF keeps_weight_files_trans]
  establishes_return[OF keeps_weight_files_refl] establishes_raise[OF keeps_weight_files_refl]
  establishes_lift[OF keeps_weight_files_refl] establishes_pure[OF keeps_weight_files_refl]
  establishes_if establishes_case_prod

lemmas same_epochs_intros =
  establishes_bind[OF same_epochs_trans] establishes_seq[OF same_epochs_trans]
  establishes_return[OF same_epochs_refl] establishes_raise[OF same_epochs_refl]
  establishes_lift[OF same_epochs_refl] establishes_pure[OF same_epochs_refl]
  establishes_if establishes_case_prod

lemmas quiet_statements =
  quiet_emit quiet_events quiet_batch_loop quiet_configure_tensorboard

lemma quiet_to_keeps: "establishes quiet m \<Longrightarrow> establishes keeps_weight_files m"
  by (erule establishes_mono) (rule quiet_keeps_weight_files)

lemma quiet_to_same_epochs: "establishes quiet m \<Longrightarrow> establishes same_epochs m"
  by (erule establishes_mono) (rule quiet_same_epochs)

lemmas keeps_quiet = quiet_statements[THEN quiet_to_keeps]
lemmas same_epochs_quiet = quiet_statements[THEN quiet_to_same_epochs]

lemma create_dir_relations:
  "establishes keeps_weight_files (create_dir p)" "establishes same_epochs (create_dir p)"
  by (auto simp: establishes_def create_dir_def keeps_weight_files_def same_epochs_def
      split: if_splits)

lemma create_dir_attr_relations:
  "establishes keeps_weight_files (create_dir_attr v)" "establishes same_epochs (create_dir_attr v)"
  unfolding create_dir_attr_def
  by (cases v; simp add: create_dir_relations keeps_intros same_epochs_intros)+

lemma write_json_relations:
  "establishes keeps_weight_files (write_json p v)" "establishes same_epochs (write_json p v)"
  by (auto simp: establishes_def write_json_def keeps_weight_files_def same_epochs_def
      split: if_splits)

lemma save_config_relations:
  "establishes keeps_weight_files save_config" "establishes same_epochs save_config"
proof -
  have k: "establishes keeps_weight_files
      (seq (create_dir (dirname p)) (seq (write_json p config) (emit e)))" for p config e
    by (intro keeps_intros create_dir_relations write_json_relations keeps_quiet)
  have e: "establishes same_epochs
      (seq (create_dir (dirname p)) (seq (write_json p config) (emit e)))" for p config e
    by (intro same_epochs_intros create_dir_relations write_json_relations same_epochs_quiet)
  show "establishes keeps_weight_files save_config"
    unfolding establishes_def save_config_def Let_def
    by (auto simp: establishesD[OF k] reflpD[OF keeps_weight_files_refl] split: option.splits)
  show "establishes same_epochs save_config"
    unfolding establishes_def save_config_def Let_def
    by (auto simp: establishesD[OF e] reflpD[OF same_epochs_refl] split: option.splits)
qed

lemma keeps_load_config: "establishes keeps_weight_files (load_config b)"
  by (rule establishes_mono[OF load_config_establishes_frame])
    (simp add: persisted_frame_def keeps_weight_files_def)

lemma keeps_increment: "establishes keeps_weight_files increment_total_epochs"
proof -
  have "establishes keeps_weight_files (\<lambda>s. (Inr (), s\<lparr>self := (self s)\<lparr>total_epochs := total\<rparr>\<rparr>))"
    for total
    by (simp add: establishes_def keeps_weight_files_def)
  then show ?thesis
    unfolding increment_total_epochs_def by (intro keeps_intros keeps_quiet)
qed

lemma save_checkpoint_None: "epoch_save_rate a = None \<Longrightarrow> save_checkpoint a epoch s = (Inr (), s)"
  by (simp add: save_checkpoint_def)

lemma keeps_epoch_body:
  assumes "epoch_save_rate a = None"
  shows "establishes keeps_weight_files (epoch_body a writers epoch length')"
proof -
  have c: "establishes keeps_weight_files (save_checkpoint a epoch)"
    using assms by (simp add: establishes_def save_checkpoint_None reflpD[OF keeps_weight_files_refl])
  show ?thesis
    unfolding epoch_body_def
    by (intro keeps_intros keeps_quiet c keeps_increment save_config_relations)
qed

lemma keeps_epoch_loop:
  assumes "epoch_save_rate a = None"
  shows "establishes keeps_weight_files (epoch_loop a writers es length')"
proof (induction es arbitrary: length')
  case Nil
  then show ?case by (simp add: keeps_intros)
next
  case (Cons e es)
  show ?case
    unfolding epoch_loop.simps
    by (intro keeps_intros keeps_epoch_body[OF assms] Cons.IH)
qed

lemma keeps_train:
  assumes "epoch_save_rate a = None"
  shows "establishes keeps_weight_files (train a)"
proof -
  have 1: "establishes keeps_weight_files
      (\<lambda>s. if load_config_first a \<and> config_path (self s) \<noteq> None
              then load_config True s else (Inr (), s))"
    unfolding establishes_def
    by (simp add: establishesD[OF keeps_load_config] reflpD[OF keeps_weight_files_refl])
  have 2: "establishes keeps_weight_files
      (\<lambda>s. if save_sample_generator_output a \<or> save_sample_gen_and_disc_output a
              then create_dir_attr (image_log_path (self s)) s else (Inr (), s))"
    unfolding establishes_def
    by (simp add: establishesD[OF create_dir_attr_relations(1)] reflpD[OF keeps_weight_files_refl])
  show ?thesis
    unfolding train_def
    by (intro keeps_intros keeps_quiet 1 2 keeps_epoch_loop[OF assms])
qed

text \<open>
  C9. With \<open>epoch_save_rate = None\<close> the block under \<open># Save weights\<close> does nothing and
  raises nothing, although \<open>(epoch + 1) % None\<close> would be a \<open>TypeError\<close>: the guard stops before
  the modulo. And whatever else the call to \<open>train\<close> does, and however it ends, every weights
  file that exists after it existed before it with the same weights.
\<close>

theorem no_checkpoint_without_save_rate:
  "epoch_save_rate a = None \<Longrightarrow>
     save_checkpoint a epoch s = (Inr (), s) \<and>
     py_mod (epoch + 1) (epoch_save_rate a) = Inl TypeError \<and>
     (\<forall>p w. files (snd (train a s)) p = Some (WeightsFile w) \<longrightarrow>
        files s p = Some (WeightsFile w))"
  using establishesD[OF keeps_train, of a s]
  by (simp add: save_checkpoint_None py_mod_def keeps_weight_files_def)

theorem no_checkpoint_without_save_rate_witness:
  "save_checkpoint (default_args\<lparr>epoch_save_rate := None\<rparr>) 0 trained_state =
     (Inr (), trained_state) \<and>
   (\<forall>p w. files (snd (train (default_args\<lparr>epoch_save_rate := None\<rparr>) trained_state)) p \<noteq>
      Some (WeightsFile w))"
  using no_checkpoint_without_save_rate[where a = "default_args\<lparr>epoch_save_rate := None\<rparr>"
      and epoch = 0 and s = trained_state]
  by (simp add: trained_state_def sample_state_def)

subsection \<open>The epoch counter\<close>

lemma hoareD: "hoare P m Q \<Longrightarrow> P s \<Longrightarrow> m s = (Inr v, s') \<Longrightarrow> Q v s'"
  by (auto simp: hoare_def dest: spec[where x = s])

lemma hoare_bind:
  assumes "hoare P m Q" "\<And>v. hoare (Q v) (f v) R"
  shows "hoare P (bind m f) R"
  unfolding hoare_def
proof (intro allI impI)
  fix s assume p: "P s"
  obtain r s1 where ms: "m s = (r, s1)" by (cases "m s")
  show "case bind m f s of (Inl e, s') \<Rightarrow> True | (Inr v, s') \<Rightarrow> R v s'"
  proof (cases r)
    case (Inl e)
    then show ?thesis using ms by (simp add: bind_def)
  next
    case (Inr v)
    then have "Q v s1" using hoareD[OF assms(1) p] ms by simp
    then show ?thesis using assms(2)[of v] ms Inr by (simp add: bind_def hoare_def)
  qed
qed

lemma hoare_seq:
  "hoare P m (\<lambda>_. Q) \<Longrightarrow> hoare Q n R \<Longrightarrow> hoare P (seq m n) R"
  unfolding seq_def by (rule hoare_bind)

lemma hoare_return: "(\<And>s. P s \<Longrightarrow> Q v s) \<Longrightarrow> hoare P (return v) Q"
  by (simp add: hoare_def return_def)

lemma hoare_weaken:
  "hoare P m Q \<Longrightarrow> (\<And>s. P' s \<Longrightarrow> P s) \<Longrightarrow> (\<And>v s. Q v s \<Longrightarrow> Q' v s) \<Longrightarrow> hoare P' m Q'"
  unfolding hoare_def by (fastforce split: prod.splits sum.splits)

lemma hoare_case_prod:
  "(\<And>a b. hoare P (f a b) Q) \<Longrightarrow> hoare P (case v of (a, b) \<Rightarrow> f a b) Q"
  by (cases v) simp

lemma establishes_hoare:
  assumes "establishes R m" "\<And>s s'. P s \<Longrightarrow> R s s' \<Longrightarrow> Q s'"
  shows "hoare P m (\<lambda>_. Q)"
  unfolding hoare_def
proof (intro allI impI)
  fix s assume "P s"
  then have "Q (snd (m s))" using assms establishesD[OF assms(1), of s] by blast
  then show "case m s of (Inl e, s') \<Rightarrow> True | (Inr v, s') \<Rightarrow> Q s'"
    by (auto split: prod.splits sum.splits)
qed

lemma same_epochs_hoare:
  "establishes same_epochs m \<Longrightarrow> hoare (epochs_are k c) m (\<lambda>_. epochs_are k c)"
  by (erule establishes_hoare) (simp add: same_epochs_def epochs_are_def)

lemma same_epochs_save_weights: "establishes same_epochs save_weights"
proof -
  have 1: "establishes same_epochs (save_weights_to m path)" for m path
    by (auto simp: establishes_def save_weights_to_def same_epochs_def)
  have 2: "establishes same_epochs (save_loop mps)" for mps
  proof (induction mps)
    case Nil
    then show ?case by (simp add: same_epochs_intros)
  next
    case (Cons mp mps)
    then show ?case by (cases mp) (simp add: same_epochs_intros 1)
  qed
  show ?thesis
    unfolding save_weights_def
    by (intro same_epochs_intros 2)
qed

lemma same_epochs_save_checkpoint: "establishes same_epochs (save_checkpoint a epoch)"
proof -
  have 1: "establishes same_epochs
      (seq save_weights (bind total_plus_one (\<lambda>total. emit (e total))))" for e
    by (intro same_epochs_intros same_epochs_save_weights same_epochs_quiet)
  show ?thesis
    unfolding establishes_def save_checkpoint_def
    by (auto simp: establishesD[OF 1] reflpD[OF same_epochs_refl] split: sum.splits)
qed

lemma hoare_increment:
  "hoare (epochs_are k c) increment_total_epochs (\<lambda>_. epochs_are (k + 1) c)"
  by (simp add: hoare_def increment_total_epochs_def bind_def total_plus_one_def epochs_are_def)

lemma hoare_save_config:
  "hoare (epochs_are k c) save_config (\<lambda>_ s. epochs_are k c s \<and> saved_epochs k c s)"
  unfolding hoare_def
proof (intro allI impI)
  fix s :: "('a, 'b) state"
  assume p: "epochs_are k c s"
  obtain r s' where r: "save_config s = (r, s')" by (cases "save_config s")
  show "case save_config s of (Inl e, s') \<Rightarrow> True
        | (Inr v, s') \<Rightarrow> epochs_are k c s' \<and> saved_epochs k c s'"
  proof (cases r)
    case (Inl e)
    then show ?thesis using r by simp
  next
    case (Inr v)
    then have ok: "save_config s = (Inr (), s')" using r by simp
    from save_config_file[OF ok] p
    have "epochs_are k c s' \<and> saved_epochs k c s'"
      by (auto simp: epochs_are_def saved_epochs_def)
    then show ?thesis using ok by simp
  qed
qed

text \<open>An iteration of the epoch loop that returns has added one to the counter.\<close>

lemma hoare_epoch_body:
  "hoare (epochs_are k c) (epoch_body a writers epoch length')
     (\<lambda>_ s. epochs_are (k + 1) c s \<and> (save_config_each_epoch a \<longrightarrow> saved_epochs (k + 1) c s))"
  unfolding epoch_body_def
  apply (rule hoare_seq[where Q = "epochs_are k c"])
   apply (rule same_epochs_hoare)
   apply (intro same_epochs_intros same_epochs_quiet)
  apply (rule hoare_seq[where Q = "epochs_are k c"])
   apply (rule same_epochs_hoare)
   apply (intro same_epochs_intros same_epochs_quiet)
  apply (rule hoare_bind[where Q = "\<lambda>_. epochs_are k c"])
   apply (rule same_epochs_hoare)
   apply (intro same_epochs_intros same_epochs_quiet)
  apply (rule hoare_case_prod)
  apply (rule hoare_seq[where Q = "epochs_are k c"])
   apply (rule same_epochs_hoare)
   apply (intro same_epochs_intros same_epochs_quiet)
  apply (rule hoare_seq[where Q = "epochs_are k c"])
   apply (rule same_epochs_hoare)
   apply (rule same_epochs_save_checkpoint)
  apply (rule hoare_seq[where Q = "epochs_are k c"])
   apply (rule same_epochs_hoare)
   apply (intro same_epochs_intros same_epochs_quiet)
  apply (rule hoare_seq[where Q = "epochs_are k c"])
   apply (rule same_epochs_hoare)
   apply (intro same_epochs_intros same_epochs_quiet)
  apply (rule hoare_seq[where Q = "epochs_are k c"])
   apply (rule same_epochs_hoare)
   apply (intro same_epochs_intros same_epochs_quiet)
  apply (rule hoare_seq[where Q = "epochs_are (k + 1) c"])
   apply (rule hoare_increment)
  apply (rule hoare_seq[where Q = "\<lambda>s. epochs_are (k + 1) c s \<and>
      (save_config_each_epoch a \<longrightarrow> saved_epochs (k + 1) c s)"])
   apply (cases "save_config_each_epoch a")
    apply (simp add: hoare_save_config)
   apply (simp add: hoare_return)
  apply (rule hoare_return)
  apply simp
  done

lemma hoare_epoch_loop_saving:
  assumes "save_config_each_epoch a"
  shows "hoare (\<lambda>s. epochs_are k c s \<and> (es = [] \<longrightarrow> A s)) (epoch_loop a writers es length')
     (\<lambda>_ s. epochs_are (k + int (length es)) c s \<and> (es = [] \<longrightarrow> A s) \<and>
            (es \<noteq> [] \<longrightarrow> saved_epochs (k + int (length es)) c s))"
proof (induction es arbitrary: k length' A)
  case Nil
  then show ?case by (simp add: hoare_return)
next
  case (Cons e es)
  have body: "hoare (\<lambda>s. epochs_are k c s \<and> (e # es = [] \<longrightarrow> A s)) (epoch_body a writers e length')
     (\<lambda>_ s. epochs_are (k + 1) c s \<and> (es = [] \<longrightarrow> saved_epochs (k + 1) c s))"
    by (rule hoare_weaken[OF hoare_epoch_body[where k = k and c = c]]) (simp_all add: assms)
  have rest: "hoare (\<lambda>s. epochs_are (k + 1) c s \<and> (es = [] \<longrightarrow> saved_epochs (k + 1) c s))
      (epoch_loop a writers es l)
      (\<lambda>_ s. epochs_are (k + int (length (e # es))) c s \<and> (e # es = [] \<longrightarrow> A s) \<and>
            (e # es \<noteq> [] \<longrightarrow> saved_epochs (k + int (length (e # es))) c s))" for l
    by (rule hoare_weaken[OF Cons.IH[of "k + 1" "saved_epochs (k + 1) c" l]])
      (auto simp: add.assoc)
  show ?case
    unfolding epoch_loop.simps
    by (rule hoare_bind[OF body rest])
qed

lemma hoare_epoch_loop:
  "hoare (epochs_are k c :: ('w, 'o) state \<Rightarrow> bool) (epoch_loop a writers es length')
     (\<lambda>_. epochs_are (k + int (length es)) c)"
proof (induction es arbitrary: k length')
  case Nil
  then show ?case by (simp add: hoare_return)
next
  case (Cons e es)
  have body: "hoare (epochs_are k c :: ('w, 'o) state \<Rightarrow> bool) (epoch_body a writers e length')
      (\<lambda>_. epochs_are (k + 1) c)"
    by (rule hoare_weaken[OF hoare_epoch_body[where k = k and c = c]]) simp_all
  have eq: "k + int (length (e # es)) = k + 1 + int (length es)" by simp
  have rest: "hoare (epochs_are (k + 1) c :: ('w, 'o) state \<Rightarrow> bool) (epoch_loop a writers es l)
      (\<lambda>_. epochs_are (k + int (length (e # es))) c)" for l
    unfolding eq by (rule Cons.IH)
  show ?case
    unfolding epoch_loop.simps
    by (rule hoare_bind[OF body rest])
qed

lemma same_epochs_before_loop:
  "establishes same_epochs
     (\<lambda>s. if save_sample_generator_output a \<or> save_sample_gen_and_disc_output a
           then create_dir_attr (image_log_path (self s)) s else (Inr (), s))"
  unfolding establishes_def
  by (simp add: establishesD[OF create_dir_attr_relations(2)] reflpD[OF same_epochs_refl])

lemma length_range: "int (length [0 .. n - 1]) = max 0 n"
  by simp

text \<open>
  What follows the loading of the config in \<open>train\<close>: when it returns, it has added the
  number of epochs to the counter, and saved the count if asked to and there was an epoch.
\<close>

lemma hoare_train_after_load:
  "hoare (epochs_are k c :: ('w, 'o) state \<Rightarrow> bool)
     (seq (\<lambda>s. if save_sample_generator_output a \<or> save_sample_gen_and_disc_output a
              then create_dir_attr (image_log_path (self s)) s else (Inr (), s))
    (bind (configure_tensorboard a) (\<lambda>writers.
       epoch_loop a writers [0 .. epochs a - 1] (PStr ''Unknown''))))
     (\<lambda>_ s. epochs_are (k + max 0 (epochs a)) c s \<and>
        (save_config_each_epoch a \<and> 0 < epochs a \<longrightarrow> saved_epochs (k + max 0 (epochs a)) c s))"
proof -
  have loop: "hoare (epochs_are k c :: ('w, 'o) state \<Rightarrow> bool)
     (epoch_loop a writers [0 .. epochs a - 1] (PStr ''Unknown''))
     (\<lambda>_ s. epochs_are (k + max 0 (epochs a)) c s \<and>
        (save_config_each_epoch a \<and> 0 < epochs a \<longrightarrow> saved_epochs (k + max 0 (epochs a)) c s))"
    for writers
  proof (cases "save_config_each_epoch a")
    case True
    show ?thesis
      by (rule hoare_weaken[OF hoare_epoch_loop_saving[OF True, where A = "\<lambda>_. True"
              and k = k and c = c]])
        (auto simp flip: length_range)
  next
    case False
    show ?thesis
      by (rule hoare_weaken[OF hoare_epoch_loop[where k = k and c = c]])
        (auto simp: False simp flip: length_range)
  qed
  show ?thesis
    apply (rule hoare_seq[where Q = "epochs_are k c"])
     apply (rule same_epochs_hoare[OF same_epochs_before_loop])
    apply (rule hoare_bind[where Q = "\<lambda>_. epochs_are k c"])
     apply (rule same_epochs_hoare[OF quiet_to_same_epochs[OF quiet_configure_tensorboard]])
    apply (rule loop)
    done
qed

text \<open>Except for the loading of the config, \<open>train\<close> never lowers an integer counter.\<close>

lemma epochs_le_refl: "epochs_le v v"
  by (cases v) simp_all

lemma epochs_le_trans: "epochs_le u v \<Longrightarrow> epochs_le v w \<Longrightarrow> epochs_le u w"
  by (cases u; cases v; cases w) simp_all

lemma not_decreased_refl: "reflp not_decreased"
  by (rule reflpI) (simp add: not_decreased_def epochs_le_refl)

lemma not_decreased_trans: "transp not_decreased"
  by (rule transpI) (auto simp: not_decreased_def intro: epochs_le_trans)

lemma same_epochs_not_decreased: "establishes same_epochs m \<Longrightarrow> establishes not_decreased m"
  by (erule establishes_mono) (simp add: same_epochs_def not_decreased_def epochs_le_refl)

lemmas not_decreased_intros =
  establishes_bind[OF not_decreased_trans] establishes_seq[OF not_decreased_trans]
  establishes_return[OF not_decreased_refl] establishes_raise[OF not_decreased_refl]
  establishes_lift[OF not_decreased_refl] establishes_pure[OF not_decreased_refl]
  establishes_if establishes_case_prod

lemmas not_decreased_same =
  same_epochs_quiet[THEN same_epochs_not_decreased]
  same_epochs_save_checkpoint[THEN same_epochs_not_decreased]
  save_config_relations(2)[THEN same_epochs_not_decreased]
  same_epochs_before_loop[THEN same_epochs_not_decreased]

lemma not_decreased_increment: "establishes not_decreased increment_total_epochs"
proof -
  have "epochs_le v w" if "plus_one v = Inr w" for v w
    using that by (cases v) auto
  then show ?thesis
    by (auto simp: establishes_def not_decreased_def increment_total_epochs_def bind_def
        total_plus_one_def epochs_le_refl split: sum.splits)
qed

lemma not_decreased_epoch_body: "establishes not_decreased (epoch_body a writers epoch length')"
  unfolding epoch_body_def
  by (intro not_decreased_intros not_decreased_same not_decreased_increment)

lemma not_decreased_epoch_loop: "establishes not_decreased (epoch_loop a writers es length')"
proof (induction es arbitrary: length')
  case Nil
  then show ?case by (simp add: not_decreased_intros)
next
  case (Cons e es)
  show ?case
    unfolding epoch_loop.simps
    by (intro not_decreased_intros not_decreased_epoch_body Cons.IH)
qed

lemma not_decreased_train:
  assumes "\<not> load_config_first a"
  shows "establishes not_decreased (train a)"
proof -
  have 1: "establishes not_decreased
      (\<lambda>s. if load_config_first a \<and> config_path (self s) \<noteq> None
              then load_config True s else (Inr (), s))"
    using assms by (simp add: establishes_def reflpD[OF not_decreased_refl])
  show ?thesis
    unfolding train_def
    by (intro not_decreased_intros not_decreased_same not_decreased_epoch_loop 1)
qed

lemma train_without_load:
  assumes "\<not> load_config_first a"
  shows "hoare (epochs_are k c :: ('w, 'o) state \<Rightarrow> bool) (train a)
     (\<lambda>_. epochs_are (k + max 0 (epochs a)) c)"
proof -
  have 1: "hoare (epochs_are k c :: ('w, 'o) state \<Rightarrow> bool)
      (\<lambda>s. if load_config_first a \<and> config_path (self s) \<noteq> None
              then load_config True s else (Inr (), s)) (\<lambda>_. epochs_are k c)"
    using assms by (simp add: hoare_def)
  show ?thesis
    unfolding train_def
    by (rule hoare_seq[OF 1]) (rule hoare_weaken[OF hoare_train_after_load], assumption,
        erule conjunct1)
qed

lemma without_persisted_config_path:
  assumes "without_persisted t' = without_persisted t"
  shows "config_path t' = config_path t"
proof -
  have "config_path (without_persisted t') = config_path (without_persisted t)"
    using assms by simp
  then show ?thesis by (simp add: without_persisted_def)
qed

lemma saved_epochsD:
  assumes "saved_epochs k (Some p) s"
  shows "\<exists>items. files s p = Some (JsonFile (PDict items)) \<and>
     map_of items ''total_epochs'' = Some (PInt k)"
proof (cases "files s p")
  case None
  then show ?thesis using assms by (simp add: saved_epochs_def)
next
  case (Some f)
  show ?thesis
  proof (cases f)
    case (JsonFile v)
    then show ?thesis using assms Some by (cases v) (simp_all add: saved_epochs_def)
  qed (use assms Some in \<open>simp_all add: saved_epochs_def\<close>)
qed

lemma saved_epochs_None: "files s p = None \<Longrightarrow> \<not> saved_epochs k (Some p) s"
  by (simp add: saved_epochs_def)

text \<open>
  The loading of the config in a sequence of persistent calls: it leaves the counter at the
  count the file holds, or at 0 when there is no file yet.
\<close>

lemma load_config_resumable:
  fixes s :: "('w, 'o) state"
  assumes "resumable k trained s"
  shows "\<exists>s1. load_config True s = (Inr (), s1) \<and>
     epochs_are k (Some ''trainer_config.json'') s1 \<and> files s1 = files s \<and>
     without_persisted (self s1) = without_persisted (self s)"
proof -
  have c: "config_path (self s) = Some ''trainer_config.json''"
    using assms by (simp add: resumable_def)
  have frame: "persisted_frame True s (snd (load_config True s))"
    by (rule establishesD[OF load_config_establishes_frame])
  then have fr: "files (snd (load_config True s)) = files s"
    "without_persisted (self (snd (load_config True s))) = without_persisted (self s)"
    by (simp_all add: persisted_frame_def)
  have cp: "config_path (self (snd (load_config True s))) = config_path (self s)"
    by (rule without_persisted_config_path[OF fr(2)])
  show ?thesis
  proof (cases "files s ''trainer_config.json''")
    case None
    then have "k = 0 \<and> total_epochs (self s) = PInt 0"
      using assms by (simp add: resumable_def saved_epochs_None)
    moreover have "load_config True s =
        emit (Print ''Config path doesn't exist. Ignoring load config.'' []) s"
      using None c by (simp add: load_config_def)
    ultimately show ?thesis
      using c by (simp add: emit_def epochs_are_def)
  next
    case (Some f)
    then have "saved_epochs k (Some ''trainer_config.json'') s"
      using assms by (auto simp: resumable_def)
    from saved_epochsD[OF this] obtain items where
      f: "files s ''trainer_config.json'' = Some (JsonFile (PDict items))"
      and k: "map_of items ''total_epochs'' = Some (PInt k)"
      by blast
    from load_config_dict[OF c f, of True] obtain s1 where
      l: "load_config True s = (Inr (), s1)"
      and t: "total_epochs (self s1) =
        stored_or_current items ''total_epochs'' (total_epochs (self s))"
      by blast
    have "total_epochs (self s1) = PInt k"
      using t k by (simp add: stored_or_current_def)
    moreover have "config_path (self s1) = Some ''trainer_config.json''"
      using cp c by (simp add: l)
    moreover have "files s1 = files s" "without_persisted (self s1) = without_persisted (self s)"
      using fr by (simp_all add: l)
    ultimately show ?thesis
      using l by (simp add: epochs_are_def)
  qed
qed

lemma hoare_train_persistent:
  fixes a :: train_args
  assumes "epochs a = 1" "load_config_first a" "save_config_each_epoch a"
  shows "hoare (resumable k trained :: ('w, 'o) state \<Rightarrow> bool) (train a)
     (\<lambda>_. resumable (k + 1) True)"
proof -
  have 1: "hoare (resumable k trained :: ('w, 'o) state \<Rightarrow> bool)
      (\<lambda>s. if load_config_first a \<and> config_path (self s) \<noteq> None
              then load_config True s else (Inr (), s))
      (\<lambda>_. epochs_are k (Some ''trainer_config.json''))"
    unfolding hoare_def
  proof (intro allI impI)
    fix s :: "('w, 'o) state"
    assume r: "resumable k trained s"
    then have c: "config_path (self s) = Some ''trainer_config.json''"
      by (simp add: resumable_def)
    from load_config_resumable[OF r] obtain s1 where
      "load_config True s = (Inr (), s1)" "epochs_are k (Some ''trainer_config.json'') s1"
      by blast
    then show "case (if load_config_first a \<and> config_path (self s) \<noteq> None
                    then load_config True s else (Inr (), s)) of
                 (Inl e, s') \<Rightarrow> True
               | (Inr v, s') \<Rightarrow> epochs_are k (Some ''trainer_config.json'') s'"
      using assms(2) c by simp
  qed
  have 2: "resumable (k + 1) True s"
    if "epochs_are (k + max 0 (epochs a)) (Some ''trainer_config.json'') s \<and>
        (save_config_each_epoch a \<and> 0 < epochs a \<longrightarrow>
           saved_epochs (k + max 0 (epochs a)) (Some ''trainer_config.json'') s)"
    for s :: "('w, 'o) state"
    using that assms by (simp add: resumable_def epochs_are_def)
  show ?thesis
    unfolding train_def
    by (rule hoare_seq[OF 1]) (rule hoare_weaken[OF hoare_train_after_load], assumption, rule 2)
qed

lemma hoare_session:
  assumes "\<forall>c \<in> set calls. persistent c"
  shows "hoare (resumable k trained :: ('w, 'o) state \<Rightarrow> bool) (session calls)
     (\<lambda>_. resumable (k + int (count_trains calls))
        (if calls = [] then trained else is_train (last calls)))"
  using assms
proof (induction calls arbitrary: k trained)
  case Nil
  then show ?case by (simp add: hoare_return count_trains_def)
next
  case (Cons c calls)
  show ?case
  proof (cases c)
    case (NewTrainer g1 g2 d1 d2 lam adam n)
    have 1: "hoare (resumable k trained :: ('w, 'o) state \<Rightarrow> bool)
        (\<lambda>s. (Inr (), s\<lparr>self := init g1 g2 d1 d2 lam adam n\<rparr>)) (\<lambda>_. resumable k False)"
      by (auto simp: hoare_def resumable_def saved_epochs_def init_def)
    have 2: "hoare (resumable k False :: ('w, 'o) state \<Rightarrow> bool) (session calls)
        (\<lambda>_. resumable (k + int (count_trains (c # calls)))
           (if c # calls = [] then trained else is_train (last (c # calls))))"
      by (rule hoare_weaken[OF Cons.IH[of k False]])
        (use Cons.prems NewTrainer in \<open>auto simp: count_trains_def\<close>)
    show ?thesis
      unfolding NewTrainer session.simps by (rule hoare_seq[OF 1 2[unfolded NewTrainer]])
  next
    case (CallTrain a)
    then have a: "epochs a = 1" "load_config_first a" "save_config_each_epoch a"
      using Cons.prems by simp_all
    have 2: "hoare (resumable (k + 1) True :: ('w, 'o) state \<Rightarrow> bool) (session calls)
        (\<lambda>_. resumable (k + int (count_trains (c # calls)))
           (if c # calls = [] then trained else is_train (last (c # calls))))"
      by (rule hoare_weaken[OF Cons.IH[of "k + 1" True]])
        (use Cons.prems CallTrain in \<open>auto simp: count_trains_def add.assoc\<close>)
    show ?thesis
      unfolding CallTrain session.simps
      by (rule hoare_seq[OF hoare_train_persistent[OF a] 2[unfolded CallTrain]])
  qed
qed

lemma generators_keep_size_total_epochs:
  "generators_keep_size (t\<lparr>total_epochs := v\<rparr>) = generators_keep_size t"
  by (simp add: generators_keep_size_def)

lemma without_persisted_generators:
  assumes "without_persisted t' = without_persisted t"
  shows "generators_keep_size t' = generators_keep_size t"
proof -
  have "generator_clear2fog (without_persisted t') = generator_clear2fog (without_persisted t)"
    "generator_fog2clear (without_persisted t') = generator_fog2clear (without_persisted t)"
    using assms by simp_all
  then show ?thesis by (simp add: without_persisted_def generators_keep_size_def)
qed

lemma epoch_end_returns:
  fixes s :: "('w, 'o) state"
  assumes "epoch_save_rate a = None"
    and "total_epochs (self s) = PInt k"
    and "config_path (self s) = Some ''trainer_config.json''"
    and "files s ''trainer_config.json'' \<noteq> Some Directory"
  shows "\<exists>s'.
    seq (if clear_output_callback a then emit ClearOutputCallback else return ())
    (seq (save_checkpoint a epoch)
    (seq (bind total_plus_one (\<lambda>total.
            emit (PrintWithTimestamp
                    ''Time taken for epoch {} (total {}) is {} sec (effective: {} sec)''
                    [PInt (epoch + 1), total])))
    (seq (case losses of
            (clear2fog_loss_total, fog2clear_loss_total, disc_clear_loss_total, disc_fog_loss_total) \<Rightarrow>
              emit (PrintLosses clear2fog_loss_total fog2clear_loss_total
                      disc_clear_loss_total disc_fog_loss_total))
    (seq (write_summaries None losses)
    (seq increment_total_epochs
    (seq (if save_config_each_epoch a then save_config else return ())
         (return (PInt n)))))))) s = (Inr (PInt n), s') \<and>
    self s' = (self s)\<lparr>total_epochs := PInt (k + 1)\<rparr>"
proof -
  obtain l1 l2 l3 l4 where l: "losses = (l1, l2, l3, l4)" by (cases losses) auto
  have d: "dirname ''trainer_config.json'' = ''''"
    by (simp add: dirname_def)
  show ?thesis
    using assms
    by (simp add: l d seq_def bind_def emit_def return_def save_checkpoint_None
        total_plus_one_def write_summaries_def increment_total_epochs_def save_config_def
        create_dir_def write_json_def)
qed

lemma epoch_body_returns:
  fixes s :: "('w, 'o) state"
  assumes p: "plain a"
    and g: "generators_keep_size (self s)"
    and k: "total_epochs (self s) = PInt k"
    and c: "config_path (self s) = Some ''trainer_config.json''"
    and f: "files s ''trainer_config.json'' \<noteq> Some Directory"
  shows "\<exists>l s'. epoch_body a None epoch length' s = (Inr l, s') \<and>
     generators_keep_size (self s')"
proof -
  define s1 where "s1 = s\<lparr>out := out s @
    [PrintWithTimestamp ''Starting with epoch {} (total {})'' [PInt (epoch + 1), PInt (k + 1)]]\<rparr>"
  have 1: "bind total_plus_one (\<lambda>total.
      emit (PrintWithTimestamp ''Starting with epoch {} (total {})'' [PInt (epoch + 1), total])) s
      = (Inr (), s1)"
    using k by (simp add: bind_def total_plus_one_def emit_def s1_def)
  have 2: "epoch_callback (sample_test a) (plot_sample_generator a) (plot_sample_gen_and_disc a)
      (save_sample_generator_output a) (save_sample_gen_and_disc_output a) s1 = (Inr (), s1)"
    using p by (simp add: plain_def epoch_callback_def return_def)
  have "generators_keep_size (self s1)" "progress_print_rate a \<noteq> 0"
    using g p by (simp_all add: s1_def plain_def)
  from batch_loop_returns[OF this, of length' "zip (train_clear a) (train_fog a)"
      "(Num 0, Num 0, Num 0, Num 0)" 0]
  obtain totals s2 where
    3: "batch_loop a length' (zip (train_clear a) (train_fog a))
          ((Num 0, Num 0, Num 0, Num 0), 0) s1 =
        (Inr (totals, 0 + int (length (zip (train_clear a) (train_fog a)))), s2)"
    and g2: "generators_keep_size (self s2)"
    by blast
  have "quiet s1 s2"
    using establishesD[OF quiet_batch_loop[of a length' "zip (train_clear a) (train_fog a)"
          "((Num 0, Num 0, Num 0, Num 0), 0)"], of s1]
    by (simp add: 3)
  then have s2: "total_epochs (self s2) = PInt k"
    "config_path (self s2) = Some ''trainer_config.json''"
    "files s2 ''trainer_config.json'' \<noteq> Some Directory"
    using k c f by (simp_all add: quiet_def s1_def)
  have "epoch_save_rate a = None" using p by (simp add: plain_def)
  from epoch_end_returns[OF this s2, of epoch totals
      "0 + int (length (zip (train_clear a) (train_fog a)))"]
  obtain s' where
    4: "seq (if clear_output_callback a then emit ClearOutputCallback else return ())
    (seq (save_checkpoint a epoch)
    (seq (bind total_plus_one (\<lambda>total.
            emit (PrintWithTimestamp
                    ''Time taken for epoch {} (total {}) is {} sec (effective: {} sec)''
                    [PInt (epoch + 1), total])))
    (seq (case totals of
            (clear2fog_loss_total, fog2clear_loss_total, disc_clear_loss_total, disc_fog_loss_total) \<Rightarrow>
              emit (PrintLosses clear2fog_loss_total fog2clear_loss_total
                      disc_clear_loss_total disc_fog_loss_total))
    (seq (write_summaries None totals)
    (seq increment_total_epochs
    (seq (if save_config_each_epoch a then save_config else return ())
         (return (PInt (0 + int (length (zip (train_clear a) (train_fog a)))))))))))) s2 =
      (Inr (PInt (0 + int (length (zip (train_clear a) (train_fog a))))), s')"
    and 5: "self s' = (self s2)\<lparr>total_epochs := PInt (k + 1)\<rparr>"
    by blast
  have "epoch_body a None epoch length' s =
      (Inr (PInt (0 + int (length (zip (train_clear a) (train_fog a))))), s')"
    unfolding epoch_body_def
    by (subst seq_def, subst bind_def, simp only: 1 prod.case sum.case,
        subst seq_def, subst bind_def, simp only: 2 prod.case sum.case,
        subst bind_def, simp only: 3 prod.case sum.case 4)
  moreover have "generators_keep_size (self s')"
    using g2 by (simp add: 5 generators_keep_size_total_epochs)
  ultimately show ?thesis by blast
qed

lemma resumable_file:
  assumes "resumable k trained s"
  shows "files s ''trainer_config.json'' \<noteq> Some Directory"
proof (cases "saved_epochs k (Some ''trainer_config.json'') s")
  case True
  from saved_epochsD[OF this] show ?thesis by auto
next
  case False
  then show ?thesis using assms by (simp add: resumable_def)
qed

text \<open>
  A persistent call of \<open>train\<close> with plain arguments, on generators that keep the size of
  their input, returns.
\<close>

lemma train_returns:
  fixes s :: "('w, 'o) state"
  assumes a: "epochs a = 1" "load_config_first a" "plain a"
    and r: "resumable k trained s"
    and g: "generators_keep_size (self s)"
  shows "\<exists>s'. train a s = (Inr (), s') \<and> generators_keep_size (self s')"
proof -
  have c: "config_path (self s) = Some ''trainer_config.json''"
    using r by (simp add: resumable_def)
  from load_config_resumable[OF r] obtain s1 where
    1: "load_config True s = (Inr (), s1)"
    and e: "epochs_are k (Some ''trainer_config.json'') s1"
    and f: "files s1 = files s"
    and w: "without_persisted (self s1) = without_persisted (self s)"
    by blast
  have g1: "generators_keep_size (self s1)"
    using g without_persisted_generators[OF w] by simp
  have f1: "files s1 ''trainer_config.json'' \<noteq> Some Directory"
    using resumable_file[OF r] f by simp
  from epoch_body_returns[OF a(3) g1 _ _ f1, of k 0 "PStr ''Unknown''"] e
  obtain l s' where
    2: "epoch_body a None 0 (PStr ''Unknown'') s1 = (Inr l, s')"
    and g': "generators_keep_size (self s')"
    by (auto simp: epochs_are_def)
  have "train a s = (Inr (), s')"
    using a c 1 2
    by (simp add: train_def seq_def bind_def plain_def configure_tensorboard_def return_def
        upto.simps)
  with g' show ?thesis by blast
qed

lemma session_returns:
  fixes s :: "('w, 'o) state"
  assumes "\<forall>c \<in> set calls. persistent c \<and> undisturbed c"
    and "resumable k trained s" and "generators_keep_size (self s)"
  shows "\<exists>s'. session calls s = (Inr (), s')"
  using assms
proof (induction calls arbitrary: k trained s)
  case Nil
  then show ?case by (simp add: return_def)
next
  case (Cons c calls)
  have rest: "\<forall>c \<in> set calls. persistent c \<and> undisturbed c"
    using Cons.prems(1) by simp
  show ?case
  proof (cases c)
    case (NewTrainer g1 g2 d1 d2 lam adam n)
    define s1 where "s1 = s\<lparr>self := init g1 g2 d1 d2 lam adam n\<rparr>"
    have "resumable k False s1"
      using Cons.prems(2) by (auto simp: s1_def resumable_def saved_epochs_def init_def)
    moreover have "generators_keep_size (self s1)"
      using Cons.prems(1) NewTrainer by (simp add: s1_def)
    ultimately obtain s' where "session calls s1 = (Inr (), s')"
      using Cons.IH[OF rest] by blast
    then show ?thesis
      by (simp add: NewTrainer seq_def bind_def s1_def)
  next
    case (CallTrain a)
    then have a: "epochs a = 1" "load_config_first a" "save_config_each_epoch a" "plain a"
      using Cons.prems(1) by simp_all
    from train_returns[OF a(1,2,4) Cons.prems(2,3)] obtain s1 where
      1: "train a s = (Inr (), s1)" and g1: "generators_keep_size (self s1)"
      by blast
    have "resumable (k + 1) True s1"
      by (rule hoareD[OF hoare_train_persistent[OF a(1,2,3)] Cons.prems(2) 1])
    then obtain s' where "session calls s1 = (Inr (), s')"
      using Cons.IH[OF rest _ g1] by blast
    then show ?thesis
      by (simp add: CallTrain seq_def bind_def 1)
  qed
qed

lemma new_run_resumable: "new_run s \<Longrightarrow> resumable 0 False s"
  by (simp add: new_run_def resumable_def)

lemma session_counts:
  fixes s :: "('w, 'o) state"
  assumes n: "new_run s" and p: "\<forall>c \<in> set calls. persistent c"
    and l: "calls \<noteq> []" "is_train (last calls)"
    and r: "session calls s = (Inr (), s')"
  shows "total_epochs (self s') = PInt (int (count_trains calls))"
    and "saved_epochs (int (count_trains calls)) (Some ''trainer_config.json'') s'"
proof -
  have "resumable (0 + int (count_trains calls))
      (if calls = [] then False else is_train (last calls)) s'"
    by (rule hoareD[OF hoare_session[OF p] new_run_resumable[OF n] r])
  then have res: "resumable (int (count_trains calls)) True s'"
    using l by simp
  then show "total_epochs (self s') = PInt (int (count_trains calls))"
    by (simp add: resumable_def)
  have "filter is_train calls \<noteq> []"
    using l by (metis filter_empty_conv last_in_set)
  then have "count_trains calls \<noteq> 0"
    by (simp add: count_trains_def)
  with res show "saved_epochs (int (count_trains calls)) (Some ''trainer_config.json'') s'"
    by (simp add: resumable_def)
qed

text \<open>
  C1, as amended. (1) An iteration of the epoch loop that returns has added exactly one to
  \<open>total_epochs\<close>, and (2) the loop over the batches inside it leaves the counter as it was,
  so that the addition comes after it. (3) A call of \<open>train\<close> that does not load the config
  first never lowers an integer counter, however it ends, and (4) when it returns it has
  added the number of epochs. (5) Take a new \<open>Trainer\<close> with no config file yet and a
  sequence of calls of \<open>train\<close>, each for one epoch with \<open>load_config_first\<close> and
  \<open>save_config_each_epoch\<close>, with new \<open>Trainer\<close> objects constructed in between at will, as
  after a restart: if all calls return, then after the \<open>N\<close>th call \<open>total_epochs\<close> is \<open>N\<close>,
  and so is the count in the config file. (6) The calls do return when their arguments are
  plain and the generators keep the size of their input.
\<close>

theorem total_epochs_counts_epochs:
  fixes s :: "('w, 'o) state"
  shows
  "(total_epochs (self s) = PInt k \<and> epoch_body a writers epoch length' s = (Inr l, s') \<longrightarrow>
      total_epochs (self s') = PInt (k + 1)) \<and>
   total_epochs (self (snd (batch_loop a length' ds acc s))) = total_epochs (self s) \<and>
   (\<not> load_config_first a \<longrightarrow>
      epochs_le (total_epochs (self s)) (total_epochs (self (snd (train a s))))) \<and>
   (\<not> load_config_first a \<and> total_epochs (self s) = PInt k \<and> fst (train a s) = Inr () \<longrightarrow>
      total_epochs (self (snd (train a s))) = PInt (k + max 0 (epochs a))) \<and>
   (new_run s \<and> (\<forall>c \<in> set calls. persistent c) \<and> calls \<noteq> [] \<and> is_train (last calls) \<and>
    fst (session calls s) = Inr () \<longrightarrow>
      total_epochs (self (snd (session calls s))) = PInt (int (count_trains calls)) \<and>
      saved_epochs (int (count_trains calls)) (Some ''trainer_config.json'')
        (snd (session calls s))) \<and>
   (new_run s \<and> generators_keep_size (self s) \<and>
    (\<forall>c \<in> set calls. persistent c \<and> undisturbed c) \<longrightarrow>
      fst (session calls s) = Inr ())"
proof (intro conjI impI)
  assume "total_epochs (self s) = PInt k \<and> epoch_body a writers epoch length' s = (Inr l, s')"
  then have "epochs_are k (config_path (self s)) s"
    and "epoch_body a writers epoch length' s = (Inr l, s')"
    by (simp_all add: epochs_are_def)
  from hoareD[OF hoare_epoch_body this]
  show "total_epochs (self s') = PInt (k + 1)"
    by (simp add: epochs_are_def)
next
  show "total_epochs (self (snd (batch_loop a length' ds acc s))) = total_epochs (self s)"
    using establishesD[OF quiet_batch_loop[of a length' ds acc], of s]
    by (simp add: quiet_def)
next
  assume "\<not> load_config_first a"
  from establishesD[OF not_decreased_train[OF this], of s]
  show "epochs_le (total_epochs (self s)) (total_epochs (self (snd (train a s))))"
    by (simp add: not_decreased_def)
next
  assume h: "\<not> load_config_first a \<and> total_epochs (self s) = PInt k \<and> fst (train a s) = Inr ()"
  then have "epochs_are k (config_path (self s)) s"
    and "train a s = (Inr (), snd (train a s))"
    by (simp_all add: epochs_are_def prod_eq_iff)
  from hoareD[OF train_without_load this] h
  show "total_epochs (self (snd (train a s))) = PInt (k + max 0 (epochs a))"
    by (simp add: epochs_are_def)
next
  assume h: "new_run s \<and> (\<forall>c \<in> set calls. persistent c) \<and> calls \<noteq> [] \<and>
    is_train (last calls) \<and> fst (session calls s) = Inr ()"
  then have r: "session calls s = (Inr (), snd (session calls s))"
    by (simp add: prod_eq_iff)
  from h session_counts[OF _ _ _ _ r]
  show "total_epochs (self (snd (session calls s))) = PInt (int (count_trains calls))"
    and "saved_epochs (int (count_trains calls)) (Some ''trainer_config.json'')
        (snd (session calls s))"
    by blast+
next
  assume h: "new_run s \<and> generators_keep_size (self s) \<and>
    (\<forall>c \<in> set calls. persistent c \<and> undisturbed c)"
  then obtain s' where "session calls s = (Inr (), s')"
    using session_returns[of calls 0 False s] new_run_resumable[of s] by blast
  then show "fst (session calls s) = Inr ()" by simp
qed

lemma sample_new_run: "new_run sample_state"
  by (simp add: new_run_def sample_state_def sample_trainer_def init_def)

lemma one_epoch_args:
  "epochs one_epoch = 1" "load_config_first one_epoch" "save_config_each_epoch one_epoch"
  "plain one_epoch"
  by (simp_all add: one_epoch_def default_args_def plain_def)

lemma sample_init_keeps_size:
  "generators_keep_size (init sample_network sample_network sample_network sample_network
     (Num 10) sample_optimizer True :: (real, nat) Trainer)"
  using sample_generators_keep_size
  by (simp add: sample_state_def sample_trainer_def)

theorem total_epochs_counts_epochs_witness:
  "fst (session
     [CallTrain one_epoch, CallTrain one_epoch,
      NewTrainer sample_network sample_network sample_network sample_network (Num 10)
        sample_optimizer True,
      CallTrain one_epoch] sample_state) = Inr () \<and>
   total_epochs (self (snd (session
     [CallTrain one_epoch, CallTrain one_epoch,
      NewTrainer sample_network sample_network sample_network sample_network (Num 10)
        sample_optimizer True,
      CallTrain one_epoch] sample_state))) = PInt 3"
proof -
  note counts = total_epochs_counts_epochs[where s = sample_state and calls =
      "[CallTrain one_epoch, CallTrain one_epoch,
        NewTrainer sample_network sample_network sample_network sample_network (Num 10)
          sample_optimizer True,
        CallTrain one_epoch]"]
  have returns: "fst (session
     [CallTrain one_epoch, CallTrain one_epoch,
      NewTrainer sample_network sample_network sample_network sample_network (Num 10)
        sample_optimizer True,
      CallTrain one_epoch] sample_state) = Inr ()"
    by (rule counts[THEN conjunct2, THEN conjunct2, THEN conjunct2, THEN conjunct2,
          THEN conjunct2, rule_format])
      (simp add: sample_new_run sample_generators_keep_size one_epoch_args
        sample_init_keeps_size)
  have "total_epochs (self (snd (session
     [CallTrain one_epoch, CallTrain one_epoch,
      NewTrainer sample_network sample_network sample_network sample_network (Num 10)
        sample_optimizer True,
      CallTrain one_epoch] sample_state))) = PInt (int (count_trains
     [CallTrain one_epoch, CallTrain one_epoch,
      NewTrainer sample_network sample_network sample_network sample_network (Num 10)
        sample_optimizer True,
      CallTrain one_epoch :: (real, nat) step]))"
    by (rule counts[THEN conjunct2, THEN conjunct2, THEN conjunct2, THEN conjunct2,
          THEN conjunct1, rule_format, THEN conjunct1])
      (simp add: sample_new_run one_epoch_args returns del: session.simps)
  with returns show ?thesis
    by (simp add: count_trains_def)
qed

text \<open>
  C1, as stated, fails: \<open>load_config\<close> sets \<open>total_epochs\<close> to the count in the file, which is
  the smaller one when epochs have run since without saving the config. From the state with
  five epochs counted and two on file, \<open>load_config\<close> leaves 2, and a call of \<open>train\<close> for one
  epoch, loading the config first and saving it after the epoch, returns with 3.
\<close>

theorem load_config_lowers_total_epochs:
  "total_epochs (self stale_state) = PInt 5 \<and>
   fst (load_config True stale_state) = Inr () \<and>
   total_epochs (self (snd (load_config True stale_state))) = PInt 2 \<and>
   fst (train one_epoch stale_state) = Inr () \<and>
   total_epochs (self (snd (train one_epoch stale_state))) = PInt 3"
proof -
  have r: "resumable 2 False stale_state"
    by (simp add: resumable_def saved_epochs_def stale_state_def sample_state_def
        sample_trainer_def init_def)
  have g: "generators_keep_size (self stale_state)"
    using sample_generators_keep_size
    by (simp add: stale_state_def sample_state_def generators_keep_size_total_epochs)
  from load_config_resumable[OF r] have
    "fst (load_config True stale_state) = Inr ()"
    "total_epochs (self (snd (load_config True stale_state))) = PInt 2"
    by (auto simp: epochs_are_def)
  moreover from train_returns[OF one_epoch_args(1,2,4) r g] obtain s' where
    t: "train one_epoch stale_state = (Inr (), s')"
    by blast
  have "resumable (2 + 1) True s'"
    by (rule hoareD[OF hoare_train_persistent[OF one_epoch_args(1,2,3)] r t])
  then have "total_epochs (self (snd (train one_epoch stale_state))) = PInt 3"
    by (simp add: resumable_def t)
  moreover have "total_epochs (self stale_state) = PInt 5"
    by (simp add: stale_state_def)
  ultimately show ?thesis using t by simp
qed

end
